theory Spec2Isabelle
  imports Main "HOL-Library.Word" "HOL-Library.Signed_Division" "HOL-Library.AList"
begin

unbundle bit_operations_syntax

section \<open>Bytecode (package op)\<close>

text \<open>
  Package \<open>op\<close> is not among the source files. Its type \<open>op.Code\<close> is the element type of
  an instruction buffer; the compiler converts every \<open>uint16\<close> operand into one
  \<open>op.Code\<close>, and the specification calls the elements code words. A code word is
  modelled as a 16-bit machine word.
\<close>

type_synonym code = "16 word"

text \<open>The opcodes named by the compiler (\<open>c.emit(op.X, ...)\<close>) and by the switch of \<open>VM.Run\<close>.\<close>

datatype opcode =
    OpNop | OpLoadAttr | OpLoadConst | OpLoadFast | OpLoadGlobal | OpLoadFree
  | OpStoreFast | OpStoreGlobal | OpStoreFree | OpLoadClosure | OpMakeCell
  | OpNil | OpTrue | OpFalse | OpCompareOp | OpBinaryOp | OpCall | OpReturnValue
  | OpPopJumpForwardIfTrue | OpPopJumpForwardIfFalse
  | OpPopJumpBackwardIfTrue | OpPopJumpBackwardIfFalse
  | OpJumpForward | OpJumpBackward | OpPrint | OpBuildList | OpBuildMap | OpBuildSet
  | OpBinarySubscr | OpUnaryNegative | OpUnaryNot | OpContainsOp | OpHalt
  | OpLoadBuiltin

datatype CompareOpType =
  Equal | NotEqual | LessThan | LessThanOrEqual | GreaterThan | GreaterThanOrEqual

datatype BinaryOpType =
  Add | Subtract | Multiply | Divide | Modulo | And | Or | Xor | Power | LShift | RShift

text \<open>
  The numeric values of the constants of package \<open>op\<close> are not in the sources either, and
  the specification does not give them. They are a parameter of the model: every function
  that writes or reads an opcode takes the numbering.
\<close>

record numbering =
  opNum :: "opcode \<Rightarrow> code"
  compareNum :: "CompareOpType \<Rightarrow> code"
  binaryNum :: "BinaryOpType \<Rightarrow> code"

text \<open>
  Modelled from the spec: the table \<open>op.OperandCount\<close> is not in the sources. The number of
  operands of each opcode is the one of the opcode table of section 4.3 of the
  specification (\<open>Print\<close> takes none); it agrees with every \<open>c.emit\<close> call of the compiler.
\<close>

fun OperandCount :: "opcode \<Rightarrow> nat" where
  "OperandCount OpNop = 0"
| "OperandCount OpLoadAttr = 1"
| "OperandCount OpLoadConst = 1"
| "OperandCount OpLoadFast = 1"
| "OperandCount OpLoadGlobal = 1"
| "OperandCount OpLoadFree = 1"
| "OperandCount OpStoreFast = 1"
| "OperandCount OpStoreGlobal = 1"
| "OperandCount OpStoreFree = 1"
| "OperandCount OpLoadClosure = 2"
| "OperandCount OpMakeCell = 2"
| "OperandCount OpNil = 0"
| "OperandCount OpTrue = 0"
| "OperandCount OpFalse = 0"
| "OperandCount OpCompareOp = 1"
| "OperandCount OpBinaryOp = 1"
| "OperandCount OpCall = 1"
| "OperandCount OpReturnValue = 1"
| "OperandCount OpPopJumpForwardIfTrue = 1"
| "OperandCount OpPopJumpForwardIfFalse = 1"
| "OperandCount OpPopJumpBackwardIfTrue = 1"
| "OperandCount OpPopJumpBackwardIfFalse = 1"
| "OperandCount OpJumpForward = 1"
| "OperandCount OpJumpBackward = 1"
| "OperandCount OpPrint = 0"
| "OperandCount OpBuildList = 1"
| "OperandCount OpBuildMap = 1"
| "OperandCount OpBuildSet = 1"
| "OperandCount OpBinarySubscr = 0"
| "OperandCount OpUnaryNegative = 0"
| "OperandCount OpUnaryNot = 0"
| "OperandCount OpContainsOp = 1"
| "OperandCount OpHalt = 0"
| "OperandCount OpLoadBuiltin = 1"

section \<open>Failures\<close>

text \<open>
  An \<open>error\<close> is a Go error value that a function returns. A \<open>panic\<close> is a Go run-time
  panic: the function does not return, the goroutine unwinds, and since neither the
  compiler nor \<open>VM.Run\<close> recovers, the host process terminates unless its caller recovers.
\<close>

datatype panic =
    IndexOutOfRange
  | NilDereference
  | TypeAssertion
  | IntegerDivideByZero
  | NegativeShift
  | UnknownCompareOp
  | WrongOperandCount
  | UnknownAstNode

section \<open>Symbols (package symbol)\<close>

text \<open>
  Modelled from the spec: package \<open>symbol\<close> is not among the source files. The definitions
  of this section follow sections 3 and 4.1 of the specification. One \<open>Table\<close> value is a
  function-level table together with the chain of block tables opened inside it (innermost
  first), which share its index counter; the link to the enclosing function's table is
  the compiler's chain of scopes.
\<close>

datatype ScopeClass = ScopeGlobal | ScopeLocal | ScopeFree | ScopeBuiltin

datatype 'v Symbol = Symbol (symName: string) (Index: code) (AttrsValue: "'v option")

datatype 'v Resolution = Resolution (resSymbol: "'v Symbol") (resScope: ScopeClass) (Depth: nat)

datatype 'v Table = Table
  (blocks: "(string \<times> 'v Symbol) list list")
  (counter: nat)
  (freeList: "'v Resolution list")
  (builtins: "(string \<times> 'v Symbol) list")

section \<open>Values (package object) and compilation scopes\<close>

text \<open>
  Package \<open>object\<close> is not among the source files; the constructors below are the value
  variants of section 3 of the specification that the compiler and the VM build or
  inspect. \<open>GoNil\<close> is Go's nil interface value (what \<open>VM.Pop\<close> returns on an empty stack
  and what fresh slices hold), different from the language's \<open>Nil\<close> singleton. A \<open>Cell\<close>
  holds the address of a slot; a closure is a \<open>CompiledFunction\<close> whose free variables are
  populated. \<open>Integer\<close> is \<open>object.Int\<close> (an \<open>int64\<close>). The payload of a \<open>Float\<close> is the
  IEEE-754 bit pattern of the \<open>float64\<close>; the VM only negates it, which flips the sign bit.
\<close>

type_synonym float64 = "64 word"

datatype Loop = Loop (ContinuePos: "code list") (BreakPos: "code list")

datatype object =
    GoNil
  | Nil
  | Bool bool
  | Integer "64 word"
  | Float float64
  | String string
  | List "object list"
  | Map "(string \<times> object) list"
  | Set "object list"
  | Builtin string
  | CompiledFunction (fnName: string) (fnParams: "string list") (fnDefaults: "object list")
      (fnInstructions: "code list") (fnScope: Scope) (FreeVars: "nat list")
  | Cell nat
  | ErrorValue string
and Scope = Scope
  (Name: string)
  (IsNamed: bool)
  (Symbols: "object Table")
  (Instructions: "code list")
  (Constants: "object list")
  (Names: "string list")
  (Children: "Scope list")
  (Loops: "Loop list")

text \<open>An \<open>error\<close> is a Go error value that the compiler or \<open>VM.Run\<close> returns.\<close>

datatype error =
    AttributeNotFound string
  | ExpectedCell
  | NoFrameAtDepth int
  | FrameOverflow
  | NotAFunction object
  | FrameUnderflow
  | NotAContainer object
  | ItemError object
  | NotANumber object
  | UnknownOpcode code
  | UndefinedVariable string
  | InvalidOperationOnBuiltin string
  | UnknownOperator string
  | InvalidCallExpression
  | ReturnOutsideOfFunction
  | BreakOutsideOfLoop
  | ContinueOutsideOfLoop
  | Redeclared string

datatype fault = Error error | Panic panic

text \<open>
  The methods of the \<open>object.Object\<close> interface and the foreign functions that the VM
  calls are implemented in package \<open>object\<close> and in Go's \<open>math\<close> package. They are a
  parameter of the model.
\<close>

record host =
  IsTruthy :: "object \<Rightarrow> bool"
  Equals :: "object \<Rightarrow> object \<Rightarrow> object"
  GetAttr :: "object \<Rightarrow> string \<Rightarrow> object option"
  BuiltinCall :: "object \<Rightarrow> object list \<Rightarrow> object"
  IsContainer :: "object \<Rightarrow> bool"
  GetItem :: "object \<Rightarrow> object \<Rightarrow> object + object"
  Contains :: "object \<Rightarrow> object \<Rightarrow> object"
  ObjectNot :: "object \<Rightarrow> object"
  MathPow :: "64 word \<Rightarrow> 64 word \<Rightarrow> 64 word"

section \<open>The virtual machine (internal/vm/vm.go)\<close>

definition MaxArgs :: nat where
  "MaxArgs = 255"

definition MaxFrameDepth :: nat where
  "MaxFrameDepth = 1024"

text \<open>
  Modelled from the spec: the type \<open>Frame\<close> and its methods \<open>Init\<close>, \<open>InitWithLocals\<close>,
  \<open>Locals\<close> and \<open>Scope\<close> are not among the source files. A frame is the record of section 3 of
  the specification. The VM takes the address of a local (\<open>&locals[symbolIndex]\<close>) and
  stores it in a \<open>Cell\<close>, so the locals of a frame are addresses into a store of slots
  (\<open>heap\<close> below), and a frame that is initialised gets fresh slots.
\<close>

record Frame =
  fn :: "object option"
  locals :: "nat list"
  returnAddr :: int
  scope :: "Scope option"

text \<open>
  The fields of \<open>VM\<close>, then the store of slots, then \<open>currentFrame\<close>, the local variable of
  \<open>Run\<close> that points into \<open>frames\<close> (kept as an index). The array \<open>frames\<close> is kept as the
  list of its first entries: the entries beyond the list are zero frames, as in a new
  array (\<open>frameAt\<close> reads an entry, \<open>setFrame\<close> writes one). \<open>framesIndex\<close> is only changed under
  the guards of \<open>Call\<close> and \<open>ReturnValue\<close>, which keep it in \<open>0 .. 1023\<close>. The head of
  \<open>stack\<close> is the top of the operand stack; the type \<open>Stack\<close> is not among the source files,
  and the stack is modelled without a capacity limit.
\<close>

record VM =
  ip :: int
  sp :: int
  stack :: "object list"
  frames :: "Frame list"
  framesIndex :: nat
  main :: "Scope option"
  currentScope :: "Scope option"
  globals :: "object list"
  heap :: "object list"
  currentFrame :: nat

datatype 'a outcome = Next 'a | Return "error option" 'a | Panicked panic

definition Size :: "'v Table \<Rightarrow> code" where
  "Size t = of_nat (counter t)"

definition Map_of_table :: "'v Table \<Rightarrow> (string \<times> 'v Symbol) list" where
  "Map_of_table t = (case blocks t of [] \<Rightarrow> [] | bs \<Rightarrow> last bs)"

definition zeroFrame :: Frame where
  "zeroFrame = \<lparr>fn = None, locals = [], returnAddr = 0, scope = None\<rparr>"

definition frameAt :: "VM \<Rightarrow> nat \<Rightarrow> Frame" where
  "frameAt vm i = (if i < length (frames vm) then frames vm ! i else zeroFrame)"

definition setFrame :: "nat \<Rightarrow> Frame \<Rightarrow> VM \<Rightarrow> VM" where
  "setFrame i f vm =
     vm\<lparr>frames := (frames vm @ replicate (Suc i - length (frames vm)) zeroFrame)[i := f]\<rparr>"

definition allocate :: "object list \<Rightarrow> VM \<Rightarrow> nat list \<times> VM" where
  "allocate vs vm =
     ([length (heap vm) ..< length (heap vm) + length vs], vm\<lparr>heap := heap vm @ vs\<rparr>)"

definition Init :: "nat \<Rightarrow> object option \<Rightarrow> int \<Rightarrow> nat \<Rightarrow> VM \<Rightarrow> VM" where
  "Init i f ret localsCount vm =
     (case allocate (replicate localsCount GoNil) vm of (addrs, vm1) \<Rightarrow>
        setFrame i \<lparr>fn = f, locals = addrs, returnAddr = ret, scope = scope (frameAt vm1 i)\<rparr>
          vm1)"

definition InitWithLocals :: "nat \<Rightarrow> object \<Rightarrow> int \<Rightarrow> object list \<Rightarrow> VM \<Rightarrow> VM" where
  "InitWithLocals i f ret args vm =
     (let n = unat (Size (Symbols (fnScope f)));
          vs = take n (args @ replicate (n - length args) GoNil)
      in case allocate vs vm of (addrs, vm1) \<Rightarrow>
        setFrame i \<lparr>fn = Some f, locals = addrs, returnAddr = ret, scope = Some (fnScope f)\<rparr>
          vm1)"

definition setGlobal :: "object Symbol \<Rightarrow> object list \<Rightarrow> panic + object list" where
  "setGlobal sy gs =
     (case AttrsValue sy of
        None \<Rightarrow> Inr gs
      | Some v \<Rightarrow> if unat (Index sy) < length gs then Inr (gs[unat (Index sy) := v])
                  else Inl IndexOutOfRange)"

fun setGlobals :: "object Symbol list \<Rightarrow> object list \<Rightarrow> panic + object list" where
  "setGlobals [] gs = Inr gs"
| "setGlobals (sy # syms) gs =
     (case setGlobal sy gs of Inl p \<Rightarrow> Inl p | Inr gs1 \<Rightarrow> setGlobals syms gs1)"

definition New :: "Scope \<Rightarrow> panic + VM" where
  "New m =
     (let syms = Map_of_table (Symbols m) in
      case setGlobals (map snd syms) (replicate (length syms) GoNil) of
        Inl p \<Rightarrow> Inl p
      | Inr gs \<Rightarrow> Inr \<lparr>ip = 0, sp = - 1, stack = [], frames = [], framesIndex = 0,
                       main = Some m, currentScope = Some m, globals = gs, heap = [],
                       currentFrame = 0\<rparr>)"

definition Pop :: "VM \<Rightarrow> object \<times> VM" where
  "Pop vm = (case stack vm of [] \<Rightarrow> (GoNil, vm) | x # xs \<Rightarrow> (x, vm\<lparr>stack := xs\<rparr>))"

definition Push :: "object \<Rightarrow> VM \<Rightarrow> VM" where
  "Push x vm = vm\<lparr>stack := x # stack vm\<rparr>"

definition top :: "VM \<Rightarrow> object" where
  "top vm = (case stack vm of [] \<Rightarrow> GoNil | x # xs \<Rightarrow> x)"

text \<open>Indexing a Go slice with an \<open>int\<close>: \<open>None\<close> is the index-out-of-range panic.\<close>

definition index :: "'a list \<Rightarrow> int \<Rightarrow> 'a option" where
  "index xs i = (if 0 \<le> i \<and> i < int (length xs) then Some (xs ! nat i) else None)"

definition instructions :: "VM \<Rightarrow> code list option" where
  "instructions vm = map_option Instructions (currentScope vm)"

definition fetch :: "VM \<Rightarrow> panic + 8 word \<times> VM" where
  "fetch vm =
     (case instructions vm of
        None \<Rightarrow> Inl NilDereference
      | Some instr \<Rightarrow>
          (case index instr (ip vm) of
             None \<Rightarrow> Inl IndexOutOfRange
           | Some w \<Rightarrow> Inr (ucast w, vm\<lparr>ip := ip vm + 1\<rparr>)))"

definition fetch2 :: "VM \<Rightarrow> panic + code \<times> VM" where
  "fetch2 vm =
     (case instructions vm of
        None \<Rightarrow> Inl NilDereference
      | Some instr \<Rightarrow>
          (case index instr (ip vm) of
             None \<Rightarrow> Inl IndexOutOfRange
           | Some lo \<Rightarrow>
               (case index instr (ip vm + 1) of
                  None \<Rightarrow> Inl IndexOutOfRange
                | Some hi \<Rightarrow> Inr (lo OR push_bit 8 hi, vm\<lparr>ip := ip vm + 2\<rparr>))))"

text \<open>Reading and writing a slot of the store (a dereferenced pointer to a local).\<close>

definition load :: "nat \<Rightarrow> VM \<Rightarrow> object" where
  "load a vm = (if a < length (heap vm) then heap vm ! a else GoNil)"

definition store :: "nat \<Rightarrow> object \<Rightarrow> VM \<Rightarrow> VM" where
  "store a v vm = vm\<lparr>heap := (heap vm)[a := v]\<rparr>"

fun popN :: "nat \<Rightarrow> VM \<Rightarrow> object list \<times> VM" where
  "popN 0 vm = ([], vm)"
| "popN (Suc n) vm =
     (case Pop vm of (x, vm1) \<Rightarrow> (case popN n vm1 of (xs, vm2) \<Rightarrow> (x # xs, vm2)))"

text \<open>The loop of \<open>LoadClosure\<close>: \<open>None\<close> when a popped value is not a cell.\<close>

fun popCells :: "nat \<Rightarrow> VM \<Rightarrow> nat list option \<times> VM" where
  "popCells 0 vm = (Some [], vm)"
| "popCells (Suc n) vm =
     (case Pop vm of (obj, vm1) \<Rightarrow>
        (case obj of
           Cell a \<Rightarrow> (case popCells n vm1 of
                        (None, vm2) \<Rightarrow> (None, vm2)
                      | (Some cells, vm2) \<Rightarrow> (Some (a # cells), vm2))
         | _ \<Rightarrow> (None, vm1)))"

text \<open>The loop of \<open>BuildMap\<close>: \<open>TypeAssertion\<close> when a key is not a string.\<close>

fun popPairs :: "nat \<Rightarrow> (string \<times> object) list \<Rightarrow> VM \<Rightarrow> panic + (string \<times> object) list \<times> VM" where
  "popPairs 0 items vm = Inr (items, vm)"
| "popPairs (Suc n) items vm =
     (case Pop vm of (v, vm1) \<Rightarrow>
        (case Pop vm1 of (k, vm2) \<Rightarrow>
           (case k of
              String key \<Rightarrow> popPairs n (AList.update key v items) vm2
            | _ \<Rightarrow> Inl TypeAssertion)))"

text \<open>Modelled from the spec: \<open>object.NewClosure\<close> wraps a compiled function with its cells.\<close>

definition NewClosure :: "object \<Rightarrow> Scope \<Rightarrow> nat list \<Rightarrow> object" where
  "NewClosure f sc free =
     (case f of
        CompiledFunction n ps ds ins fsc fv \<Rightarrow> CompiledFunction n ps ds ins sc free
      | _ \<Rightarrow> f)"

text \<open>Both operands asserted to be \<open>*object.Int\<close>, the left one first.\<close>

definition intOperands :: "object \<Rightarrow> object \<Rightarrow> panic + 64 word \<times> 64 word" where
  "intOperands a b =
     (case a of
        Integer x \<Rightarrow> (case b of Integer y \<Rightarrow> Inr (x, y) | _ \<Rightarrow> Inl TypeAssertion)
      | _ \<Rightarrow> Inl TypeAssertion)"

definition NewBool :: "bool \<Rightarrow> object" where
  "NewBool b = Bool b"

text \<open>
  \<open>runCompareOp\<close>; the operation type is \<open>None\<close> when the fetched byte is the number of no
  comparison (the \<open>default\<close> branch).
\<close>

fun runCompareOp :: "host \<Rightarrow> CompareOpType option \<Rightarrow> object \<Rightarrow> object \<Rightarrow> panic + object" where
  "runCompareOp H (Some Equal) a b =
     (if a = GoNil then Inl NilDereference else Inr (Equals H a b))"
| "runCompareOp H (Some NotEqual) a b =
     (if a = GoNil then Inl NilDereference
      else if Equals H a b = Bool True then Inr (Bool False) else Inr (Bool True))"
| "runCompareOp H (Some LessThan) a b =
     (case intOperands a b of Inl p \<Rightarrow> Inl p | Inr (x, y) \<Rightarrow> Inr (NewBool (sint x < sint y)))"
| "runCompareOp H (Some LessThanOrEqual) a b =
     (case intOperands a b of Inl p \<Rightarrow> Inl p | Inr (x, y) \<Rightarrow> Inr (NewBool (sint x \<le> sint y)))"
| "runCompareOp H (Some GreaterThan) a b =
     (case intOperands a b of Inl p \<Rightarrow> Inl p | Inr (x, y) \<Rightarrow> Inr (NewBool (sint x > sint y)))"
| "runCompareOp H (Some GreaterThanOrEqual) a b =
     (case intOperands a b of Inl p \<Rightarrow> Inl p | Inr (x, y) \<Rightarrow> Inr (NewBool (sint x \<ge> sint y)))"
| "runCompareOp H None a b = Inl UnknownCompareOp"

text \<open>
  \<open>runBinaryOp\<close> on \<open>int64\<close> values: \<open>+\<close>, \<open>-\<close> and \<open>*\<close> wrap, \<open>/\<close> and \<open>%\<close> truncate towards
  zero and panic on a zero divisor, a shift by a negative count panics. An operation type
  that is no case of the switch falls through to \<open>return nil\<close>.
\<close>

fun runBinaryOp :: "host \<Rightarrow> BinaryOpType option \<Rightarrow> object \<Rightarrow> object \<Rightarrow> panic + object" where
  "runBinaryOp H None a b = Inr GoNil"
| "runBinaryOp H (Some k) a b =
     (case intOperands a b of
        Inl p \<Rightarrow> Inl p
      | Inr (x, y) \<Rightarrow>
          (case k of
             Add \<Rightarrow> Inr (Integer (x + y))
           | Subtract \<Rightarrow> Inr (Integer (x - y))
           | Multiply \<Rightarrow> Inr (Integer (x * y))
           | Divide \<Rightarrow> if y = 0 then Inl IntegerDivideByZero
                       else Inr (Integer (word_of_int (sint x sdiv sint y)))
           | Modulo \<Rightarrow> if y = 0 then Inl IntegerDivideByZero
                       else Inr (Integer (word_of_int (sint x smod sint y)))
           | And \<Rightarrow> Inr (Integer (x AND y))
           | Or \<Rightarrow> Inr (Integer (x OR y))
           | Xor \<Rightarrow> Inr (Integer (x XOR y))
           | Power \<Rightarrow> Inr (Integer (MathPow H x y))
           | LShift \<Rightarrow> if sint y < 0 then Inl NegativeShift
                       else Inr (Integer (push_bit (nat (sint y)) x))
           | RShift \<Rightarrow> if sint y < 0 then Inl NegativeShift
                       else Inr (Integer (signed_drop_bit (nat (sint y)) x))))"

text \<open>The cases of the switch of \<open>VM.Run\<close>, in its order; \<open>op.LoadBuiltin\<close> is not one of them.\<close>

definition switchCases :: "opcode list" where
  "switchCases =
     [OpNop, OpLoadAttr, OpLoadConst, OpLoadFast, OpLoadGlobal, OpLoadFree, OpStoreFast,
      OpStoreGlobal, OpStoreFree, OpLoadClosure, OpMakeCell, OpNil, OpTrue, OpFalse,
      OpCompareOp, OpBinaryOp, OpCall, OpReturnValue, OpPopJumpForwardIfTrue,
      OpPopJumpForwardIfFalse, OpPopJumpBackwardIfTrue, OpPopJumpBackwardIfFalse,
      OpJumpForward, OpJumpBackward, OpPrint, OpBuildList, OpBuildMap, OpBuildSet,
      OpBinarySubscr, OpUnaryNegative, OpUnaryNot, OpContainsOp, OpHalt]"

definition decode :: "numbering \<Rightarrow> code \<Rightarrow> opcode option" where
  "decode N w = find (\<lambda>opc. opNum N opc = w) switchCases"

definition decodeCompare :: "numbering \<Rightarrow> 8 word \<Rightarrow> CompareOpType option" where
  "decodeCompare N b =
     find (\<lambda>k. compareNum N k = ucast b)
       [Equal, NotEqual, LessThan, LessThanOrEqual, GreaterThan, GreaterThanOrEqual]"

definition decodeBinary :: "numbering \<Rightarrow> 8 word \<Rightarrow> BinaryOpType option" where
  "decodeBinary N b =
     find (\<lambda>k. binaryNum N k = ucast b)
       [Add, Subtract, Multiply, Divide, Modulo, And, Or, Xor, Power, LShift, RShift]"

definition jump :: "bool \<Rightarrow> int \<Rightarrow> VM \<Rightarrow> VM" where
  "jump cond delta vm = (if cond then vm\<lparr>ip := ip vm + delta\<rparr> else vm)"

text \<open>
  The body of the switch of \<open>VM.Run\<close> for one opcode, entered after \<open>vm.ip++\<close>; \<open>sc\<close> is the
  local \<open>scope\<close>. The last equation is the \<open>default\<close> branch.
\<close>

fun exec :: "host \<Rightarrow> numbering \<Rightarrow> Scope \<Rightarrow> opcode \<Rightarrow> VM \<Rightarrow> VM outcome" where
  "exec H N sc OpNop vm = Next vm"
| "exec H N sc OpLoadAttr vm =
     (case Pop vm of (obj, vm1) \<Rightarrow>
        (case fetch2 vm1 of
           Inl p \<Rightarrow> Panicked p
         | Inr (i, vm2) \<Rightarrow>
             (case index (Names sc) (uint i) of
                None \<Rightarrow> Panicked IndexOutOfRange
              | Some name \<Rightarrow>
                  if obj = GoNil then Panicked NilDereference
                  else (case GetAttr H obj name of
                          None \<Rightarrow> Return (Some (AttributeNotFound name)) vm2
                        | Some v \<Rightarrow> Next (Push v vm2)))))"
| "exec H N sc OpLoadConst vm =
     (case fetch2 vm of
        Inl p \<Rightarrow> Panicked p
      | Inr (i, vm1) \<Rightarrow>
          (case index (Constants sc) (uint i) of
             None \<Rightarrow> Panicked IndexOutOfRange
           | Some v \<Rightarrow> Next (Push v vm1)))"
| "exec H N sc OpLoadFast vm =
     (case fetch2 vm of
        Inl p \<Rightarrow> Panicked p
      | Inr (i, vm1) \<Rightarrow>
          (case index (locals (frameAt vm1 (currentFrame vm1))) (uint i) of
             None \<Rightarrow> Panicked IndexOutOfRange
           | Some a \<Rightarrow> Next (Push (load a vm1) vm1)))"
| "exec H N sc OpLoadGlobal vm =
     (case fetch2 vm of
        Inl p \<Rightarrow> Panicked p
      | Inr (i, vm1) \<Rightarrow>
          (case index (globals vm1) (uint i) of
             None \<Rightarrow> Panicked IndexOutOfRange
           | Some v \<Rightarrow> Next (Push v vm1)))"
| "exec H N sc OpLoadFree vm =
     (case fn (frameAt vm (currentFrame vm)) of
        None \<Rightarrow> Panicked NilDereference
      | Some f \<Rightarrow>
          (case fetch2 vm of
             Inl p \<Rightarrow> Panicked p
           | Inr (i, vm1) \<Rightarrow>
               (case index (FreeVars f) (uint i) of
                  None \<Rightarrow> Panicked IndexOutOfRange
                | Some a \<Rightarrow> Next (Push (load a vm1) vm1))))"
| "exec H N sc OpStoreFast vm =
     (case fetch vm of
        Inl p \<Rightarrow> Panicked p
      | Inr (i, vm1) \<Rightarrow>
          (case Pop vm1 of (v, vm2) \<Rightarrow>
             (case index (locals (frameAt vm2 (currentFrame vm2))) (uint i) of
                None \<Rightarrow> Panicked IndexOutOfRange
              | Some a \<Rightarrow> Next (store a v vm2))))"
| "exec H N sc OpStoreGlobal vm =
     (case fetch2 vm of
        Inl p \<Rightarrow> Panicked p
      | Inr (i, vm1) \<Rightarrow>
          (case Pop vm1 of (v, vm2) \<Rightarrow>
             if unat i < length (globals vm2)
             then Next (vm2\<lparr>globals := (globals vm2)[unat i := v]\<rparr>)
             else Panicked IndexOutOfRange))"
| "exec H N sc OpStoreFree vm =
     (case fn (frameAt vm (currentFrame vm)) of
        None \<Rightarrow> Panicked NilDereference
      | Some f \<Rightarrow>
          (case fetch2 vm of
             Inl p \<Rightarrow> Panicked p
           | Inr (i, vm1) \<Rightarrow>
               (case index (FreeVars f) (uint i) of
                  None \<Rightarrow> Panicked IndexOutOfRange
                | Some a \<Rightarrow> (case Pop vm1 of (v, vm2) \<Rightarrow> Next (store a v vm2)))))"
| "exec H N sc OpLoadClosure vm =
     (case fetch2 vm of
        Inl p \<Rightarrow> Panicked p
      | Inr (constIndex, vm1) \<Rightarrow>
          (case fetch2 vm1 of
             Inl p \<Rightarrow> Panicked p
           | Inr (freeCount, vm2) \<Rightarrow>
               (case popCells (unat freeCount) vm2 of
                  (None, vm3) \<Rightarrow> Return (Some ExpectedCell) vm3
                | (Some free, vm3) \<Rightarrow>
                    (case index (Constants sc) (uint constIndex) of
                       None \<Rightarrow> Panicked IndexOutOfRange
                     | Some f \<Rightarrow>
                         (case f of
                            CompiledFunction n ps ds ins fsc fv \<Rightarrow>
                              Next (Push (NewClosure f fsc free) vm3)
                          | _ \<Rightarrow> Panicked TypeAssertion)))))"
| "exec H N sc OpMakeCell vm =
     (case fetch2 vm of
        Inl p \<Rightarrow> Panicked p
      | Inr (symbolIndex, vm1) \<Rightarrow>
          (case fetch vm1 of
             Inl p \<Rightarrow> Panicked p
           | Inr (b, vm2) \<Rightarrow>
               (let framesBack = uint b;
                    frameIndex = int (framesIndex vm2) - framesBack
                in if frameIndex < 0 then Return (Some (NoFrameAtDepth framesBack)) vm2
                   else (case index (locals (frameAt vm2 (nat frameIndex))) (uint symbolIndex) of
                           None \<Rightarrow> Panicked IndexOutOfRange
                         | Some a \<Rightarrow> Next (Push (Cell a) vm2)))))"
| "exec H N sc OpNil vm = Next (Push Nil vm)"
| "exec H N sc OpTrue vm = Next (Push (Bool True) vm)"
| "exec H N sc OpFalse vm = Next (Push (Bool False) vm)"
| "exec H N sc OpCompareOp vm =
     (case fetch vm of
        Inl p \<Rightarrow> Panicked p
      | Inr (opType, vm1) \<Rightarrow>
          (case Pop vm1 of (b, vm2) \<Rightarrow>
             (case Pop vm2 of (a, vm3) \<Rightarrow>
                (case runCompareOp H (decodeCompare N opType) a b of
                   Inl p \<Rightarrow> Panicked p
                 | Inr v \<Rightarrow> Next (Push v vm3)))))"
| "exec H N sc OpBinaryOp vm =
     (case fetch vm of
        Inl p \<Rightarrow> Panicked p
      | Inr (opType, vm1) \<Rightarrow>
          (case Pop vm1 of (b, vm2) \<Rightarrow>
             (case Pop vm2 of (a, vm3) \<Rightarrow>
                (case runBinaryOp H (decodeBinary N opType) a b of
                   Inl p \<Rightarrow> Panicked p
                 | Inr v \<Rightarrow> Next (Push v vm3)))))"
| "exec H N sc OpCall vm =
     (case fetch vm of
        Inl p \<Rightarrow> Panicked p
      | Inr (b, vm1) \<Rightarrow>
          (let argc = unat b in
           case popN argc vm1 of (popped, vm2) \<Rightarrow>
             (let tmpArgs = rev popped in
              case Pop vm2 of (obj, vm3) \<Rightarrow>
                (case obj of
                   Builtin name \<Rightarrow> Next (Push (BuiltinCall H obj tmpArgs) vm3)
                 | CompiledFunction n ps ds ins fsc fv \<Rightarrow>
                     if framesIndex vm3 + 1 \<ge> MaxFrameDepth
                     then Return (Some FrameOverflow) vm3
                     else
                       (let vm4 = vm3\<lparr>framesIndex := framesIndex vm3 + 1\<rparr> in
                        if IsNamed fsc \<and> argc \<ge> MaxArgs then Panicked IndexOutOfRange
                        else
                          (let args = (if IsNamed fsc then tmpArgs @ [obj] else tmpArgs);
                               vm5 = InitWithLocals (framesIndex vm4) obj (ip vm4) args vm4
                           in Next (vm5\<lparr>currentFrame := framesIndex vm4, ip := 0,
                                          currentScope := Some fsc\<rparr>)))
                 | _ \<Rightarrow> Return (Some (NotAFunction obj)) vm3))))"
| "exec H N sc OpReturnValue vm =
     (if framesIndex vm < 1 then Return (Some FrameUnderflow) vm
      else
        (let leaving = frameAt vm (framesIndex vm);
             vm1 = vm\<lparr>framesIndex := framesIndex vm - 1\<rparr>;
             vm2 = vm1\<lparr>currentFrame := framesIndex vm1\<rparr>
         in Next (vm2\<lparr>ip := returnAddr leaving,
                        currentScope := scope (frameAt vm2 (currentFrame vm2))\<rparr>)))"
| "exec H N sc OpPopJumpForwardIfTrue vm =
     (case Pop vm of (tos, vm1) \<Rightarrow>
        (case fetch2 vm1 of
           Inl p \<Rightarrow> Panicked p
         | Inr (d, vm2) \<Rightarrow>
             if tos = GoNil then Panicked NilDereference
             else Next (jump (IsTruthy H tos) (uint d - 3) vm2)))"
| "exec H N sc OpPopJumpForwardIfFalse vm =
     (case Pop vm of (tos, vm1) \<Rightarrow>
        (case fetch2 vm1 of
           Inl p \<Rightarrow> Panicked p
         | Inr (d, vm2) \<Rightarrow>
             if tos = GoNil then Panicked NilDereference
             else Next (jump (\<not> IsTruthy H tos) (uint d - 3) vm2)))"
| "exec H N sc OpPopJumpBackwardIfTrue vm =
     (case Pop vm of (tos, vm1) \<Rightarrow>
        (case fetch2 vm1 of
           Inl p \<Rightarrow> Panicked p
         | Inr (d, vm2) \<Rightarrow>
             if tos = GoNil then Panicked NilDereference
             else Next (jump (IsTruthy H tos) (- (uint d - 3)) vm2)))"
| "exec H N sc OpPopJumpBackwardIfFalse vm =
     (case Pop vm of (tos, vm1) \<Rightarrow>
        (case fetch2 vm1 of
           Inl p \<Rightarrow> Panicked p
         | Inr (d, vm2) \<Rightarrow>
             if tos = GoNil then Panicked NilDereference
             else Next (jump (\<not> IsTruthy H tos) (- (uint d - 3)) vm2)))"
| "exec H N sc OpJumpForward vm =
     (let base = ip vm - 1 in
      case fetch2 vm of
        Inl p \<Rightarrow> Panicked p
      | Inr (d, vm1) \<Rightarrow> Next (vm1\<lparr>ip := base + uint d\<rparr>))"
| "exec H N sc OpJumpBackward vm =
     (let base = ip vm - 1 in
      case fetch2 vm of
        Inl p \<Rightarrow> Panicked p
      | Inr (d, vm1) \<Rightarrow> Next (vm1\<lparr>ip := base - uint d\<rparr>))"
| "exec H N sc OpPrint vm = Next vm"
| "exec H N sc OpBuildList vm =
     (case fetch2 vm of
        Inl p \<Rightarrow> Panicked p
      | Inr (count, vm1) \<Rightarrow>
          (case popN (unat count) vm1 of (popped, vm2) \<Rightarrow> Next (Push (List (rev popped)) vm2)))"
| "exec H N sc OpBuildMap vm =
     (case fetch2 vm of
        Inl p \<Rightarrow> Panicked p
      | Inr (count, vm1) \<Rightarrow>
          (case popPairs (unat count) [] vm1 of
             Inl p \<Rightarrow> Panicked p
           | Inr (items, vm2) \<Rightarrow> Next (Push (Map items) vm2)))"
| "exec H N sc OpBuildSet vm =
     (case fetch2 vm of
        Inl p \<Rightarrow> Panicked p
      | Inr (count, vm1) \<Rightarrow>
          (case popN (unat count) vm1 of (popped, vm2) \<Rightarrow> Next (Push (Set popped) vm2)))"
| "exec H N sc OpBinarySubscr vm =
     (case Pop vm of (idx, vm1) \<Rightarrow>
        (case Pop vm1 of (obj, vm2) \<Rightarrow>
           if obj = GoNil \<or> \<not> IsContainer H obj then Return (Some (NotAContainer obj)) vm2
           else (case GetItem H obj idx of
                   Inl err \<Rightarrow> Return (Some (ItemError err)) vm2
                 | Inr result \<Rightarrow> Next (Push result vm2))))"
| "exec H N sc OpUnaryNegative vm =
     (case Pop vm of (obj, vm1) \<Rightarrow>
        (case obj of
           Integer v \<Rightarrow> Next (Push (Integer (- v)) vm1)
         | Float v \<Rightarrow> Next (Push (Float (v XOR push_bit 63 1)) vm1)
         | _ \<Rightarrow> Return (Some (NotANumber obj)) vm1))"
| "exec H N sc OpUnaryNot vm =
     (case Pop vm of (obj, vm1) \<Rightarrow>
        if obj = GoNil then Panicked NilDereference
        else if IsTruthy H obj then Next (Push (Bool False) vm1)
        else Next (Push (Bool True) vm1))"
| "exec H N sc OpContainsOp vm =
     (case Pop vm of (obj, vm1) \<Rightarrow>
        (case Pop vm1 of (containerObj, vm2) \<Rightarrow>
           (case fetch vm2 of
              Inl p \<Rightarrow> Panicked p
            | Inr (b, vm3) \<Rightarrow>
                (let invert = (b = 1) in
                 if containerObj = GoNil \<or> \<not> IsContainer H containerObj
                 then Return (Some (NotAContainer GoNil)) vm3
                 else (let v = Contains H containerObj obj
                       in Next (Push (if invert then ObjectNot H v else v) vm3))))))"
| "exec H N sc OpHalt vm = Return None vm"
| "exec H N sc OpLoadBuiltin vm = Return (Some (UnknownOpcode (opNum N OpLoadBuiltin))) vm"

text \<open>
  One iteration of the loop of \<open>VM.Run\<close>: read the opcode at \<open>vm.ip\<close>, advance \<open>vm.ip\<close>,
  dispatch. A code word that is the number of no case of the switch takes the \<open>default\<close>
  branch.
\<close>

definition step :: "host \<Rightarrow> numbering \<Rightarrow> VM \<Rightarrow> VM outcome" where
  "step H N vm =
     (case currentScope vm of
        None \<Rightarrow> Panicked NilDereference
      | Some sc \<Rightarrow>
          (case index (Instructions sc) (ip vm) of
             None \<Rightarrow> Panicked IndexOutOfRange
           | Some w \<Rightarrow>
               (let vm1 = vm\<lparr>ip := ip vm + 1\<rparr> in
                case decode N w of
                  None \<Rightarrow> Return (Some (UnknownOpcode w)) vm1
                | Some opc \<Rightarrow> exec H N sc opc vm1)))"

text \<open>
  The loop \<open>for vm.ip < len(vm.currentScope.Instructions)\<close>. It need not terminate: the
  result is \<open>None\<close> when it runs forever. Otherwise it is how \<open>Run\<close> ends: with a panic
  (\<open>Inl\<close>), or by returning \<open>nil\<close> or an error, together with the VM that \<open>Run\<close> leaves.
\<close>

partial_function (option) loop :: "host \<Rightarrow> numbering \<Rightarrow> VM \<Rightarrow> (panic + error option \<times> VM) option" where
  "loop H N vm =
     (case currentScope vm of
        None \<Rightarrow> Some (Inl NilDereference)
      | Some sc \<Rightarrow>
          if ip vm < int (length (Instructions sc)) then
            (case step H N vm of
               Next vm1 \<Rightarrow> loop H N vm1
             | Return e vm1 \<Rightarrow> Some (Inr (e, vm1))
             | Panicked p \<Rightarrow> Some (Inl p))
          else Some (Inr (None, vm)))"

declare loop.simps [code]

definition Run :: "host \<Rightarrow> numbering \<Rightarrow> VM \<Rightarrow> (panic + error option \<times> VM) option" where
  "Run H N vm =
     (case currentScope vm of
        None \<Rightarrow> Some (Inl NilDereference)
      | Some sc \<Rightarrow>
          (let vm1 = Init 0 None 0 (unat (Size (Symbols sc))) (vm\<lparr>currentFrame := 0\<rparr>);
               vm2 = setFrame 0 ((frameAt vm1 0)\<lparr>scope := main vm1\<rparr>) vm1
           in loop H N vm2))"

section \<open>The symbol table\<close>

text \<open>
  Modelled from the spec (section 4.1): \<open>NewTable\<close>, \<open>NewBlock\<close>, \<open>Parent\<close>, \<open>NewChild\<close>,
  \<open>InsertVariable\<close>, \<open>InsertBuiltin\<close>, \<open>Lookup\<close> and \<open>Free\<close>. A variable gets the next index of
  its function-level table; a name declared twice in one block is refused; builtins are
  indexed separately and live in the root table.
\<close>

definition NewTable :: "'v Table" where
  "NewTable = Table [[]] 0 [] []"

definition NewChild :: "'v Table \<Rightarrow> 'v Table" where
  "NewChild parent = Table [[]] 0 [] []"

definition NewBlock :: "'v Table \<Rightarrow> 'v Table" where
  "NewBlock t = Table ([] # blocks t) (counter t) (freeList t) (builtins t)"

definition Parent :: "'v Table \<Rightarrow> 'v Table" where
  "Parent t = Table (tl (blocks t)) (counter t) (freeList t) (builtins t)"

definition InsertVariable :: "string \<Rightarrow> 'v Table \<Rightarrow> error + 'v Symbol \<times> 'v Table" where
  "InsertVariable name t =
     (case blocks t of
        [] \<Rightarrow> Inl (Redeclared name)
      | b # bs \<Rightarrow>
          (case map_of b name of
             Some s \<Rightarrow> Inl (Redeclared name)
           | None \<Rightarrow>
               (let s = Symbol name (of_nat (counter t)) None
                in Inr (s, Table (((name, s) # b) # bs) (counter t + 1) (freeList t)
                             (builtins t)))))"

definition InsertBuiltin :: "string \<Rightarrow> 'v \<Rightarrow> 'v Table \<Rightarrow> 'v Table" where
  "InsertBuiltin name v t =
     Table (blocks t) (counter t) (freeList t)
       (builtins t @ [(name, Symbol name (of_nat (length (builtins t))) (Some v))])"

fun lookupBlocks :: "(string \<times> 'v Symbol) list list \<Rightarrow> string \<Rightarrow> 'v Symbol option" where
  "lookupBlocks [] name = None"
| "lookupBlocks (b # bs) name =
     (case map_of b name of Some s \<Rightarrow> Some s | None \<Rightarrow> lookupBlocks bs name)"

text \<open>
  The search through the enclosing function tables, innermost first; \<open>d\<close> counts the
  function boundaries crossed, and the last table of the chain is the root table.
\<close>

fun lookupOuter :: "'v Table list \<Rightarrow> nat \<Rightarrow> string \<Rightarrow> ('v Symbol \<times> nat \<times> bool) option" where
  "lookupOuter [] d name = None"
| "lookupOuter (t # ts) d name =
     (case lookupBlocks (blocks t) name of
        Some s \<Rightarrow> Some (s, d, ts = [])
      | None \<Rightarrow> lookupOuter ts (Suc d) name)"

fun findFree :: "'v Resolution list \<Rightarrow> nat \<Rightarrow> string \<Rightarrow> (nat \<times> 'v Resolution) option" where
  "findFree [] i name = None"
| "findFree (r # rs) i name =
     (if symName (resSymbol r) = name then Some (i, r) else findFree rs (Suc i) name)"

text \<open>
  \<open>Lookup\<close> on the table \<open>t\<close> whose enclosing function tables are \<open>outer\<close>: the blocks of
  \<open>t\<close> first; then the names \<open>t\<close> has already promoted; then the enclosing functions, where a
  hit in the root table is a global and any other hit is promoted to \<open>Free\<close> and recorded
  on the free list of \<open>t\<close>; then the builtins.
\<close>

definition Lookup :: "string \<Rightarrow> 'v Table \<Rightarrow> 'v Table list \<Rightarrow> ('v Resolution \<times> 'v Table) option" where
  "Lookup name t outer =
     (case lookupBlocks (blocks t) name of
        Some s \<Rightarrow> Some (Resolution s (if outer = [] then ScopeGlobal else ScopeLocal) 0, t)
      | None \<Rightarrow>
          (case findFree (freeList t) 0 name of
             Some (i, r) \<Rightarrow> Some (Resolution (Symbol name (of_nat i) None) ScopeFree (Depth r), t)
           | None \<Rightarrow>
               (case lookupOuter outer 1 name of
                  Some (s, d, root) \<Rightarrow>
                    if root then Some (Resolution s ScopeGlobal d, t)
                    else Some (Resolution (Symbol name (of_nat (length (freeList t))) None)
                                 ScopeFree d,
                               Table (blocks t) (counter t)
                                 (freeList t @ [Resolution s ScopeFree d]) (builtins t))
                | None \<Rightarrow>
                    (case map_of (builtins (last (t # outer))) name of
                       Some s \<Rightarrow> Some (Resolution s ScopeBuiltin 0, t)
                     | None \<Rightarrow> None))))"

definition Free :: "'v Table \<Rightarrow> 'v Resolution list" where
  "Free t = freeList t"

section \<open>The compiler\<close>

text \<open>
  Package \<open>ast\<close> is not among the source files. A node is one of the types of the type
  switch of \<open>Compiler.compile\<close>, with the parts that the compiler reads through the node's
  methods; \<open>AstOther\<close> is any other node. An absent node (a nil \<open>Alternative\<close>, a nil
  \<open>Value\<close> of a control statement, a nil function name) is \<open>None\<close>. Go iterates over the
  items of a map literal in an unspecified order; \<open>AstMap\<close> lists them in the order of one
  iteration. Of the default values of a function only the parameter names are read.
\<close>

datatype node =
    AstNil
  | AstInt "64 word"
  | AstFloat float64
  | AstString string
  | AstBool bool
  | AstIf node node "node option"
  | AstInfix string node node
  | AstProgram "node list"
  | AstBlock "node list"
  | AstVar string node
  | AstAssign string string node
  | AstIdent string
  | AstFor bool node
  | AstControl string "node option"
  | AstCall node "node list"
  | AstFunc "string option" "string list" "string list" "node list"
  | AstList "node list"
  | AstMap "(node \<times> node) list"
  | AstSet "node list"
  | AstIndex node node
  | AstGetAttr node string
  | AstObjectCall node node
  | AstPrefix string node
  | AstIn node node
  | AstConst string node
  | AstPostfix string string
  | AstOther

text \<open>
  \<open>c.current\<close> and the chain of its \<open>Parent\<close> links, innermost first; \<open>c.main\<close> is the end of
  the chain. A scope is entered in the \<open>Children\<close> of its parent when the compiler returns
  to the parent: until then only the scope itself changes.
\<close>

record Compiler =
  current :: Scope
  parents :: "Scope list"
  startPos :: nat

definition setSymbols :: "object Table \<Rightarrow> Scope \<Rightarrow> Scope" where
  "setSymbols t s =
     Scope (Name s) (IsNamed s) t (Instructions s) (Constants s) (Names s) (Children s) (Loops s)"

definition setInstructions :: "code list \<Rightarrow> Scope \<Rightarrow> Scope" where
  "setInstructions ins s =
     Scope (Name s) (IsNamed s) (Symbols s) ins (Constants s) (Names s) (Children s) (Loops s)"

definition setConstants :: "object list \<Rightarrow> Scope \<Rightarrow> Scope" where
  "setConstants cs s =
     Scope (Name s) (IsNamed s) (Symbols s) (Instructions s) cs (Names s) (Children s) (Loops s)"

definition setNames :: "string list \<Rightarrow> Scope \<Rightarrow> Scope" where
  "setNames ns s =
     Scope (Name s) (IsNamed s) (Symbols s) (Instructions s) (Constants s) ns (Children s)
       (Loops s)"

definition setChildren :: "Scope list \<Rightarrow> Scope \<Rightarrow> Scope" where
  "setChildren ch s =
     Scope (Name s) (IsNamed s) (Symbols s) (Instructions s) (Constants s) (Names s) ch (Loops s)"

definition setLoops :: "Loop list \<Rightarrow> Scope \<Rightarrow> Scope" where
  "setLoops ls s =
     Scope (Name s) (IsNamed s) (Symbols s) (Instructions s) (Constants s) (Names s)
       (Children s) ls"

text \<open>\<open>New\<close> of the compiler; the builtins are inserted in the order of the list.\<close>

definition NewCompiler :: "(string \<times> object) list \<Rightarrow> string \<Rightarrow> Scope option \<Rightarrow> Compiler" where
  "NewCompiler optsBuiltins optsName optsScope =
     (let main0 = (case optsScope of
                     Some sc \<Rightarrow> sc
                   | None \<Rightarrow> Scope optsName False NewTable [] [] [] [] []);
          main1 = setSymbols (fold (\<lambda>(name, builtin). InsertBuiltin name builtin) optsBuiltins
                                (Symbols main0)) main0
      in \<lparr>current = main1, parents = [], startPos = length (Instructions main1)\<rparr>)"

definition CurrentScope :: "Compiler \<Rightarrow> Scope" where
  "CurrentScope c = current c"

definition mainScope :: "Compiler \<Rightarrow> Scope" where
  "mainScope c = last (current c # parents c)"

definition CompilerInstructions :: "Compiler \<Rightarrow> code list" where
  "CompilerInstructions c = Instructions (mainScope c)"

definition NewInstructions :: "Compiler \<Rightarrow> code list" where
  "NewInstructions c = drop (startPos c) (Instructions (mainScope c))"

text \<open>\<open>c.current.Symbols.Lookup(name)\<close>: the enclosing tables are those of the parent chain.\<close>

definition lookup :: "string \<Rightarrow> Compiler \<Rightarrow> (object Resolution \<times> Compiler) option" where
  "lookup name c =
     (case Lookup name (Symbols (current c)) (map Symbols (parents c)) of
        None \<Rightarrow> None
      | Some (r, t) \<Rightarrow> Some (r, c\<lparr>current := setSymbols t (current c)\<rparr>))"

definition insertVariable :: "string \<Rightarrow> Compiler \<Rightarrow> error + object Symbol \<times> Compiler" where
  "insertVariable name c =
     (case InsertVariable name (Symbols (current c)) of
        Inl e \<Rightarrow> Inl e
      | Inr (s, t) \<Rightarrow> Inr (s, c\<lparr>current := setSymbols t (current c)\<rparr>))"

text \<open>\<open>funcScope.Symbols.InsertVariable(...)\<close> where the compiler drops the error.\<close>

definition insertIgnoringError :: "string \<Rightarrow> Compiler \<Rightarrow> Compiler" where
  "insertIgnoringError name c =
     (case insertVariable name c of Inl e \<Rightarrow> c | Inr (s, c1) \<Rightarrow> c1)"

text \<open>\<open>Compiler.constant\<close> (\<open>constant\<close> alone is a keyword of Isabelle).\<close>

definition constant' :: "object \<Rightarrow> Compiler \<Rightarrow> code \<times> Compiler" where
  "constant' obj c =
     (let scope0 = current c;
          scope1 = setConstants (Constants scope0 @ [obj]) scope0
      in (of_nat (length (Constants scope1) - 1), c\<lparr>current := scope1\<rparr>))"

text \<open>Modelled from the spec: \<open>Scope.AddName\<close> appends to \<open>names\<close> and returns the index.\<close>

definition AddName :: "string \<Rightarrow> Compiler \<Rightarrow> code \<times> Compiler" where
  "AddName name c =
     (let scope0 = current c;
          scope1 = setNames (Names scope0 @ [name]) scope0
      in (of_nat (length (Names scope1) - 1), c\<lparr>current := scope1\<rparr>))"

definition MakeInstruction :: "numbering \<Rightarrow> opcode \<Rightarrow> code list \<Rightarrow> panic + code list" where
  "MakeInstruction N opc operands =
     (if length operands \<noteq> OperandCount opc then Inl WrongOperandCount
      else Inr (opNum N opc # operands))"

definition emit :: "numbering \<Rightarrow> opcode \<Rightarrow> code list \<Rightarrow> Compiler \<Rightarrow> fault + code \<times> Compiler" where
  "emit N opc operands c =
     (case MakeInstruction N opc operands of
        Inl p \<Rightarrow> Inl (Panic p)
      | Inr inst \<Rightarrow>
          (let scope0 = CurrentScope c;
               pos = length (Instructions scope0)
           in Inr (of_nat pos,
                   c\<lparr>current := setInstructions (Instructions scope0 @ inst) scope0\<rparr>)))"

text \<open>\<open>c.emit(...)\<close> as a statement: the position is dropped.\<close>

definition emit0 :: "numbering \<Rightarrow> opcode \<Rightarrow> code list \<Rightarrow> Compiler \<Rightarrow> fault + Compiler" where
  "emit0 N opc operands c =
     (case emit N opc operands c of Inl f \<Rightarrow> Inl f | Inr (pos, c1) \<Rightarrow> Inr c1)"

definition calculateDelta :: "code \<Rightarrow> Compiler \<Rightarrow> code" where
  "calculateDelta pos c = of_nat (length (Instructions (CurrentScope c))) - pos"

definition changeOperand :: "code \<Rightarrow> code \<Rightarrow> Compiler \<Rightarrow> fault + Compiler" where
  "changeOperand pos operand c =
     (let scope0 = CurrentScope c; i = unat (pos + 1)
      in if i < length (Instructions scope0)
         then Inr (c\<lparr>current := setInstructions ((Instructions scope0)[i := operand]) scope0\<rparr>)
         else Inl (Panic IndexOutOfRange))"

definition currentLoop :: "Compiler \<Rightarrow> Loop option" where
  "currentLoop c =
     (let scope0 = CurrentScope c
      in if length (Loops scope0) = 0 then None else Some (last (Loops scope0)))"

definition startLoop :: "Compiler \<Rightarrow> Compiler" where
  "startLoop c = c\<lparr>current := setLoops (Loops (current c) @ [Loop [] []]) (current c)\<rparr>"

definition endLoop :: "Compiler \<Rightarrow> Compiler" where
  "endLoop c = c\<lparr>current := setLoops (butlast (Loops (current c))) (current c)\<rparr>"

text \<open>\<open>loop.BreakPos = append(loop.BreakPos, ...)\<close> on the current loop, and its twin.\<close>

definition appendBreakPos :: "code \<Rightarrow> Compiler \<Rightarrow> Compiler" where
  "appendBreakPos pos c =
     (let ls = Loops (current c); l = last ls
      in c\<lparr>current := setLoops (butlast ls @ [Loop (ContinuePos l) (BreakPos l @ [pos])])
                          (current c)\<rparr>)"

definition appendContinuePos :: "code \<Rightarrow> Compiler \<Rightarrow> Compiler" where
  "appendContinuePos pos c =
     (let ls = Loops (current c); l = last ls
      in c\<lparr>current := setLoops (butlast ls @ [Loop (ContinuePos l @ [pos]) (BreakPos l)])
                          (current c)\<rparr>)"

text \<open>
  The switch on \<open>sym.Scope\<close> that pushes a variable (in \<open>compile\<close> for an identifier and in
  \<open>compileAssign\<close> for the left-hand side of a compound assignment).
\<close>

definition emitLoad :: "numbering \<Rightarrow> object Resolution \<Rightarrow> Compiler \<Rightarrow> fault + Compiler" where
  "emitLoad N r c =
     (case resScope r of
        ScopeGlobal \<Rightarrow> emit0 N OpLoadGlobal [Index (resSymbol r)] c
      | ScopeLocal \<Rightarrow> emit0 N OpLoadFast [Index (resSymbol r)] c
      | ScopeFree \<Rightarrow> emit0 N OpLoadFree [Index (resSymbol r)] c
      | ScopeBuiltin \<Rightarrow> emit0 N OpLoadBuiltin [Index (resSymbol r)] c)"

text \<open>
  The switch on \<open>sym.Scope\<close> that ends \<open>compileAssign\<close>, the same text after a simple and
  after a compound assignment.
\<close>

definition assignStore :: "numbering \<Rightarrow> object Resolution \<Rightarrow> Compiler \<Rightarrow> fault + Compiler" where
  "assignStore N r c =
     (case resScope r of
        ScopeGlobal \<Rightarrow> emit0 N OpStoreGlobal [Index (resSymbol r)] c
      | ScopeLocal \<Rightarrow> emit0 N OpStoreFast [Index (resSymbol r)] c
      | ScopeFree \<Rightarrow> emit0 N OpStoreFree [Index (resSymbol r)] c
      | ScopeBuiltin \<Rightarrow> emit0 N OpLoadBuiltin [Index (resSymbol r)] c)"

text \<open>The switch on the operator of a compound assignment; any other operator emits nothing.\<close>

definition assignOperator :: "numbering \<Rightarrow> string \<Rightarrow> Compiler \<Rightarrow> fault + Compiler" where
  "assignOperator N operator c =
     (if operator = ''+='' then emit0 N OpBinaryOp [binaryNum N Add] c
      else if operator = ''-='' then emit0 N OpBinaryOp [binaryNum N Subtract] c
      else if operator = ''*='' then emit0 N OpBinaryOp [binaryNum N Multiply] c
      else if operator = ''/='' then emit0 N OpBinaryOp [binaryNum N Divide] c
      else Inr c)"

text \<open>The store of a \<open>var\<close>, a \<open>const\<close> or a named function: global in the root scope.\<close>

definition emitDeclare :: "numbering \<Rightarrow> object Symbol \<Rightarrow> Compiler \<Rightarrow> fault + Compiler" where
  "emitDeclare N s c =
     (if parents c = [] then emit0 N OpStoreGlobal [Index s] c
      else emit0 N OpStoreFast [Index s] c)"

definition compilePostfix :: "numbering \<Rightarrow> string \<Rightarrow> string \<Rightarrow> Compiler \<Rightarrow> fault + Compiler" where
  "compilePostfix N name operator c =
     (case lookup name c of
        None \<Rightarrow> Inl (Error (UndefinedVariable name))
      | Some (r, c0) \<Rightarrow>
          (case (case resScope r of
                   ScopeGlobal \<Rightarrow> emit0 N OpLoadGlobal [Index (resSymbol r)] c0
                 | ScopeLocal \<Rightarrow> emit0 N OpLoadFast [Index (resSymbol r)] c0
                 | ScopeFree \<Rightarrow> emit0 N OpLoadFree [Index (resSymbol r)] c0
                 | ScopeBuiltin \<Rightarrow> Inl (Error (InvalidOperationOnBuiltin name))) of
             Inl f \<Rightarrow> Inl f
           | Inr c1 \<Rightarrow>
               (case (if operator = ''++''
                      then (case constant' (Integer 1) c1 of (i, c2) \<Rightarrow> emit0 N OpLoadConst [i] c2)
                      else if operator = ''--''
                      then (case constant' (Integer (- 1)) c1 of (i, c2) \<Rightarrow>
                              emit0 N OpLoadConst [i] c2)
                      else Inl (Error (UnknownOperator operator))) of
                  Inl f \<Rightarrow> Inl f
                | Inr c3 \<Rightarrow>
                    (case emit0 N OpBinaryOp [binaryNum N Add] c3 of
                       Inl f \<Rightarrow> Inl f
                     | Inr c4 \<Rightarrow>
                         (case resScope r of
                            ScopeGlobal \<Rightarrow> emit0 N OpStoreGlobal [Index (resSymbol r)] c4
                          | ScopeLocal \<Rightarrow> emit0 N OpStoreFast [Index (resSymbol r)] c4
                          | ScopeFree \<Rightarrow> emit0 N OpStoreFree [Index (resSymbol r)] c4
                          | ScopeBuiltin \<Rightarrow> Inr c4)))))"

text \<open>The switch on the operator that ends \<open>compileInfix\<close>.\<close>

definition infixOperator :: "numbering \<Rightarrow> string \<Rightarrow> Compiler \<Rightarrow> fault + Compiler" where
  "infixOperator N operator c =
     (if operator = ''&&'' then emit0 N OpBinaryOp [binaryNum N And] c
      else if operator = ''||'' then emit0 N OpBinaryOp [binaryNum N Or] c
      else if operator = ''+'' then emit0 N OpBinaryOp [binaryNum N Add] c
      else if operator = ''-'' then emit0 N OpBinaryOp [binaryNum N Subtract] c
      else if operator = ''*'' then emit0 N OpBinaryOp [binaryNum N Multiply] c
      else if operator = ''/'' then emit0 N OpBinaryOp [binaryNum N Divide] c
      else if operator = ''%'' then emit0 N OpBinaryOp [binaryNum N Modulo] c
      else if operator = ''**'' then emit0 N OpBinaryOp [binaryNum N Power] c
      else if operator = ''<<'' then emit0 N OpBinaryOp [binaryNum N LShift] c
      else if operator = ''>>'' then emit0 N OpBinaryOp [binaryNum N RShift] c
      else if operator = ''>'' then emit0 N OpCompareOp [compareNum N GreaterThan] c
      else if operator = ''>='' then emit0 N OpCompareOp [compareNum N GreaterThanOrEqual] c
      else if operator = ''<'' then emit0 N OpCompareOp [compareNum N LessThan] c
      else if operator = ''<='' then emit0 N OpCompareOp [compareNum N LessThanOrEqual] c
      else if operator = ''=='' then emit0 N OpCompareOp [compareNum N Equal] c
      else if operator = ''!='' then emit0 N OpCompareOp [compareNum N NotEqual] c
      else Inl (Error (UnknownOperator operator)))"

text \<open>The switch on the operator that ends \<open>compilePrefix\<close>; any other operator emits nothing.\<close>

definition prefixOperator :: "numbering \<Rightarrow> string \<Rightarrow> Compiler \<Rightarrow> fault + Compiler" where
  "prefixOperator N operator c =
     (if operator = ''!'' then emit0 N OpUnaryNot [] c
      else if operator = ''-'' then emit0 N OpUnaryNegative [] c
      else Inr c)"

text \<open>The two backpatching loops that end \<open>compileSimpleFor\<close>.\<close>

fun patchBreaks :: "code \<Rightarrow> code list \<Rightarrow> Compiler \<Rightarrow> fault + Compiler" where
  "patchBreaks nopPos [] c = Inr c"
| "patchBreaks nopPos (pos # rest) c =
     (let delta = nopPos - pos
      in case changeOperand pos delta c of Inl f \<Rightarrow> Inl f | Inr c1 \<Rightarrow> patchBreaks nopPos rest c1)"

fun patchContinues :: "code \<Rightarrow> code list \<Rightarrow> Compiler \<Rightarrow> fault + Compiler" where
  "patchContinues start [] c = Inr c"
| "patchContinues start (pos # rest) c =
     (let delta = pos - start
      in case changeOperand pos delta c of
           Inl f \<Rightarrow> Inl f
         | Inr c1 \<Rightarrow> patchContinues start rest c1)"

text \<open>
  What \<open>compileSimpleFor\<close> does once the body is compiled, up to its deferred function
  (\<open>endLoop\<close>, then the block of symbols is left).
\<close>

definition finishSimpleFor :: "numbering \<Rightarrow> code \<Rightarrow> Compiler \<Rightarrow> fault + Compiler" where
  "finishSimpleFor N start c =
     (case emit0 N OpJumpBackward [calculateDelta start c] c of
        Inl f \<Rightarrow> Inl f
      | Inr c1 \<Rightarrow>
          (case emit N OpNop [] c1 of
             Inl f \<Rightarrow> Inl f
           | Inr (nopPos, c2) \<Rightarrow>
               (let l = last (Loops (current c2))
                in case patchBreaks nopPos (BreakPos l) c2 of
                     Inl f \<Rightarrow> Inl f
                   | Inr c3 \<Rightarrow>
                       (case patchContinues start (ContinuePos l) c3 of
                          Inl f \<Rightarrow> Inl f
                        | Inr c4 \<Rightarrow>
                            (let c5 = endLoop c4
                             in Inr (c5\<lparr>current := setSymbols (Parent (Symbols (current c5)))
                                                     (current c5)\<rparr>))))))"

text \<open>\<open>break\<close> and \<open>continue\<close> in \<open>compileControl\<close>.\<close>

definition compileBreakContinue :: "numbering \<Rightarrow> string \<Rightarrow> Compiler \<Rightarrow> fault + Compiler" where
  "compileBreakContinue N literal c =
     (case currentLoop c of
        None \<Rightarrow>
          if literal = ''break'' then Inl (Error BreakOutsideOfLoop)
          else Inl (Error ContinueOutsideOfLoop)
      | Some l \<Rightarrow>
          if literal = ''break''
          then (case emit N OpJumpForward [9999] c of
                  Inl f \<Rightarrow> Inl f
                | Inr (position, c1) \<Rightarrow> Inr (appendBreakPos position c1))
          else (case emit N OpJumpBackward [9999] c of
                  Inl f \<Rightarrow> Inl f
                | Inr (position, c1) \<Rightarrow> Inr (appendContinuePos position c1)))"

text \<open>
  The start of \<open>compileFunc\<close>: the scope of the function becomes current, the defaults are
  laid out (\<open>paramsIdx[k]\<close> is 0 for a name that is no parameter), and the parameters and
  then the function's own name are inserted in its symbol table.
\<close>

fun paramsIdx :: "string list \<Rightarrow> nat \<Rightarrow> string \<Rightarrow> nat" where
  "paramsIdx [] i k = 0"
| "paramsIdx (p # ps) i k =
     (if k \<in> set ps then paramsIdx ps (Suc i) k else if p = k then i else 0)"

fun makeDefaults :: "string list \<Rightarrow> string list \<Rightarrow> object list \<Rightarrow> panic + object list" where
  "makeDefaults params [] defaults = Inr defaults"
| "makeDefaults params (k # ks) defaults =
     (let idx = paramsIdx params 0 k
      in if idx < length defaults
         then makeDefaults params ks (defaults[idx := Integer 0])
         else Inl IndexOutOfRange)"

definition enterFunc :: "string option \<Rightarrow> string list \<Rightarrow> Compiler \<Rightarrow> Compiler" where
  "enterFunc ident params c =
     (let name = (case ident of None \<Rightarrow> [] | Some n \<Rightarrow> n);
          funcScope = Scope name (ident \<noteq> None) (NewChild (Symbols (current c))) [] [] [] [] [];
          c1 = c\<lparr>current := funcScope, parents := current c # parents c\<rparr>;
          c2 = fold insertIgnoringError params c1
      in case ident of None \<Rightarrow> c2 | Some n \<Rightarrow> insertIgnoringError n c2)"

text \<open>The \<open>MakeCell\<close> instructions of \<open>compileFunc\<close>, one for each free symbol.\<close>

fun emitMakeCells :: "numbering \<Rightarrow> object Resolution list \<Rightarrow> Compiler \<Rightarrow> fault + Compiler" where
  "emitMakeCells N [] c = Inr c"
| "emitMakeCells N (resolution # rest) c =
     (case emit0 N OpMakeCell [Index (resSymbol resolution), of_nat (Depth resolution - 1)] c of
        Inl f \<Rightarrow> Inl f
      | Inr c1 \<Rightarrow> emitMakeCells N rest c1)"

text \<open>
  The end of \<open>compileFunc\<close>, from \<open>c.current = c.current.Parent\<close> on; the function's scope
  is \<open>c.current\<close> on entry.
\<close>

definition leaveFunc ::
  "numbering \<Rightarrow> string option \<Rightarrow> string list \<Rightarrow> object list \<Rightarrow> Compiler \<Rightarrow> fault + Compiler" where
  "leaveFunc N ident params defaults c =
     (case parents c of
        [] \<Rightarrow> Inl (Panic NilDereference)
      | parent # ps \<Rightarrow>
          (let name = (case ident of None \<Rightarrow> [] | Some n \<Rightarrow> n);
               funcScope = current c;
               c1 = c\<lparr>current := setChildren (Children parent @ [funcScope]) parent,
                       parents := ps\<rparr>;
               freeSymbols = Free (Symbols funcScope);
               fn = CompiledFunction name params defaults (Instructions funcScope) funcScope []
           in case (if length freeSymbols > 0
                    then (case emitMakeCells N freeSymbols c1 of
                            Inl f \<Rightarrow> Inl f
                          | Inr c2 \<Rightarrow>
                              (case constant' fn c2 of (i, c3) \<Rightarrow>
                                 emit0 N OpLoadClosure [i, of_nat (length freeSymbols)] c3))
                    else (case constant' fn c1 of (i, c3) \<Rightarrow> emit0 N OpLoadConst [i] c3)) of
                Inl f \<Rightarrow> Inl f
              | Inr c4 \<Rightarrow>
                  (case ident of
                     None \<Rightarrow> Inr c4
                   | Some n \<Rightarrow>
                       (case insertVariable name c4 of
                          Inl e \<Rightarrow> Inl (Error e)
                        | Inr (funcSymbol, c5) \<Rightarrow> emitDeclare N funcSymbol c5))))"

text \<open>
  Modelled from the spec: \<open>String()\<close> of the function expression of a method call; the node
  types are not among the source files, and only an identifier is given its name.
\<close>

definition nodeString :: "node \<Rightarrow> string" where
  "nodeString n = (case n of AstIdent name \<Rightarrow> name | _ \<Rightarrow> [])"

definition isControl :: "node \<Rightarrow> bool" where
  "isControl n = (case n of AstControl literal v \<Rightarrow> True | _ \<Rightarrow> False)"

text \<open>
  \<open>Compiler.compile\<close> with the functions it calls that compile sub-nodes; \<open>compileAll\<close>
  is the loop over a list of statements or expressions, \<open>compilePairs\<close> the loop over the
  items of a map literal. The result is the fault that ends the compilation, or the
  compiler after it.
\<close>

function (sequential) compile :: "numbering \<Rightarrow> node \<Rightarrow> Compiler \<Rightarrow> fault + Compiler"
  and compileAll :: "numbering \<Rightarrow> node list \<Rightarrow> Compiler \<Rightarrow> fault + Compiler"
  and compilePairs :: "numbering \<Rightarrow> (node \<times> node) list \<Rightarrow> Compiler \<Rightarrow> fault + Compiler"
where
  "compile N AstNil c = emit0 N OpNil [] c"
| "compile N (AstInt v) c =
     (case constant' (Integer v) c of (i, c1) \<Rightarrow> emit0 N OpLoadConst [i] c1)"
| "compile N (AstFloat v) c =
     (case constant' (Float v) c of (i, c1) \<Rightarrow> emit0 N OpLoadConst [i] c1)"
| "compile N (AstString v) c =
     (case constant' (String v) c of (i, c1) \<Rightarrow> emit0 N OpLoadConst [i] c1)"
| "compile N (AstBool v) c = (if v then emit0 N OpTrue [] c else emit0 N OpFalse [] c)"
| "compile N (AstIf condition consequence alt) c =
     (case compile N condition c of
        Inl f \<Rightarrow> Inl f
      | Inr c1 \<Rightarrow>
          (case emit N OpPopJumpForwardIfFalse [9999] c1 of
             Inl f \<Rightarrow> Inl f
           | Inr (jumpIfFalsePos, c2) \<Rightarrow>
               (case compile N consequence c2 of
                  Inl f \<Rightarrow> Inl f
                | Inr c3 \<Rightarrow>
                    (case alt of
                       Some alternative \<Rightarrow>
                         (case emit N OpJumpForward [9999] c3 of
                            Inl f \<Rightarrow> Inl f
                          | Inr (jumpForwardPos, c4) \<Rightarrow>
                              (case changeOperand jumpIfFalsePos
                                      (calculateDelta jumpIfFalsePos c4) c4 of
                                 Inl f \<Rightarrow> Inl f
                               | Inr c5 \<Rightarrow>
                                   (case compile N alternative c5 of
                                      Inl f \<Rightarrow> Inl f
                                    | Inr c6 \<Rightarrow>
                                        changeOperand jumpForwardPos
                                          (calculateDelta jumpForwardPos c6) c6)))
                     | None \<Rightarrow>
                         changeOperand jumpIfFalsePos (calculateDelta jumpIfFalsePos c3) c3))))"
| "compile N (AstInfix operator left right) c =
     (case compile N left c of
        Inl f \<Rightarrow> Inl f
      | Inr c1 \<Rightarrow>
          (case compile N right c1 of
             Inl f \<Rightarrow> Inl f
           | Inr c2 \<Rightarrow> infixOperator N operator c2))"
| "compile N (AstProgram statements) c = compileAll N statements c"
| "compile N (AstBlock statements) c =
     (case compileAll N statements
             (c\<lparr>current := setSymbols (NewBlock (Symbols (current c))) (current c)\<rparr>) of
        Inl f \<Rightarrow> Inl f
      | Inr c1 \<Rightarrow> Inr (c1\<lparr>current := setSymbols (Parent (Symbols (current c1))) (current c1)\<rparr>))"
| "compile N (AstVar name expr) c =
     (case compile N expr c of
        Inl f \<Rightarrow> Inl f
      | Inr c1 \<Rightarrow>
          (case insertVariable name c1 of
             Inl e \<Rightarrow> Inl (Error e)
           | Inr (s, c2) \<Rightarrow> emitDeclare N s c2))"
| "compile N (AstAssign name operator v) c =
     (case lookup name c of
        None \<Rightarrow> Inl (Error (UndefinedVariable name))
      | Some (r, c0) \<Rightarrow>
          if operator = ''=''
          then (case compile N v c0 of
                  Inl f \<Rightarrow> Inl f
                | Inr c1 \<Rightarrow> assignStore N r c1)
          else (case emitLoad N r c0 of
                  Inl f \<Rightarrow> Inl f
                | Inr c1 \<Rightarrow>
                    (case compile N v c1 of
                       Inl f \<Rightarrow> Inl f
                     | Inr c2 \<Rightarrow>
                         (case assignOperator N operator c2 of
                            Inl f \<Rightarrow> Inl f
                          | Inr c3 \<Rightarrow> assignStore N r c3))))"
| "compile N (AstIdent name) c =
     (case lookup name c of
        None \<Rightarrow> Inl (Error (UndefinedVariable name))
      | Some (r, c0) \<Rightarrow> emitLoad N r c0)"
| "compile N (AstFor isSimpleLoop consequence) c =
     (if isSimpleLoop
      then (let c1 = c\<lparr>current := setSymbols (NewBlock (Symbols (current c))) (current c)\<rparr>;
                c2 = startLoop c1;
                start = of_nat (length (CompilerInstructions c2))
            in case compile N consequence c2 of
                 Inl f \<Rightarrow> Inl f
               | Inr c3 \<Rightarrow> finishSimpleFor N start c3)
      else Inr c)"
| "compile N (AstControl literal v) c =
     (if literal = ''return''
      then (if parents c = [] then Inl (Error ReturnOutsideOfFunction)
            else (case v of
                    None \<Rightarrow> Inl (Panic UnknownAstNode)
                  | Some e \<Rightarrow>
                      (case compile N e c of
                         Inl f \<Rightarrow> Inl f
                       | Inr c1 \<Rightarrow> emit0 N OpReturnValue [1] c1)))
      else compileBreakContinue N literal c)"
| "compile N (AstCall function args) c =
     (case compile N function c of
        Inl f \<Rightarrow> Inl f
      | Inr c1 \<Rightarrow>
          (case compileAll N args c1 of
             Inl f \<Rightarrow> Inl f
           | Inr c2 \<Rightarrow> emit0 N OpCall [of_nat (length args)] c2))"
| "compile N (AstFunc ident params defaultNames statements) c =
     (case makeDefaults params defaultNames (replicate (length params) GoNil) of
        Inl p \<Rightarrow> Inl (Panic p)
      | Inr defaults \<Rightarrow>
          (case compileAll N statements (enterFunc ident params c) of
             Inl f \<Rightarrow> Inl f
           | Inr c1 \<Rightarrow>
               (case (if length statements = 0
                      then (case emit0 N OpNil [] c1 of
                              Inl f \<Rightarrow> Inl f
                            | Inr c2 \<Rightarrow> emit0 N OpReturnValue [1] c2)
                      else if \<not> isControl (last statements)
                      then emit0 N OpReturnValue [1] c1
                      else Inr c1) of
                  Inl f \<Rightarrow> Inl f
                | Inr c3 \<Rightarrow> leaveFunc N ident params defaults c3)))"
| "compile N (AstList items) c =
     (case compileAll N items c of
        Inl f \<Rightarrow> Inl f
      | Inr c1 \<Rightarrow> emit0 N OpBuildList [of_nat (length items)] c1)"
| "compile N (AstMap items) c =
     (case compilePairs N items c of
        Inl f \<Rightarrow> Inl f
      | Inr c1 \<Rightarrow> emit0 N OpBuildMap [of_nat (length items)] c1)"
| "compile N (AstSet items) c =
     (case compileAll N items c of
        Inl f \<Rightarrow> Inl f
      | Inr c1 \<Rightarrow> emit0 N OpBuildSet [of_nat (length items)] c1)"
| "compile N (AstIndex left idx) c =
     (case compile N left c of
        Inl f \<Rightarrow> Inl f
      | Inr c1 \<Rightarrow>
          (case compile N idx c1 of
             Inl f \<Rightarrow> Inl f
           | Inr c2 \<Rightarrow> emit0 N OpBinarySubscr [] c2))"
| "compile N (AstGetAttr obj name) c =
     (case compile N obj c of
        Inl f \<Rightarrow> Inl f
      | Inr c1 \<Rightarrow> (case AddName name c1 of (idx, c2) \<Rightarrow> emit0 N OpLoadAttr [idx] c2))"
| "compile N (AstObjectCall obj expr) c =
     (case compile N obj c of
        Inl f \<Rightarrow> Inl f
      | Inr c1 \<Rightarrow>
          (case expr of
             AstCall function args \<Rightarrow>
               (case AddName (nodeString function) c1 of (idx, c2) \<Rightarrow>
                  (case emit0 N OpLoadAttr [idx] c2 of
                     Inl f \<Rightarrow> Inl f
                   | Inr c3 \<Rightarrow>
                       (case compileAll N args c3 of
                          Inl f \<Rightarrow> Inl f
                        | Inr c4 \<Rightarrow> emit0 N OpCall [of_nat (length args)] c4)))
           | _ \<Rightarrow> Inl (Error InvalidCallExpression)))"
| "compile N (AstPrefix operator right) c =
     (case compile N right c of
        Inl f \<Rightarrow> Inl f
      | Inr c1 \<Rightarrow> prefixOperator N operator c1)"
| "compile N (AstIn left right) c =
     (case compile N right c of
        Inl f \<Rightarrow> Inl f
      | Inr c1 \<Rightarrow>
          (case compile N left c1 of
             Inl f \<Rightarrow> Inl f
           | Inr c2 \<Rightarrow> emit0 N OpContainsOp [0] c2))"
| "compile N (AstConst name expr) c =
     (case compile N expr c of
        Inl f \<Rightarrow> Inl f
      | Inr c1 \<Rightarrow>
          (case insertVariable name c1 of
             Inl e \<Rightarrow> Inl (Error e)
           | Inr (s, c2) \<Rightarrow> emitDeclare N s c2))"
| "compile N (AstPostfix name operator) c = compilePostfix N name operator c"
| "compile N AstOther c = Inl (Panic UnknownAstNode)"
| "compileAll N [] c = Inr c"
| "compileAll N (n # ns) c =
     (case compile N n c of
        Inl f \<Rightarrow> Inl f
      | Inr c1 \<Rightarrow> compileAll N ns c1)"
| "compilePairs N [] c = Inr c"
| "compilePairs N ((k, v) # rest) c =
     (case compile N k c of
        Inl f \<Rightarrow> Inl f
      | Inr c1 \<Rightarrow>
          (case compile N v c1 of
             Inl f \<Rightarrow> Inl f
           | Inr c2 \<Rightarrow> compilePairs N rest c2))"
  by pat_completeness auto

termination
  by (relation "measure (\<lambda>x. case x of
          Inl (N, n, c) \<Rightarrow> size n
        | Inr (Inl (N, ns, c)) \<Rightarrow> size_list size ns
        | Inr (Inr (N, ps, c)) \<Rightarrow> size_list (size_prod size size) ps)") auto

definition Compile :: "numbering \<Rightarrow> node \<Rightarrow> Compiler \<Rightarrow> fault + Scope" where
  "Compile N n c =
     (case compile N n c of
        Inl f \<Rightarrow> Inl f
      | Inr c1 \<Rightarrow> Inr (mainScope c1))"

section \<open>Example inputs\<close>

text \<open>
  A numbering for the examples: the constants of each kind are numbered from 1 in the order
  of their datatype, so that no opcode is 0 and every number fits one byte.
\<close>

definition exampleNumbering :: numbering where
  "exampleNumbering =
     \<lparr>opNum = (\<lambda>opc. case opc of
          OpNop \<Rightarrow> 1 | OpLoadAttr \<Rightarrow> 2 | OpLoadConst \<Rightarrow> 3 | OpLoadFast \<Rightarrow> 4
        | OpLoadGlobal \<Rightarrow> 5 | OpLoadFree \<Rightarrow> 6 | OpStoreFast \<Rightarrow> 7 | OpStoreGlobal \<Rightarrow> 8
        | OpStoreFree \<Rightarrow> 9 | OpLoadClosure \<Rightarrow> 10 | OpMakeCell \<Rightarrow> 11 | OpNil \<Rightarrow> 12
        | OpTrue \<Rightarrow> 13 | OpFalse \<Rightarrow> 14 | OpCompareOp \<Rightarrow> 15 | OpBinaryOp \<Rightarrow> 16
        | OpCall \<Rightarrow> 17 | OpReturnValue \<Rightarrow> 18 | OpPopJumpForwardIfTrue \<Rightarrow> 19
        | OpPopJumpForwardIfFalse \<Rightarrow> 20 | OpPopJumpBackwardIfTrue \<Rightarrow> 21
        | OpPopJumpBackwardIfFalse \<Rightarrow> 22 | OpJumpForward \<Rightarrow> 23 | OpJumpBackward \<Rightarrow> 24
        | OpPrint \<Rightarrow> 25 | OpBuildList \<Rightarrow> 26 | OpBuildMap \<Rightarrow> 27 | OpBuildSet \<Rightarrow> 28
        | OpBinarySubscr \<Rightarrow> 29 | OpUnaryNegative \<Rightarrow> 30 | OpUnaryNot \<Rightarrow> 31
        | OpContainsOp \<Rightarrow> 32 | OpHalt \<Rightarrow> 33 | OpLoadBuiltin \<Rightarrow> 34),
      compareNum = (\<lambda>k. case k of
          Equal \<Rightarrow> 1 | NotEqual \<Rightarrow> 2 | LessThan \<Rightarrow> 3 | LessThanOrEqual \<Rightarrow> 4
        | GreaterThan \<Rightarrow> 5 | GreaterThanOrEqual \<Rightarrow> 6),
      binaryNum = (\<lambda>k. case k of
          Add \<Rightarrow> 1 | Subtract \<Rightarrow> 2 | Multiply \<Rightarrow> 3 | Divide \<Rightarrow> 4 | Modulo \<Rightarrow> 5 | And \<Rightarrow> 6
        | Or \<Rightarrow> 7 | Xor \<Rightarrow> 8 | Power \<Rightarrow> 9 | LShift \<Rightarrow> 10 | RShift \<Rightarrow> 11)\<rparr>"

text \<open>
  A host for the examples: \<open>Nil\<close> and \<open>false\<close> are falsy, equality is structural, nothing
  has attributes or items, builtins return \<open>Nil\<close>.
\<close>

definition exampleHost :: host where
  "exampleHost =
     \<lparr>IsTruthy = (\<lambda>x. case x of Bool b \<Rightarrow> b | Nil \<Rightarrow> False | _ \<Rightarrow> True),
      Equals = (\<lambda>a b. Bool (a = b)),
      GetAttr = (\<lambda>a name. None),
      BuiltinCall = (\<lambda>f args. Nil),
      IsContainer = (\<lambda>x. False),
      GetItem = (\<lambda>a i. Inl Nil),
      Contains = (\<lambda>a x. Bool False),
      ObjectNot = (\<lambda>x. case x of Bool b \<Rightarrow> Bool (\<not> b) | _ \<Rightarrow> x),
      MathPow = (\<lambda>a b. 0)\<rparr>"

text \<open>\<open>New\<close> followed by \<open>Run\<close>, for a scope that is given directly.\<close>

definition runScope :: "host \<Rightarrow> numbering \<Rightarrow> Scope \<Rightarrow> (panic + error option \<times> VM) option" where
  "runScope H N sc = (case New sc of Inl p \<Rightarrow> Some (Inl p) | Inr vm \<Rightarrow> Run H N vm)"

text \<open>What is observed of a run: how it ends and the operand stack it leaves (top first).\<close>

definition observe ::
  "(panic + error option \<times> VM) option \<Rightarrow> (panic + error option \<times> object list) option"
where
  "observe r = map_option (map_sum id (\<lambda>(e, vm). (e, stack vm))) r"

text \<open>The instructions of a compiled function.\<close>

definition codeOf :: "object \<Rightarrow> code list" where
  "codeOf obj = (case obj of CompiledFunction n ps ds ins sc fv \<Rightarrow> ins | _ \<Rightarrow> [])"

text \<open>\<open>var x = 1; func f() { for { continue } }; f()\<close> and \<open>for { break }; 1\<close>.\<close>

definition progContinue :: node where
  "progContinue = AstProgram
     [AstVar ''x'' (AstInt 1),
      AstFunc (Some ''f'') [] [] [AstFor True (AstBlock [AstControl ''continue'' None])],
      AstCall (AstIdent ''f'') []]"

definition progBreak :: node where
  "progBreak = AstProgram [AstFor True (AstBlock [AstControl ''break'' None]), AstInt 1]"

text \<open>
  Scenario 6 of the specification,
  \<open>func fact(n){ if n <= 1 { return 1 }; return n * fact(n-1) }; fact(5)\<close>, and scenario 3,
  \<open>func mk(){ var n = 0; func inc(){ n = n + 1; return n }; return inc };
  var f = mk(); f(); f(); f()\<close>, laid out by hand the way the VM reads code: every
  operand that the VM takes with \<open>fetch2\<close> in two code words, low byte first, every operand
  it takes with \<open>fetch\<close> in one, and the jump of the \<open>if\<close> measured in that layout.
\<close>

definition factFnVM :: "numbering \<Rightarrow> object" where
  "factFnVM N =
     CompiledFunction ''fact'' [''n''] [GoNil] []
       (Scope ''fact'' True
          (Table [[(''fact'', Symbol ''fact'' 1 None), (''n'', Symbol ''n'' 0 None)]] 2 [] [])
          [opNum N OpLoadFast, 0, 0, opNum N OpLoadConst, 0, 0,
           opNum N OpCompareOp, compareNum N LessThanOrEqual,
           opNum N OpPopJumpForwardIfFalse, 8, 0,
           opNum N OpLoadConst, 1, 0, opNum N OpReturnValue, 1,
           opNum N OpLoadFast, 0, 0, opNum N OpLoadFast, 1, 0, opNum N OpLoadFast, 0, 0,
           opNum N OpLoadConst, 2, 0, opNum N OpBinaryOp, binaryNum N Subtract,
           opNum N OpCall, 1, opNum N OpBinaryOp, binaryNum N Multiply,
           opNum N OpReturnValue, 1]
          [Integer 1, Integer 1, Integer 1] [] [] [])
       []"

definition factVM :: "numbering \<Rightarrow> Scope" where
  "factVM N =
     Scope ''main'' False (Table [[(''fact'', Symbol ''fact'' 0 None)]] 1 [] [])
       [opNum N OpLoadConst, 0, 0, opNum N OpStoreGlobal, 0, 0, opNum N OpLoadGlobal, 0, 0,
        opNum N OpLoadConst, 1, 0, opNum N OpCall, 1]
       [factFnVM N, Integer 5] [] [] []"

definition incFnVM :: "numbering \<Rightarrow> object" where
  "incFnVM N =
     CompiledFunction ''inc'' [] [] []
       (Scope ''inc'' True
          (Table [[(''inc'', Symbol ''inc'' 0 None)]] 1
             [Resolution (Symbol ''n'' 1 None) ScopeFree 1] [])
          [opNum N OpLoadFree, 0, 0, opNum N OpLoadConst, 0, 0,
           opNum N OpBinaryOp, binaryNum N Add, opNum N OpStoreFree, 0, 0,
           opNum N OpLoadFree, 0, 0, opNum N OpReturnValue, 1]
          [Integer 1] [] [] [])
       []"

definition mkFnVM :: "numbering \<Rightarrow> object" where
  "mkFnVM N =
     CompiledFunction ''mk'' [] [] []
       (Scope ''mk'' True
          (Table [[(''inc'', Symbol ''inc'' 2 None), (''n'', Symbol ''n'' 1 None),
                   (''mk'', Symbol ''mk'' 0 None)]] 3 [] [])
          [opNum N OpLoadConst, 0, 0, opNum N OpStoreFast, 1, opNum N OpMakeCell, 1, 0, 0,
           opNum N OpLoadClosure, 1, 0, 1, 0, opNum N OpStoreFast, 2, opNum N OpLoadFast, 2, 0,
           opNum N OpReturnValue, 1]
          [Integer 0, incFnVM N] [] [] [])
       []"

definition counterVM :: "numbering \<Rightarrow> Scope" where
  "counterVM N =
     Scope ''main'' False
       (Table [[(''f'', Symbol ''f'' 1 None), (''mk'', Symbol ''mk'' 0 None)]] 2 [] [])
       [opNum N OpLoadConst, 0, 0, opNum N OpStoreGlobal, 0, 0, opNum N OpLoadGlobal, 0, 0,
        opNum N OpCall, 0, opNum N OpStoreGlobal, 1, 0,
        opNum N OpLoadGlobal, 1, 0, opNum N OpCall, 0,
        opNum N OpLoadGlobal, 1, 0, opNum N OpCall, 0,
        opNum N OpLoadGlobal, 1, 0, opNum N OpCall, 0]
       [mkFnVM N] [] [] []"

text \<open>
  A VM that stands at a \<open>Call\<close> of a compiled function with 1023 frames above the base
  frame, and one that stands at a \<open>ReturnValue\<close> in the base frame.
\<close>

definition overflowVM :: VM where
  "overflowVM =
     \<lparr>ip = 0, sp = - 1,
      stack = [CompiledFunction ''f'' [] [] [] (Scope ''f'' True NewTable [] [] [] [] []) []],
      frames = [], framesIndex = 1023, main = None,
      currentScope =
        Some (Scope ''main'' False NewTable [opNum exampleNumbering OpCall, 0] [] [] [] []),
      globals = [], heap = [], currentFrame = 1023\<rparr>"

definition underflowVM :: VM where
  "underflowVM =
     \<lparr>ip = 0, sp = - 1, stack = [Integer 1], frames = [], framesIndex = 0, main = None,
      currentScope =
        Some (Scope ''main'' False NewTable [opNum exampleNumbering OpReturnValue, 1] [] [] [] []),
      globals = [], heap = [], currentFrame = 0\<rparr>"

text \<open>
  A VM that stands at a \<open>Call\<close> with one argument of a named function of two parameters
  (three symbols).
\<close>

definition twoParams :: object where
  "twoParams =
     CompiledFunction ''g'' [''a'', ''b''] [GoNil, GoNil] []
       (Scope ''g'' True
          (Table [[(''g'', Symbol ''g'' 2 None), (''b'', Symbol ''b'' 1 None),
                   (''a'', Symbol ''a'' 0 None)]] 3 [] [])
          [] [] [] [] [])
       []"

definition oneArgumentVM :: VM where
  "oneArgumentVM =
     \<lparr>ip = 0, sp = - 1, stack = [Integer 7, twoParams], frames = [], framesIndex = 0,
      main = None,
      currentScope =
        Some (Scope ''main'' False NewTable [opNum exampleNumbering OpCall, 1] [] [] [] []),
      globals = [], heap = [], currentFrame = 0\<rparr>"

text \<open>
  The code of \<open>1 / 0\<close> laid out the way the VM reads it, every 16-bit operand in two code
  words.
\<close>

definition divideByZeroCode :: "numbering \<Rightarrow> Scope" where
  "divideByZeroCode N =
     Scope ''main'' False NewTable
       [opNum N OpLoadConst, 0, 0, opNum N OpLoadConst, 1, 0, opNum N OpBinaryOp,
        binaryNum N Divide]
       [Integer 1, Integer 0] [] [] []"

text \<open>
  \<open>func f() { f() }; f()\<close> laid out the way the VM reads it, then the VM of its run when
  \<open>f\<close> has just been entered for the \<open>k\<close>-th time (\<open>atDepth k\<close>): frame \<open>j\<close> holds the
  \<open>j\<close>-th activation of \<open>f\<close>, whose only local, the slot \<open>j\<close> of the store, is \<open>f\<close>
  itself. \<open>afterLoad k\<close> is that VM once the body has pushed \<open>f\<close>, before the \<open>Call\<close>.
\<close>

definition selfCallFn :: "numbering \<Rightarrow> object" where
  "selfCallFn N =
     CompiledFunction ''f'' [] [] []
       (Scope ''f'' True (Table [[(''f'', Symbol ''f'' 0 None)]] 1 [] [])
          [opNum N OpLoadFast, 0, 0, opNum N OpCall, 0, opNum N OpReturnValue, 1]
          [] [] [] [])
       []"

definition selfCallVM :: "numbering \<Rightarrow> Scope" where
  "selfCallVM N =
     Scope ''main'' False (Table [[(''f'', Symbol ''f'' 0 None)]] 1 [] [])
       [opNum N OpLoadConst, 0, 0, opNum N OpStoreGlobal, 0, 0, opNum N OpLoadGlobal, 0, 0,
        opNum N OpCall, 0]
       [selfCallFn N] [] [] []"

definition selfCallFrame :: "nat \<Rightarrow> Frame" where
  "selfCallFrame j =
     \<lparr>fn = Some (selfCallFn exampleNumbering), locals = [j],
      returnAddr = (if j = 1 then 11 else 5),
      scope = Some (fnScope (selfCallFn exampleNumbering))\<rparr>"

definition atDepth :: "nat \<Rightarrow> VM" where
  "atDepth k =
     \<lparr>ip = 0, sp = - 1, stack = [],
      frames = \<lparr>fn = None, locals = [0], returnAddr = 0,
                scope = Some (selfCallVM exampleNumbering)\<rparr> # map selfCallFrame [1..<Suc k],
      framesIndex = k, main = Some (selfCallVM exampleNumbering),
      currentScope = Some (fnScope (selfCallFn exampleNumbering)),
      globals = [selfCallFn exampleNumbering],
      heap = GoNil # replicate k (selfCallFn exampleNumbering),
      currentFrame = k\<rparr>"

definition afterLoad :: "nat \<Rightarrow> VM" where
  "afterLoad k = (atDepth k)\<lparr>ip := 3, stack := [selfCallFn exampleNumbering]\<rparr>"

text \<open>What is observed of a run that overflows: how it ends and the depth it has reached.\<close>

definition depthReached ::
  "(panic + error option \<times> VM) option \<Rightarrow> (panic + error option \<times> nat) option"
where
  "depthReached r = map_option (map_sum id (\<lambda>(e, vm). (e, framesIndex vm))) r"

text \<open>
  The words that the compiler emits for the body of \<open>f\<close> in
  \<open>var x = 1; func f() { for { continue } }\<close>, as the code of a scope, and the position
  of a VM after its first step on a scope.
\<close>

definition continueWords :: "numbering \<Rightarrow> Scope" where
  "continueWords N =
     Scope ''f'' True NewTable
       [opNum N OpJumpBackward, 65532, opNum N OpJumpBackward, 65534, opNum N OpNop,
        opNum N OpReturnValue, 1]
       [] [] [] []"

text \<open>The same instructions with every 16-bit operand in two code words, low byte first.\<close>

definition continueBytes :: "numbering \<Rightarrow> Scope" where
  "continueBytes N =
     Scope ''f'' True NewTable
       [opNum N OpJumpBackward, 252, 255, opNum N OpJumpBackward, 254, 255, opNum N OpNop,
        opNum N OpReturnValue, 1]
       [] [] [] []"

definition ipAfterStep :: "host \<Rightarrow> numbering \<Rightarrow> Scope \<Rightarrow> int option" where
  "ipAfterStep H N sc =
     (case New sc of
        Inl p \<Rightarrow> None
      | Inr vm \<Rightarrow> (case step H N vm of Next vm1 \<Rightarrow> Some (ip vm1) | _ \<Rightarrow> None))"

section \<open>Code at a position\<close>

text \<open>
  The words \<open>ws\<close> stand at position \<open>p\<close> of the instructions of the current scope, and a
  VM that stands at position \<open>p\<close> of a scope with the operand stack \<open>st\<close>.
\<close>

definition codeAt :: "VM \<Rightarrow> int \<Rightarrow> code list \<Rightarrow> bool" where
  "codeAt vm p ws =
     (case currentScope vm of
        None \<Rightarrow> False
      | Some sc \<Rightarrow> 0 \<le> p \<and> take (length ws) (drop (nat p) (Instructions sc)) = ws)"

definition vmAt :: "Scope \<Rightarrow> int \<Rightarrow> object list \<Rightarrow> VM" where
  "vmAt sc p st =
     \<lparr>ip = p, sp = - 1, stack = st, frames = [], framesIndex = 0, main = Some sc,
      currentScope = Some sc, globals = [], heap = [], currentFrame = 0\<rparr>"

section \<open>More example inputs\<close>

text \<open>
  \<open>if b { 1 } else { 2 }\<close> and \<open>if b { 1 }\<close> for a literal condition \<open>b\<close>, laid out the way
  the VM reads code: each jump in three code words, its operand the distance from the
  position of its opcode to its target.
\<close>

definition ifElseVM :: "numbering \<Rightarrow> bool \<Rightarrow> Scope" where
  "ifElseVM N b =
     Scope ''main'' False NewTable
       [opNum N (if b then OpTrue else OpFalse), opNum N OpPopJumpForwardIfFalse, 9, 0,
        opNum N OpLoadConst, 0, 0, opNum N OpJumpForward, 6, 0, opNum N OpLoadConst, 1, 0]
       [Integer 1, Integer 2] [] [] []"

definition ifVM :: "numbering \<Rightarrow> bool \<Rightarrow> Scope" where
  "ifVM N b =
     Scope ''main'' False NewTable
       [opNum N (if b then OpTrue else OpFalse), opNum N OpPopJumpForwardIfFalse, 6, 0,
        opNum N OpLoadConst, 0, 0]
       [Integer 1] [] [] []"

text \<open>
  The symbols that \<open>compileFunc\<close> inserts for a list of names, starting at index \<open>k\<close>, as
  they stand in the block of the table (the last one first).
\<close>

definition fresh :: "nat \<Rightarrow> string list \<Rightarrow> (string \<times> object Symbol) list" where
  "fresh k names = rev (map (\<lambda>(i, nm). (nm, Symbol nm (of_nat i) None)) (zip [k..<k + length names] names))"

text \<open>
  A named function of 255 parameters, a VM that stands at its \<open>Call\<close> with 255 arguments,
  and a VM that stands at the \<open>Call\<close> of \<open>fact\<close> with the argument 5.
\<close>

definition manyParams :: "string list" where
  "manyParams = map (\<lambda>i. replicate (Suc i) CHR ''a'') [0..<255]"

definition manyParamsFn :: object where
  "manyParamsFn =
     CompiledFunction ''h'' manyParams (replicate 255 GoNil) []
       (Scope ''h'' True
          (Table [(''h'', Symbol ''h'' 255 None) # fresh 0 manyParams] 256 [] [])
          [] [] [] [] [])
       []"

definition manyArgumentsVM :: VM where
  "manyArgumentsVM =
     \<lparr>ip = 0, sp = - 1, stack = replicate 255 (Integer 0) @ [manyParamsFn], frames = [],
      framesIndex = 0, main = None,
      currentScope =
        Some (Scope ''main'' False NewTable [opNum exampleNumbering OpCall, 255] [] [] [] []),
      globals = [], heap = [], currentFrame = 0\<rparr>"

definition factCallVM :: VM where
  "factCallVM =
     \<lparr>ip = 0, sp = - 1, stack = [Integer 5, factFnVM exampleNumbering], frames = [],
      framesIndex = 0, main = None,
      currentScope =
        Some (Scope ''main'' False NewTable [opNum exampleNumbering OpCall, 1] [] [] [] []),
      globals = [], heap = [], currentFrame = 0\<rparr>"

text \<open>
  A VM that stands at a \<open>LoadFast\<close> of the local 1, the two locals of its frame being the
  slots 0 and 1 of the store.
\<close>

definition loadFastVM :: VM where
  "loadFastVM =
     \<lparr>ip = 0, sp = - 1, stack = [],
      frames = [\<lparr>fn = None, locals = [0, 1], returnAddr = 0, scope = None\<rparr>],
      framesIndex = 0, main = None,
      currentScope =
        Some (Scope ''main'' False NewTable [opNum exampleNumbering OpLoadFast, 1, 0] [] [] [] []),
      globals = [], heap = [Integer 5, Integer 9], currentFrame = 0\<rparr>"

text \<open>The values of the locals of the current frame after a step.\<close>

definition localValues :: "VM outcome \<Rightarrow> object list" where
  "localValues r =
     (case r of
        Next vm \<Rightarrow> map (\<lambda>a. load a vm) (locals (frameAt vm (currentFrame vm)))
      | _ \<Rightarrow> [])"

text \<open>
  A VM with one frame whose two locals are the slots 0 and 1 of the store, for the code
  \<open>ws\<close>, the function \<open>f\<close> of the frame, the operand stack \<open>st\<close> and the constants \<open>consts\<close>.
\<close>

definition cellVM :: "code list \<Rightarrow> object option \<Rightarrow> object list \<Rightarrow> object list \<Rightarrow> VM" where
  "cellVM ws f st consts =
     \<lparr>ip = 0, sp = - 1, stack = st,
      frames = [\<lparr>fn = f, locals = [0, 1], returnAddr = 0, scope = None\<rparr>],
      framesIndex = 0, main = None,
      currentScope = Some (Scope ''main'' False NewTable ws consts [] [] []),
      globals = [], heap = [Integer 0, Integer 7], currentFrame = 0\<rparr>"

text \<open>
  The code that captures two locals of the main frame and builds a closure of them, laid
  out the way the VM reads it.
\<close>

definition twoCellsVM :: "numbering \<Rightarrow> Scope" where
  "twoCellsVM N =
     Scope ''main'' False
       (Table [[(''b'', Symbol ''b'' 1 None), (''a'', Symbol ''a'' 0 None)]] 2 [] [])
       [opNum N OpMakeCell, 0, 0, 0, opNum N OpMakeCell, 1, 0, 0,
        opNum N OpLoadClosure, 0, 0, 2, 0]
       [incFnVM N] [] [] []"

text \<open>
  The compiler at the end of an anonymous function that has resolved two free symbols,
  before \<open>compileFunc\<close> returns to the parent scope.
\<close>

definition closureCompiler :: Compiler where
  "closureCompiler =
     \<lparr>current = Scope [] False
                  (Table [[]] 0 [Resolution (Symbol ''a'' 0 None) ScopeFree 1,
                                 Resolution (Symbol ''b'' 1 None) ScopeFree 1] [])
                  [opNum exampleNumbering OpReturnValue, 1] [] [] [] [],
      parents = [Scope ''main'' False NewTable [] [] [] [] []],
      startPos = 0\<rparr>"

text \<open>The words of one \<open>MakeCell\<close> instruction as \<open>compileFunc\<close> emits it.\<close>

definition makeCellWords :: "numbering \<Rightarrow> object Resolution \<Rightarrow> code list" where
  "makeCellWords N r = [opNum N OpMakeCell, Index (resSymbol r), of_nat (Depth r - 1)]"

definition isCell :: "object \<Rightarrow> bool" where
  "isCell x = (case x of Cell a \<Rightarrow> True | _ \<Rightarrow> False)"

section \<open>Evaluation\<close>

text \<open>The definitions that the simplifier unfolds to compile and to run a concrete program.\<close>

lemmas compiler_defs =
  Compile_def NewCompiler_def NewTable_def NewChild_def NewBlock_def Parent_def InsertVariable_def
  InsertBuiltin_def Lookup_def Free_def setSymbols_def setInstructions_def setConstants_def
  setNames_def setChildren_def setLoops_def CurrentScope_def mainScope_def CompilerInstructions_def
  lookup_def insertVariable_def insertIgnoringError_def constant'_def AddName_def
  MakeInstruction_def emit_def emit0_def calculateDelta_def changeOperand_def currentLoop_def
  startLoop_def endLoop_def appendBreakPos_def appendContinuePos_def emitLoad_def assignStore_def
  assignOperator_def emitDeclare_def compilePostfix_def infixOperator_def prefixOperator_def
  finishSimpleFor_def compileBreakContinue_def enterFunc_def leaveFunc_def nodeString_def
  isControl_def Let_def exampleNumbering_def

lemmas vm_defs =
  runScope_def observe_def New_def Map_of_table_def Run_def Init_def
  allocate_def Size_def zeroFrame_def frameAt_def setFrame_def setGlobal_def step_def decode_def
  switchCases_def decodeCompare_def decodeBinary_def index_def fetch_def fetch2_def
  instructions_def Pop_def Push_def jump_def load_def store_def InitWithLocals_def
  NewClosure_def intOperands_def NewBool_def exampleHost_def MaxFrameDepth_def MaxArgs_def

section \<open>Interning of constants\<close>

lemma constant_in_range:
  "length (Constants (current c)) < 65536 \<Longrightarrow>
     unat (fst (constant' v c)) = length (Constants (current c)) \<and>
     Constants (current (snd (constant' v c))) = Constants (current c) @ [v]"
  by (simp add: constant'_def setConstants_def Let_def unat_of_nat)

text \<open>
  Claim C9. \<open>constant\<close> appends the value to the constants of the current scope and returns
  the index of the new entry as a \<open>uint16\<close>; the claim wants an error once the index does
  not fit. The code has no such check (its comment says \<open>TODO: error if > 65535\<close>) and has
  no error result at all: in a scope that already holds 65536 constants the new entry is
  number 65536, and the index returned for it is 0, the index of the first constant.
\<close>

theorem constant_index_wraps:
  "fst (constant' v (c\<lparr>current := setConstants (replicate 65536 Nil) (current c)\<rparr>)) = 0
   \<and> length (Constants (current (snd (constant' v
          (c\<lparr>current := setConstants (replicate 65536 Nil) (current c)\<rparr>))))) = 65537"
  by (simp add: constant'_def setConstants_def Let_def)

section \<open>Failures at run time\<close>

text \<open>
  Claim C3. The claim wants every run-time failure of an opcode to come back from \<open>Run\<close> as
  an error value. \<open>runBinaryOp\<close> and \<open>runCompareOp\<close> check neither the divisor nor the types
  of their operands: an integer division or remainder by zero and an operand that is not
  an \<open>*object.Int\<close> are Go panics, which \<open>Run\<close> does not recover. So the dispatch loop on the
  code of \<open>1 / 0\<close> ends in the panic.
\<close>

theorem division_by_zero_panics:
  "runBinaryOp H (Some Divide) (Integer a) (Integer 0) = Inl IntegerDivideByZero
   \<and> runBinaryOp H (Some Modulo) (Integer a) (Integer 0) = Inl IntegerDivideByZero
   \<and> runBinaryOp H (Some Add) (String s) (Integer b) = Inl TypeAssertion
   \<and> runBinaryOp H (Some Add) (Integer a) (String s) = Inl TypeAssertion
   \<and> runCompareOp H (Some LessThan) (String s) (Integer b) = Inl TypeAssertion
   \<and> runCompareOp H (Some LessThan) (Integer a) Nil = Inl TypeAssertion
   \<and> observe (runScope H exampleNumbering (divideByZeroCode exampleNumbering))
       = Some (Inl IntegerDivideByZero)"
proof -
  have ops: "runBinaryOp H (Some Divide) (Integer a) (Integer 0) = Inl IntegerDivideByZero
     \<and> runBinaryOp H (Some Modulo) (Integer a) (Integer 0) = Inl IntegerDivideByZero
     \<and> runBinaryOp H (Some Add) (String s) (Integer b) = Inl TypeAssertion
     \<and> runBinaryOp H (Some Add) (Integer a) (String s) = Inl TypeAssertion
     \<and> runCompareOp H (Some LessThan) (String s) (Integer b) = Inl TypeAssertion
     \<and> runCompareOp H (Some LessThan) (Integer a) Nil = Inl TypeAssertion"
    by (simp add: intOperands_def)
  have vm: "observe (runScope H exampleNumbering (divideByZeroCode exampleNumbering))
       = Some (Inl IntegerDivideByZero)"
    by code_simp
  from ops vm show ?thesis by simp
qed

section \<open>The frame limits\<close>

lemma popN_snd: "snd (popN n vm) = vm\<lparr>stack := drop n (stack vm)\<rparr>"
proof (induction n arbitrary: vm)
  case 0
  then show ?case by simp
next
  case (Suc n)
  show ?case
  proof (cases "stack vm")
    case Nil
    then show ?thesis using Suc [of vm] by (simp add: Pop_def split_beta)
  next
    case (Cons x xs)
    then show ?thesis using Suc [of "vm\<lparr>stack := xs\<rparr>"] by (simp add: Pop_def split_beta)
  qed
qed

lemma step_Call:
  assumes "currentScope vm = Some sc" "index (Instructions sc) (ip vm) = Some w"
    "decode N w = Some OpCall" "index (Instructions sc) (ip vm + 1) = Some a"
    "drop (unat (ucast a :: 8 word)) (stack vm) = CompiledFunction n ps ds ins fsc fv # rest"
  shows "step H N vm =
     (if framesIndex vm + 1 \<ge> MaxFrameDepth
      then Return (Some FrameOverflow) (vm\<lparr>ip := ip vm + 2, stack := rest\<rparr>)
      else if IsNamed fsc \<and> unat (ucast a :: 8 word) \<ge> MaxArgs then Panicked IndexOutOfRange
      else Next ((InitWithLocals (framesIndex vm + 1) (CompiledFunction n ps ds ins fsc fv) (ip vm + 2)
                   (if IsNamed fsc then rev (fst (popN (unat (ucast a :: 8 word)) (vm\<lparr>ip := ip vm + 2\<rparr>))) @ [CompiledFunction n ps ds ins fsc fv]
                    else rev (fst (popN (unat (ucast a :: 8 word)) (vm\<lparr>ip := ip vm + 2\<rparr>))))
                   (vm\<lparr>ip := ip vm + 2, stack := rest, framesIndex := framesIndex vm + 1\<rparr>))
                 \<lparr>currentFrame := framesIndex vm + 1, ip := 0, currentScope := Some fsc\<rparr>))"
proof -
  let ?argc = "unat (ucast a :: 8 word)"
  let ?vm1 = "vm\<lparr>ip := ip vm + 2\<rparr>"
  have f: "fetch (vm\<lparr>ip := ip vm + 1\<rparr>) = Inr (ucast a, ?vm1)"
    using assms by (simp add: fetch_def instructions_def)
  have p: "snd (popN ?argc ?vm1) = ?vm1\<lparr>stack := drop ?argc (stack vm)\<rparr>"
    using popN_snd [of ?argc ?vm1] by simp
  show ?thesis
    using assms f p
    by (simp add: step_def Let_def split_beta Pop_def)
qed


lemma index_Some_less: "index xs i = Some w \<Longrightarrow> i < int (length xs)"
  by (simp add: index_def split: if_splits)

lemma loop_unfold:
  assumes "currentScope vm = Some sc" "index (Instructions sc) (ip vm) = Some w"
  shows "loop H N vm =
     (case step H N vm of
        Next vm1 \<Rightarrow> loop H N vm1
      | Return e vm1 \<Rightarrow> Some (Inr (e, vm1))
      | Panicked p \<Rightarrow> Some (Inl p))"
  using assms index_Some_less [OF assms(2)] by (subst loop.simps) simp

lemma step_ReturnValue:
  assumes "currentScope vm = Some sc" "index (Instructions sc) (ip vm) = Some w"
    "decode N w = Some OpReturnValue"
  shows "step H N vm =
     (if framesIndex vm = 0 then Return (Some FrameUnderflow) (vm\<lparr>ip := ip vm + 1\<rparr>)
      else Next (vm\<lparr>ip := returnAddr (frameAt vm (framesIndex vm)),
                    framesIndex := framesIndex vm - 1,
                    currentFrame := framesIndex vm - 1,
                    currentScope := scope (frameAt vm (framesIndex vm - 1))\<rparr>))"
  using assms by (simp add: step_def Let_def frameAt_def)

lemma frames_snoc: "length xs = k \<Longrightarrow> (xs @ [z])[k := f] = xs @ [f]"
  by (induction xs arbitrary: k) (auto split: nat.splits)

lemma upt_single: "[n..<Suc n] = [n]"
  by simp

lemma frames_upt:
  "map selfCallFrame [Suc 0..<Suc (Suc k)]
     = map selfCallFrame [Suc 0..<Suc k] @ [selfCallFrame (Suc k)]"
  by simp

lemma frames_nth: "1 \<le> k \<Longrightarrow> (f0 # map selfCallFrame [1..<Suc k]) ! k = selfCallFrame k"
  by (cases k) (simp_all add: nth_append del: upt_Suc)

lemma heap_nth: "1 \<le> k \<Longrightarrow> (GoNil # replicate k v) ! k = v"
  by (simp add: nth_Cons')

lemma locals_selfCallFrame: "locals (selfCallFrame j) = [j]"
  by (simp add: selfCallFrame_def)

text \<open>The run of \<open>func f() { f() }; f()\<close> enters \<open>f\<close> for the first time.\<close>

lemma selfCall_enters:
  "runScope H exampleNumbering (selfCallVM exampleNumbering) = loop H exampleNumbering (atDepth 1)"
  by (simp add: selfCallVM_def selfCallFn_def atDepth_def selfCallFrame_def vm_defs Let_def
      NewTable_def exampleNumbering_def
      loop.simps [of _ _ "\<lparr>ip = _, sp = _, stack = _, frames = _, framesIndex = 0, main = _,
         currentScope = _, globals = _, heap = _, currentFrame = _\<rparr>"])

text \<open>In the \<open>k\<close>-th activation the body loads \<open>f\<close> ...\<close>

lemma selfCall_loads:
  assumes "1 \<le> k"
  shows "loop H exampleNumbering (atDepth k) = loop H exampleNumbering (afterLoad k)"
  apply (subst loop.simps)
  using assms frames_nth [OF assms] heap_nth [OF assms]
  apply (simp add: afterLoad_def atDepth_def selfCallFn_def locals_selfCallFrame vm_defs
      exampleNumbering_def Let_def del: upt_Suc)
  done

text \<open>... and calls it, which enters activation \<open>k + 1\<close> as long as \<open>k + 1\<close> is below 1024.\<close>

lemma selfCall_calls:
  assumes "1 \<le> k" "k < 1023"
  shows "loop H exampleNumbering (afterLoad k) = loop H exampleNumbering (atDepth (Suc k))"
  apply (subst loop.simps)
  using assms
  apply (simp add: afterLoad_def atDepth_def selfCallFn_def selfCallFrame_def vm_defs
      exampleNumbering_def Let_def frames_snoc frames_upt upt_single replicate_append_same
      del: upt_Suc)
  done

lemma selfCall_climbs:
  "k < 1023 \<Longrightarrow> loop H exampleNumbering (atDepth 1) = loop H exampleNumbering (atDepth (Suc k))"
proof (induction k)
  case 0
  then show ?case by simp
next
  case (Suc k)
  then have "loop H exampleNumbering (atDepth 1) = loop H exampleNumbering (atDepth (Suc k))"
    by simp
  also have "\<dots> = loop H exampleNumbering (afterLoad (Suc k))"
    by (rule selfCall_loads) simp
  also have "\<dots> = loop H exampleNumbering (atDepth (Suc (Suc k)))"
    using Suc.prems by (intro selfCall_calls) simp_all
  finally show ?case .
qed

text \<open>The call in activation 1023 is refused.\<close>

lemma selfCall_refused:
  "loop H exampleNumbering (atDepth 1023)
     = Some (Inr (Some FrameOverflow, (atDepth 1023)\<lparr>ip := 5\<rparr>))"
proof -
  have 1: "loop H exampleNumbering (atDepth 1023) = loop H exampleNumbering (afterLoad 1023)"
    by (rule selfCall_loads) simp
  have 2: "loop H exampleNumbering (afterLoad 1023)
     = Some (Inr (Some FrameOverflow, (atDepth 1023)\<lparr>ip := 5\<rparr>))"
    by (subst loop.simps)
       (simp add: afterLoad_def atDepth_def selfCallFn_def vm_defs exampleNumbering_def Let_def
          del: upt_Suc)
  from 1 2 show ?thesis by simp
qed

lemma selfCall_overflows:
  "runScope H exampleNumbering (selfCallVM exampleNumbering)
     = Some (Inr (Some FrameOverflow, (atDepth 1023)\<lparr>ip := 5\<rparr>))"
  using selfCall_enters [of H] selfCall_climbs [of 1022 H] selfCall_refused [of H] by simp

text \<open>
  Claim C7. Let the dispatch loop stand at a \<open>Call\<close> whose callee, under the arguments on
  the stack, is a compiled function. If \<open>framesIndex + 1\<close> reaches \<open>MaxFrameDepth\<close>, which
  is 1024, the step returns the error \<open>frame overflow\<close>, the loop of \<open>Run\<close> returns it, and
  the VM it leaves differs from the one before only in \<open>ip\<close> and in the popped operands:
  \<open>frames\<close>, \<open>framesIndex\<close> and the store are untouched. Otherwise the step returns no such
  error: it enters the new frame (or panics on the 256th local). So a call at depth 1023
  fails, and recursion cannot get 1024 frames deep. Let the loop stand at a \<open>ReturnValue\<close>:
  if \<open>framesIndex\<close> is 0 the step returns the error \<open>frame underflow\<close>, the loop of \<open>Run\<close>
  returns it and only \<open>ip\<close> has changed; otherwise the step leaves the frame. And the run
  of \<open>func f() { f() }; f()\<close> (in the layout that the VM reads, with the frames modelled
  as above) returns \<open>frame overflow\<close> when \<open>f\<close> is active 1023 times and calls itself once
  more.
\<close>

theorem frame_limits:
  "MaxFrameDepth = 1024
   \<and> (currentScope vm = Some sc \<and> index (Instructions sc) (ip vm) = Some w
        \<and> decode N w = Some OpCall \<and> index (Instructions sc) (ip vm + 1) = Some a
        \<and> drop (unat (ucast a :: 8 word)) (stack vm) = CompiledFunction n ps ds ins fsc fv # rest
      \<longrightarrow> (if framesIndex vm + 1 \<ge> MaxFrameDepth
           then step H N vm = Return (Some FrameOverflow) (vm\<lparr>ip := ip vm + 2, stack := rest\<rparr>)
              \<and> loop H N vm = Some (Inr (Some FrameOverflow, vm\<lparr>ip := ip vm + 2, stack := rest\<rparr>))
           else step H N vm = Panicked IndexOutOfRange
              \<or> (\<exists>vm'. step H N vm = Next vm' \<and> framesIndex vm' = framesIndex vm + 1)))
   \<and> (currentScope vm = Some sc \<and> index (Instructions sc) (ip vm) = Some w
        \<and> decode N w = Some OpReturnValue
      \<longrightarrow> (if framesIndex vm = 0
           then step H N vm = Return (Some FrameUnderflow) (vm\<lparr>ip := ip vm + 1\<rparr>)
              \<and> loop H N vm = Some (Inr (Some FrameUnderflow, vm\<lparr>ip := ip vm + 1\<rparr>))
           else \<exists>vm'. step H N vm = Next vm' \<and> framesIndex vm' = framesIndex vm - 1))
   \<and> depthReached (runScope H exampleNumbering (selfCallVM exampleNumbering))
       = Some (Inr (Some FrameOverflow, 1023))"
proof (intro conjI impI)
  show "MaxFrameDepth = 1024" by (simp add: MaxFrameDepth_def)
next
  assume h: "currentScope vm = Some sc \<and> index (Instructions sc) (ip vm) = Some w
        \<and> decode N w = Some OpCall \<and> index (Instructions sc) (ip vm + 1) = Some a
        \<and> drop (unat (ucast a :: 8 word)) (stack vm) = CompiledFunction n ps ds ins fsc fv # rest"
  then have s: "step H N vm =
     (if framesIndex vm + 1 \<ge> MaxFrameDepth
      then Return (Some FrameOverflow) (vm\<lparr>ip := ip vm + 2, stack := rest\<rparr>)
      else if IsNamed fsc \<and> unat (ucast a :: 8 word) \<ge> MaxArgs then Panicked IndexOutOfRange
      else Next ((InitWithLocals (framesIndex vm + 1) (CompiledFunction n ps ds ins fsc fv) (ip vm + 2)
                   (if IsNamed fsc then rev (fst (popN (unat (ucast a :: 8 word)) (vm\<lparr>ip := ip vm + 2\<rparr>))) @ [CompiledFunction n ps ds ins fsc fv]
                    else rev (fst (popN (unat (ucast a :: 8 word)) (vm\<lparr>ip := ip vm + 2\<rparr>))))
                   (vm\<lparr>ip := ip vm + 2, stack := rest, framesIndex := framesIndex vm + 1\<rparr>))
                 \<lparr>currentFrame := framesIndex vm + 1, ip := 0, currentScope := Some fsc\<rparr>))"
    using step_Call [of vm sc w N a n ps ds ins fsc fv rest H] by blast
  from h have l: "loop H N vm =
     (case step H N vm of
        Next vm1 \<Rightarrow> loop H N vm1
      | Return e vm1 \<Rightarrow> Some (Inr (e, vm1))
      | Panicked p \<Rightarrow> Some (Inl p))"
    using loop_unfold [of vm sc w H N] by blast
  show "if framesIndex vm + 1 \<ge> MaxFrameDepth
           then step H N vm = Return (Some FrameOverflow) (vm\<lparr>ip := ip vm + 2, stack := rest\<rparr>)
              \<and> loop H N vm = Some (Inr (Some FrameOverflow, vm\<lparr>ip := ip vm + 2, stack := rest\<rparr>))
           else step H N vm = Panicked IndexOutOfRange
              \<or> (\<exists>vm'. step H N vm = Next vm' \<and> framesIndex vm' = framesIndex vm + 1)"
  proof (cases "framesIndex vm + 1 \<ge> MaxFrameDepth")
    case True
    then show ?thesis using s l by simp
  next
    case False
    then show ?thesis using s
      by (simp add: InitWithLocals_def allocate_def setFrame_def Let_def split_beta)
  qed
next
  assume h: "currentScope vm = Some sc \<and> index (Instructions sc) (ip vm) = Some w
        \<and> decode N w = Some OpReturnValue"
  then have s: "step H N vm =
     (if framesIndex vm = 0 then Return (Some FrameUnderflow) (vm\<lparr>ip := ip vm + 1\<rparr>)
      else Next (vm\<lparr>ip := returnAddr (frameAt vm (framesIndex vm)),
                    framesIndex := framesIndex vm - 1,
                    currentFrame := framesIndex vm - 1,
                    currentScope := scope (frameAt vm (framesIndex vm - 1))\<rparr>))"
    using step_ReturnValue [of vm sc w N H] by blast
  from h have l: "loop H N vm =
     (case step H N vm of
        Next vm1 \<Rightarrow> loop H N vm1
      | Return e vm1 \<Rightarrow> Some (Inr (e, vm1))
      | Panicked p \<Rightarrow> Some (Inl p))"
    using loop_unfold [of vm sc w H N] by blast
  show "if framesIndex vm = 0
           then step H N vm = Return (Some FrameUnderflow) (vm\<lparr>ip := ip vm + 1\<rparr>)
              \<and> loop H N vm = Some (Inr (Some FrameUnderflow, vm\<lparr>ip := ip vm + 1\<rparr>))
           else \<exists>vm'. step H N vm = Next vm' \<and> framesIndex vm' = framesIndex vm - 1"
    using s l by simp
next
  show "depthReached (runScope H exampleNumbering (selfCallVM exampleNumbering))
       = Some (Inr (Some FrameOverflow, 1023))"
    using selfCall_overflows [of H] by (simp add: depthReached_def atDepth_def)
qed

theorem frame_limits_witness:
  "loop exampleHost exampleNumbering overflowVM
     = Some (Inr (Some FrameOverflow, overflowVM\<lparr>ip := 2, stack := []\<rparr>))
   \<and> loop exampleHost exampleNumbering underflowVM
     = Some (Inr (Some FrameUnderflow, underflowVM\<lparr>ip := 1\<rparr>))"
proof -
  have d1: "decode exampleNumbering (opNum exampleNumbering OpCall) = Some OpCall"
    by (simp add: decode_def switchCases_def exampleNumbering_def)
  have d2: "decode exampleNumbering (opNum exampleNumbering OpReturnValue) = Some OpReturnValue"
    by (simp add: decode_def switchCases_def exampleNumbering_def)
  have a: "loop exampleHost exampleNumbering overflowVM
     = Some (Inr (Some FrameOverflow, overflowVM\<lparr>ip := 2, stack := []\<rparr>))"
    using frame_limits [of overflowVM
        "Scope ''main'' False NewTable [opNum exampleNumbering OpCall, 0] [] [] [] []"
        "opNum exampleNumbering OpCall" exampleNumbering 0
        "''f''" "[]" "[]" "[]" "Scope ''f'' True NewTable [] [] [] [] []" "[]" "[]" exampleHost] d1
    by (simp add: overflowVM_def index_def MaxFrameDepth_def)
  have b: "loop exampleHost exampleNumbering underflowVM
     = Some (Inr (Some FrameUnderflow, underflowVM\<lparr>ip := 1\<rparr>))"
    using frame_limits [of underflowVM
        "Scope ''main'' False NewTable [opNum exampleNumbering OpReturnValue, 1] [] [] [] []"
        "opNum exampleNumbering OpReturnValue" exampleNumbering 0
        "''f''" "[]" "[]" "[]" "Scope ''f'' True NewTable [] [] [] [] []" "[]" "[]" exampleHost] d2
    by (simp add: underflowVM_def index_def)
  from a b show ?thesis by simp
qed

section \<open>Assignment to a builtin\<close>

lemma emit0_ok:
  "length operands = OperandCount opc \<Longrightarrow>
   emit0 N opc operands c =
     Inr (c\<lparr>current := setInstructions (Instructions (current c) @ opNum N opc # operands) (current c)\<rparr>)"
  by (simp add: emit0_def emit_def MakeInstruction_def CurrentScope_def Let_def)

lemma Instructions_setInstructions [simp]: "Instructions (setInstructions ins s) = ins"
  by (simp add: setInstructions_def)

lemma assignOperator_ok:
  "\<exists>c2. assignOperator N operator c = Inr c2"
  by (simp add: assignOperator_def emit0_ok)

lemma decode_None: "w \<notin> opNum N ` set switchCases \<Longrightarrow> decode N w = None"
  by (auto simp add: decode_def find_None_iff)

lemma assign_simple_builtin:
  "lookup name c = Some (r, c0) \<and> resScope r = ScopeBuiltin \<and> compile N v c0 = Inr c1
      \<longrightarrow> compile N (AstAssign name ''='' v) c
            = Inr (c1\<lparr>current := setInstructions
                       (Instructions (current c1) @ [opNum N OpLoadBuiltin, Index (resSymbol r)])
                       (current c1)\<rparr>)"
  by (simp add: assignStore_def emit0_ok)

lemma assign_compound_builtin:
  "lookup name c = Some (r, c0) \<and> resScope r = ScopeBuiltin \<and> operator \<noteq> ''=''
       \<and> compile N v (c0\<lparr>current := setInstructions
                       (Instructions (current c0) @ [opNum N OpLoadBuiltin, Index (resSymbol r)])
                       (current c0)\<rparr>) = Inr c1
      \<longrightarrow> (\<exists>c2. assignOperator N operator c1 = Inr c2
             \<and> compile N (AstAssign name operator v) c
                = Inr (c2\<lparr>current := setInstructions
                         (Instructions (current c2) @ [opNum N OpLoadBuiltin, Index (resSymbol r)])
                         (current c2)\<rparr>))"
proof
  assume h: "lookup name c = Some (r, c0) \<and> resScope r = ScopeBuiltin \<and> operator \<noteq> ''=''
       \<and> compile N v (c0\<lparr>current := setInstructions
                       (Instructions (current c0) @ [opNum N OpLoadBuiltin, Index (resSymbol r)])
                       (current c0)\<rparr>) = Inr c1"
  obtain c2 where c2: "assignOperator N operator c1 = Inr c2"
    using assignOperator_ok by blast
  with h have "compile N (AstAssign name operator v) c
                = Inr (c2\<lparr>current := setInstructions
                         (Instructions (current c2) @ [opNum N OpLoadBuiltin, Index (resSymbol r)])
                         (current c2)\<rparr>)"
    by (simp add: assignStore_def emitLoad_def emit0_ok)
  with c2 show "\<exists>c2. assignOperator N operator c1 = Inr c2
             \<and> compile N (AstAssign name operator v) c
                = Inr (c2\<lparr>current := setInstructions
                         (Instructions (current c2) @ [opNum N OpLoadBuiltin, Index (resSymbol r)])
                         (current c2)\<rparr>)"
    by blast
qed

section \<open>Steps of the dispatch loop\<close>

lemma codeAt_index:
  assumes "codeAt vm p ws" "i < length ws"
  shows "\<exists>sc. currentScope vm = Some sc \<and> index (Instructions sc) (p + int i) = Some (ws ! i)"
proof -
  from assms(1) obtain sc where sc: "currentScope vm = Some sc" and p: "0 \<le> p"
    and t: "take (length ws) (drop (nat p) (Instructions sc)) = ws"
    by (auto simp add: codeAt_def split: option.splits)
  have l: "length ws \<le> length (Instructions sc) - nat p"
    using arg_cong [OF t, of length] by simp
  have "ws ! i = take (length ws) (drop (nat p) (Instructions sc)) ! i" using t by simp
  also have "\<dots> = Instructions sc ! (nat p + i)" using assms(2) l by simp
  finally have "ws ! i = Instructions sc ! (nat p + i)" .
  moreover have "nat (p + int i) = nat p + i" using p by simp
  moreover have "p + int i < int (length (Instructions sc))" using l assms(2) p by linarith
  ultimately show ?thesis using sc p by (simp add: index_def)
qed

lemma codeAt_append:
  assumes "codeAt vm p (xs @ ys)"
  shows "codeAt vm p xs" "codeAt vm (p + int (length xs)) ys"
proof -
  from assms obtain sc where sc: "currentScope vm = Some sc" and p: "0 \<le> p"
    and t: "take (length xs + length ys) (drop (nat p) (Instructions sc)) = xs @ ys"
    by (auto simp add: codeAt_def split: option.splits)
  have "take (length xs) (take (length xs + length ys) (drop (nat p) (Instructions sc)))
      = take (length xs) (xs @ ys)" using t by simp
  then have 1: "take (length xs) (drop (nat p) (Instructions sc)) = xs" by (simp add: min_def)
  have "drop (length xs) (take (length xs + length ys) (drop (nat p) (Instructions sc)))
      = drop (length xs) (xs @ ys)" using t by simp
  then have 2: "take (length ys) (drop (nat p + length xs) (Instructions sc)) = ys"
    by (simp add: drop_take add.commute)
  have n: "nat (p + int (length xs)) = nat p + length xs" using p by simp
  show "codeAt vm p xs" using sc p 1 by (simp add: codeAt_def)
  show "codeAt vm (p + int (length xs)) ys" using sc p 2 n by (simp add: codeAt_def)
qed

lemma step_exec:
  assumes "currentScope vm = Some sc" "index (Instructions sc) (ip vm) = Some w"
    "decode N w = Some opc"
  shows "step H N vm = exec H N sc opc (vm\<lparr>ip := ip vm + 1\<rparr>)"
  using assms by (simp add: step_def Let_def)

lemma fetch2_at:
  assumes "currentScope vm = Some sc" "index (Instructions sc) (ip vm) = Some lo"
    "index (Instructions sc) (ip vm + 1) = Some hi"
  shows "fetch2 vm = Inr (lo OR push_bit 8 hi, vm\<lparr>ip := ip vm + 2\<rparr>)"
  using assms by (simp add: fetch2_def instructions_def)

lemma fetch_at:
  assumes "currentScope vm = Some sc" "index (Instructions sc) (ip vm) = Some b"
  shows "fetch vm = Inr (ucast b, vm\<lparr>ip := ip vm + 1\<rparr>)"
  using assms by (simp add: fetch_def instructions_def)

lemma frameAt_ip [simp]: "frameAt (vm\<lparr>ip := p\<rparr>) k = frameAt vm k"
  by (simp add: frameAt_def)

lemma load_ip [simp]: "load a (vm\<lparr>ip := p\<rparr>) = load a vm"
  by (simp add: load_def)

lemma index_unat:
  assumes "unat w < length xs"
  shows "index xs (uint w) = Some (xs ! unat w)"
proof -
  have "uint w < int (length xs)" using assms by (metis of_nat_less_iff uint_nat)
  then show ?thesis by (simp add: index_def)
qed

lemma step_LoadFast:
  assumes c: "codeAt vm (ip vm) [opNum N OpLoadFast, lo, hi]"
    and d: "decode N (opNum N OpLoadFast) = Some OpLoadFast"
    and i: "unat (lo OR push_bit 8 hi) < length (locals (frameAt vm (currentFrame vm)))"
  shows "step H N vm =
     Next (vm\<lparr>ip := ip vm + 3,
              stack := load (locals (frameAt vm (currentFrame vm))
                               ! unat (lo OR push_bit 8 hi)) vm # stack vm\<rparr>)"
proof -
  from codeAt_index [OF c, of 0] codeAt_index [OF c, of 1] codeAt_index [OF c, of 2]
  obtain sc where sc: "currentScope vm = Some sc"
    and i0: "index (Instructions sc) (ip vm) = Some (opNum N OpLoadFast)"
    and i1: "index (Instructions sc) (ip vm + 1) = Some lo"
    and i2: "index (Instructions sc) (ip vm + 2) = Some hi"
    by auto
  have f: "fetch2 (vm\<lparr>ip := ip vm + 1\<rparr>)
      = Inr (lo OR push_bit 8 hi, vm\<lparr>ip := ip vm + 3\<rparr>)"
    using fetch2_at [of "vm\<lparr>ip := ip vm + 1\<rparr>" sc lo hi] sc i1 i2
    by (simp add: add.commute)
  show ?thesis
    using step_exec [OF sc i0 d, of H] f index_unat [OF i]
    by (simp add: Push_def)
qed

section \<open>Conditionals\<close>

lemma step_PopJumpForwardIfFalse:
  assumes c: "codeAt vm (ip vm) [opNum N OpPopJumpForwardIfFalse, lo, hi]"
    and d: "decode N (opNum N OpPopJumpForwardIfFalse) = Some OpPopJumpForwardIfFalse"
    and s: "stack vm = v # rest" "v \<noteq> GoNil"
  shows "step H N vm =
     Next (vm\<lparr>ip := (if IsTruthy H v then ip vm + 3 else ip vm + uint (lo OR push_bit 8 hi)),
              stack := rest\<rparr>)"
proof -
  from codeAt_index [OF c, of 0] codeAt_index [OF c, of 1] codeAt_index [OF c, of 2]
  obtain sc where sc: "currentScope vm = Some sc"
    and i0: "index (Instructions sc) (ip vm) = Some (opNum N OpPopJumpForwardIfFalse)"
    and i1: "index (Instructions sc) (ip vm + 1) = Some lo"
    and i2: "index (Instructions sc) (ip vm + 2) = Some hi"
    by auto
  have f: "fetch2 (vm\<lparr>ip := ip vm + 1, stack := rest\<rparr>)
      = Inr (lo OR push_bit 8 hi, vm\<lparr>ip := ip vm + 3, stack := rest\<rparr>)"
    using fetch2_at [of "vm\<lparr>ip := ip vm + 1, stack := rest\<rparr>" sc lo hi] sc i1 i2
    by (simp add: add.commute)
  show ?thesis
    using step_exec [OF sc i0 d, of H] s f by (simp add: Pop_def jump_def)
qed

lemma step_JumpForward:
  assumes c: "codeAt vm (ip vm) [opNum N OpJumpForward, lo, hi]"
    and d: "decode N (opNum N OpJumpForward) = Some OpJumpForward"
  shows "step H N vm = Next (vm\<lparr>ip := ip vm + uint (lo OR push_bit 8 hi)\<rparr>)"
proof -
  from codeAt_index [OF c, of 0] codeAt_index [OF c, of 1] codeAt_index [OF c, of 2]
  obtain sc where sc: "currentScope vm = Some sc"
    and i0: "index (Instructions sc) (ip vm) = Some (opNum N OpJumpForward)"
    and i1: "index (Instructions sc) (ip vm + 1) = Some lo"
    and i2: "index (Instructions sc) (ip vm + 2) = Some hi"
    by auto
  have f: "fetch2 (vm\<lparr>ip := ip vm + 1\<rparr>)
      = Inr (lo OR push_bit 8 hi, vm\<lparr>ip := ip vm + 3\<rparr>)"
    using fetch2_at [of "vm\<lparr>ip := ip vm + 1\<rparr>" sc lo hi] sc i1 i2
    by (simp add: add.commute)
  show ?thesis
    using step_exec [OF sc i0 d, of H] f by (simp add: Let_def)
qed

lemma if_runs:
  "observe (runScope exampleHost exampleNumbering (ifElseVM exampleNumbering False))
     = Some (Inr (None, [Integer 2]))
   \<and> observe (runScope exampleHost exampleNumbering (ifElseVM exampleNumbering True))
     = Some (Inr (None, [Integer 1]))
   \<and> observe (runScope exampleHost exampleNumbering (ifVM exampleNumbering False))
     = Some (Inr (None, []))
   \<and> observe (runScope exampleHost exampleNumbering (ifVM exampleNumbering True))
     = Some (Inr (None, [Integer 1]))"
  by (simp add: ifElseVM_def ifVM_def NewTable_def exampleNumbering_def vm_defs loop.simps)

text \<open>
  Claim C6. Let the VM stand at the \<open>PopJumpForwardIfFalse\<close> of an \<open>if\<close> statement, in
  the layout it reads (the jump in three code words, its operand the distance from the
  position of its opcode to its target, as \<open>compileIf\<close> measures it with \<open>calculateDelta\<close>),
  the value of the condition on top of the stack. With an alternative, the code is the
  jump, the consequence, a \<open>JumpForward\<close> and the alternative: a falsy condition continues
  at the first instruction of the alternative, a truthy one at the first instruction of
  the consequence, and the \<open>JumpForward\<close> that ends the consequence continues after the
  alternative. Without an alternative a falsy condition continues after the consequence.
  So \<open>if false { 1 } else { 2 }\<close> leaves 2, \<open>if true { 1 } else { 2 }\<close> leaves 1,
  \<open>if false { 1 }\<close> leaves nothing and \<open>if true { 1 }\<close> leaves 1.
\<close>

theorem if_jumps_land:
  "(decode N (opNum N OpPopJumpForwardIfFalse) = Some OpPopJumpForwardIfFalse
      \<and> codeAt vm (ip vm)
            ([opNum N OpPopJumpForwardIfFalse, lo, hi] @ consequence
              @ [opNum N OpJumpForward, lo', hi'] @ alternative)
      \<and> uint (lo OR push_bit 8 hi) = 3 + int (length consequence) + 3
      \<and> stack vm = v # rest \<and> v \<noteq> GoNil
    \<longrightarrow> step H N vm =
          Next (vm\<lparr>ip := (if IsTruthy H v then ip vm + 3
                           else ip vm + 3 + int (length consequence) + 3),
                   stack := rest\<rparr>))
   \<and> (decode N (opNum N OpJumpForward) = Some OpJumpForward
      \<and> codeAt vm' (ip vm') ([opNum N OpJumpForward, lo', hi'] @ alternative)
      \<and> uint (lo' OR push_bit 8 hi') = 3 + int (length alternative)
    \<longrightarrow> step H N vm' = Next (vm'\<lparr>ip := ip vm' + 3 + int (length alternative)\<rparr>))
   \<and> (decode N (opNum N OpPopJumpForwardIfFalse) = Some OpPopJumpForwardIfFalse
      \<and> codeAt vm (ip vm) ([opNum N OpPopJumpForwardIfFalse, lo, hi] @ consequence)
      \<and> uint (lo OR push_bit 8 hi) = 3 + int (length consequence)
      \<and> stack vm = v # rest \<and> v \<noteq> GoNil
    \<longrightarrow> step H N vm =
          Next (vm\<lparr>ip := (if IsTruthy H v then ip vm + 3
                           else ip vm + 3 + int (length consequence)),
                   stack := rest\<rparr>))
   \<and> observe (runScope exampleHost exampleNumbering (ifElseVM exampleNumbering False))
     = Some (Inr (None, [Integer 2]))
   \<and> observe (runScope exampleHost exampleNumbering (ifElseVM exampleNumbering True))
     = Some (Inr (None, [Integer 1]))
   \<and> observe (runScope exampleHost exampleNumbering (ifVM exampleNumbering False))
     = Some (Inr (None, []))
   \<and> observe (runScope exampleHost exampleNumbering (ifVM exampleNumbering True))
     = Some (Inr (None, [Integer 1]))"
proof -
  have a: "decode N (opNum N OpPopJumpForwardIfFalse) = Some OpPopJumpForwardIfFalse
      \<and> codeAt vm (ip vm)
            ([opNum N OpPopJumpForwardIfFalse, lo, hi] @ consequence
              @ [opNum N OpJumpForward, lo', hi'] @ alternative)
      \<and> uint (lo OR push_bit 8 hi) = 3 + int (length consequence) + 3
      \<and> stack vm = v # rest \<and> v \<noteq> GoNil
    \<longrightarrow> step H N vm =
          Next (vm\<lparr>ip := (if IsTruthy H v then ip vm + 3
                           else ip vm + 3 + int (length consequence) + 3),
                   stack := rest\<rparr>)"
    using step_PopJumpForwardIfFalse [of vm N lo hi v rest H]
      codeAt_append(1) [of vm "ip vm" "[opNum N OpPopJumpForwardIfFalse, lo, hi]"
        "consequence @ [opNum N OpJumpForward, lo', hi'] @ alternative"]
    by auto
  have b: "decode N (opNum N OpJumpForward) = Some OpJumpForward
      \<and> codeAt vm' (ip vm') ([opNum N OpJumpForward, lo', hi'] @ alternative)
      \<and> uint (lo' OR push_bit 8 hi') = 3 + int (length alternative)
    \<longrightarrow> step H N vm' = Next (vm'\<lparr>ip := ip vm' + 3 + int (length alternative)\<rparr>)"
    using step_JumpForward [of vm' N lo' hi' H]
      codeAt_append(1) [of vm' "ip vm'" "[opNum N OpJumpForward, lo', hi']" alternative]
    by auto
  have c: "decode N (opNum N OpPopJumpForwardIfFalse) = Some OpPopJumpForwardIfFalse
      \<and> codeAt vm (ip vm) ([opNum N OpPopJumpForwardIfFalse, lo, hi] @ consequence)
      \<and> uint (lo OR push_bit 8 hi) = 3 + int (length consequence)
      \<and> stack vm = v # rest \<and> v \<noteq> GoNil
    \<longrightarrow> step H N vm =
          Next (vm\<lparr>ip := (if IsTruthy H v then ip vm + 3
                           else ip vm + 3 + int (length consequence)),
                   stack := rest\<rparr>)"
    using step_PopJumpForwardIfFalse [of vm N lo hi v rest H]
      codeAt_append(1) [of vm "ip vm" "[opNum N OpPopJumpForwardIfFalse, lo, hi]" consequence]
    by auto
  from a b c if_runs show ?thesis by blast
qed

theorem if_jumps_land_witness:
  "step exampleHost exampleNumbering (vmAt (ifElseVM exampleNumbering False) 1 [Bool False])
     = Next (vmAt (ifElseVM exampleNumbering False) 10 [])
   \<and> step exampleHost exampleNumbering (vmAt (ifElseVM exampleNumbering True) 1 [Bool True])
     = Next (vmAt (ifElseVM exampleNumbering True) 4 [])
   \<and> step exampleHost exampleNumbering (vmAt (ifElseVM exampleNumbering True) 7 [Integer 1])
     = Next (vmAt (ifElseVM exampleNumbering True) 13 [Integer 1])
   \<and> step exampleHost exampleNumbering (vmAt (ifVM exampleNumbering False) 1 [Bool False])
     = Next (vmAt (ifVM exampleNumbering False) 7 [])"
proof -
  have d1: "decode exampleNumbering (opNum exampleNumbering OpPopJumpForwardIfFalse)
      = Some OpPopJumpForwardIfFalse"
    by (simp add: decode_def switchCases_def exampleNumbering_def)
  have d2: "decode exampleNumbering (opNum exampleNumbering OpJumpForward) = Some OpJumpForward"
    by (simp add: decode_def switchCases_def exampleNumbering_def)
  have a: "step exampleHost exampleNumbering (vmAt (ifElseVM exampleNumbering False) 1 [Bool False])
     = Next (vmAt (ifElseVM exampleNumbering False) 10 [])"
    using d1 if_jumps_land [where N = exampleNumbering and H = exampleHost
        and vm = "vmAt (ifElseVM exampleNumbering False) 1 [Bool False]"
        and lo = 9 and hi = 0 and consequence = "[opNum exampleNumbering OpLoadConst, 0, 0]"
        and lo' = 6 and hi' = 0 and alternative = "[opNum exampleNumbering OpLoadConst, 1, 0]"
        and v = "Bool False" and rest = "[]"]
    by (simp add: vmAt_def ifElseVM_def codeAt_def exampleHost_def)
  have b: "step exampleHost exampleNumbering (vmAt (ifElseVM exampleNumbering True) 1 [Bool True])
     = Next (vmAt (ifElseVM exampleNumbering True) 4 [])"
    using d1 if_jumps_land [where N = exampleNumbering and H = exampleHost
        and vm = "vmAt (ifElseVM exampleNumbering True) 1 [Bool True]"
        and lo = 9 and hi = 0 and consequence = "[opNum exampleNumbering OpLoadConst, 0, 0]"
        and lo' = 6 and hi' = 0 and alternative = "[opNum exampleNumbering OpLoadConst, 1, 0]"
        and v = "Bool True" and rest = "[]"]
    by (simp add: vmAt_def ifElseVM_def codeAt_def exampleHost_def)
  have c: "step exampleHost exampleNumbering (vmAt (ifElseVM exampleNumbering True) 7 [Integer 1])
     = Next (vmAt (ifElseVM exampleNumbering True) 13 [Integer 1])"
    using d2 if_jumps_land [where N = exampleNumbering and H = exampleHost
        and vm' = "vmAt (ifElseVM exampleNumbering True) 7 [Integer 1]"
        and lo' = 6 and hi' = 0 and alternative = "[opNum exampleNumbering OpLoadConst, 1, 0]"]
    by (simp add: vmAt_def ifElseVM_def codeAt_def)
  have d: "step exampleHost exampleNumbering (vmAt (ifVM exampleNumbering False) 1 [Bool False])
     = Next (vmAt (ifVM exampleNumbering False) 7 [])"
    using d1 if_jumps_land [where N = exampleNumbering and H = exampleHost
        and vm = "vmAt (ifVM exampleNumbering False) 1 [Bool False]"
        and lo = 6 and hi = 0 and consequence = "[opNum exampleNumbering OpLoadConst, 0, 0]"
        and v = "Bool False" and rest = "[]"]
    by (simp add: vmAt_def ifVM_def codeAt_def exampleHost_def)
  from a b c d show ?thesis by simp
qed

section \<open>Recursion\<close>

text \<open>
  In the layout that the VM reads, the program of scenario 6 leaves 120 on the stack: the
  callee that \<open>Call\<close> appends to the arguments is the local that the body loads as \<open>fact\<close>.
\<close>

lemma fact_in_vm_layout:
  "observe (runScope exampleHost exampleNumbering (factVM exampleNumbering))
     = Some (Inr (None, [Integer 120]))"
  by code_simp

lemma popN_fst: "n \<le> length (stack vm) \<Longrightarrow> fst (popN n vm) = take n (stack vm)"
proof (induction n arbitrary: vm)
  case 0
  then show ?case by simp
next
  case (Suc n)
  then obtain x xs where s: "stack vm = x # xs" by (cases "stack vm") auto
  with Suc.prems have "n \<le> length (stack (vm\<lparr>stack := xs\<rparr>))" by simp
  from Suc.IH [OF this] s show ?case by (simp add: Pop_def split_beta)
qed

lemma frameAt_setFrame: "frameAt (setFrame k f vm) k = f"
  by (simp add: frameAt_def setFrame_def)

lemma heap_setFrame: "heap (setFrame k f vm) = heap vm"
  by (simp add: setFrame_def)

lemma load_setFrame: "load a (setFrame k f vm) = load a vm"
  by (simp add: load_def heap_setFrame)

lemma load_allocate:
  "i < length vs \<Longrightarrow> load (fst (allocate vs vm) ! i) (snd (allocate vs vm)) = vs ! i"
  by (simp add: allocate_def load_def nth_append)

lemma length_allocate: "length (fst (allocate vs vm)) = length vs"
  by (simp add: allocate_def)

lemma InitWithLocals_slot:
  assumes "i < length args" "i < unat (Size (Symbols (fnScope f)))"
  shows "i < length (locals (frameAt (InitWithLocals k f ret args vm) k))
     \<and> load (locals (frameAt (InitWithLocals k f ret args vm) k) ! i)
           (InitWithLocals k f ret args vm) = args ! i"
proof -
  let ?n = "unat (Size (Symbols (fnScope f)))"
  let ?vs = "take ?n (args @ replicate (?n - length args) GoNil)"
  have l: "i < length ?vs" using assms by simp
  have v: "?vs ! i = args ! i" using assms by (simp add: nth_append)
  show ?thesis
    using l v load_allocate [of i ?vs vm] length_allocate [of ?vs vm]
    by (simp add: InitWithLocals_def Let_def split_beta frameAt_setFrame load_setFrame)
qed

lemma step_Call_named:
  assumes c: "codeAt vm (ip vm) [opNum N OpCall, a]"
    and d: "decode N (opNum N OpCall) = Some OpCall"
    and s: "stack vm = rev args @ CompiledFunction n ps ds ins fsc fv # rest"
    and a: "length args = unat (ucast a :: 8 word)"
    and nm: "IsNamed fsc"
    and lim: "length args < MaxArgs" "framesIndex vm + 1 < MaxFrameDepth"
  shows "step H N vm =
     Next ((InitWithLocals (framesIndex vm + 1) (CompiledFunction n ps ds ins fsc fv) (ip vm + 2)
              (args @ [CompiledFunction n ps ds ins fsc fv])
              (vm\<lparr>ip := ip vm + 2, stack := rest, framesIndex := framesIndex vm + 1\<rparr>))
            \<lparr>currentFrame := framesIndex vm + 1, ip := 0, currentScope := Some fsc\<rparr>)"
proof -
  from codeAt_index [OF c, of 0] codeAt_index [OF c, of 1]
  obtain sc where sc: "currentScope vm = Some sc"
    and i0: "index (Instructions sc) (ip vm) = Some (opNum N OpCall)"
    and i1: "index (Instructions sc) (ip vm + 1) = Some a"
    by auto
  have dr: "drop (unat (ucast a :: 8 word)) (stack vm) = CompiledFunction n ps ds ins fsc fv # rest"
    using s a by simp
  have tk: "fst (popN (unat (ucast a :: 8 word)) (vm\<lparr>ip := ip vm + 2\<rparr>)) = rev args"
    using popN_fst [of "unat (ucast a :: 8 word)" "vm\<lparr>ip := ip vm + 2\<rparr>"] s a by simp
  show ?thesis
    using step_Call [OF sc i0 d i1 dr, of H] tk nm lim a by simp
qed

lemma step_Call_slots:
  assumes c: "codeAt vm (ip vm) [opNum N OpCall, a]"
    and d: "decode N (opNum N OpCall) = Some OpCall"
    and s: "stack vm = rev args @ CompiledFunction n ps ds ins fsc fv # rest"
    and a: "length args = unat (ucast a :: 8 word)"
    and nm: "IsNamed fsc"
    and lim: "length args < MaxArgs" "framesIndex vm + 1 < MaxFrameDepth"
    and sz: "length args < unat (Size (Symbols fsc))"
  shows "\<exists>vm'. step H N vm = Next vm' \<and> framesIndex vm' = framesIndex vm + 1
      \<and> currentFrame vm' = framesIndex vm + 1 \<and> currentScope vm' = Some fsc \<and> ip vm' = 0
      \<and> stack vm' = rest
      \<and> length args < length (locals (frameAt vm' (currentFrame vm')))
      \<and> load (locals (frameAt vm' (currentFrame vm')) ! length args) vm'
            = CompiledFunction n ps ds ins fsc fv
      \<and> (\<forall>i<length args. load (locals (frameAt vm' (currentFrame vm')) ! i) vm' = args ! i)"
proof -
  let ?f = "CompiledFunction n ps ds ins fsc fv"
  let ?k = "framesIndex vm + 1"
  let ?vm0 = "vm\<lparr>ip := ip vm + 2, stack := rest, framesIndex := ?k\<rparr>"
  let ?vi = "InitWithLocals ?k ?f (ip vm + 2) (args @ [?f]) ?vm0"
  let ?vm' = "?vi\<lparr>currentFrame := ?k, ip := 0, currentScope := Some fsc\<rparr>"
  have st: "step H N vm = Next ?vm'"
    using step_Call_named [OF c d s a nm lim, of H] .
  have fr: "frameAt ?vm' ?k = frameAt ?vi ?k" by (simp add: frameAt_def)
  have ld: "\<And>x. load x ?vm' = load x ?vi" by (simp add: load_def)
  have sl: "\<And>i. i < length (args @ [?f]) \<Longrightarrow> i < unat (Size (Symbols (fnScope ?f))) \<Longrightarrow>
      i < length (locals (frameAt ?vi ?k)) \<and> load (locals (frameAt ?vi ?k) ! i) ?vi = (args @ [?f]) ! i"
    using InitWithLocals_slot [of _ "args @ [?f]" ?f ?k "ip vm + 2" ?vm0] by blast
  have s1: "length args < length (locals (frameAt ?vi ?k))
      \<and> load (locals (frameAt ?vi ?k) ! length args) ?vi = ?f"
    using sl [of "length args"] sz by simp
  have s2: "\<forall>i<length args. load (locals (frameAt ?vi ?k) ! i) ?vi = args ! i"
  proof (intro allI impI)
    fix i assume i: "i < length args"
    then show "load (locals (frameAt ?vi ?k) ! i) ?vi = args ! i"
      using sl [of i] sz by (simp add: nth_append)
  qed
  have fi: "framesIndex ?vi = ?k" "stack ?vi = rest"
    by (simp_all add: InitWithLocals_def Let_def split_beta setFrame_def allocate_def)
  show ?thesis
    using st fr ld s1 s2 fi by (intro exI [of _ ?vm']) simp
qed

text \<open>
  \<open>compileFunc\<close> inserts the parameters and then the name of the function in the symbol
  table of the function: in the body the name is the local of index \<open>length params\<close>.
\<close>

lemma fold_insert:
  assumes "distinct names" "set names \<inter> fst ` set b = {}"
    "Symbols (current c) = Table [b] k fl bi"
  shows "Symbols (current (fold insertIgnoringError names c))
     = Table [fresh k names @ b] (k + length names) fl bi
   \<and> parents (fold insertIgnoringError names c) = parents c
   \<and> Instructions (current (fold insertIgnoringError names c)) = Instructions (current c)"
  using assms
proof (induction names arbitrary: c b k)
  case Nil
  then show ?case by (simp add: fresh_def)
next
  case (Cons nm names)
  have nf: "map_of b nm = None"
    using Cons.prems(2) by (auto simp add: map_of_eq_None_iff)
  let ?c1 = "insertIgnoringError nm c"
  have s1: "Symbols (current ?c1) = Table [(nm, Symbol nm (of_nat k) None) # b] (k + 1) fl bi"
    and p1: "parents ?c1 = parents c"
    and i1: "Instructions (current ?c1) = Instructions (current c)"
    using Cons.prems(3) nf
    by (simp_all add: insertIgnoringError_def insertVariable_def InsertVariable_def Let_def
        setSymbols_def)
  have d: "distinct names" using Cons.prems(1) by simp
  have e: "set names \<inter> fst ` set ((nm, Symbol nm (of_nat k) None) # b) = {}"
    using Cons.prems(1,2) by auto
  from Cons.IH [OF d e s1] p1 i1
  show ?case
    by (simp add: fresh_def upt_rec [of k] zip_Cons1 del: upt_Suc)
qed

lemma fst_fresh: "fst ` set (fresh k names) = set names"
proof -
  have c: "(fst \<circ> (\<lambda>(i, nm). (nm, Symbol nm (of_nat i) None :: object Symbol))) = snd"
    by (auto simp add: fun_eq_iff)
  have z: "map snd (zip [k..<k + length names] names) = names"
    by (rule map_snd_zip) simp
  have "map fst (fresh k names) = rev (map snd (zip [k..<k + length names] names))"
    unfolding fresh_def rev_map [symmetric] map_map c ..
  then have "set (map fst (fresh k names)) = set names" using z by simp
  then show ?thesis by simp
qed

lemma setSymbols_same: "Symbols s = t \<Longrightarrow> setSymbols t s = s"
  by (cases s) (simp add: setSymbols_def)

lemma own_name_slot:
  assumes "distinct params" "name \<notin> set params"
  shows "compile N (AstIdent name) (enterFunc (Some name) params c)
     = emit0 N OpLoadFast [of_nat (length params)] (enterFunc (Some name) params c)"
proof -
  let ?funcScope = "Scope name True (NewChild (Symbols (current c))) [] [] [] [] []"
  let ?c1 = "c\<lparr>current := ?funcScope, parents := current c # parents c\<rparr>"
  let ?c2 = "fold insertIgnoringError params ?c1"
  have s1: "Symbols (current ?c1) = Table [[]] 0 [] []" by (simp add: NewChild_def)
  have f: "Symbols (current ?c2) = Table [fresh 0 params @ []] (0 + length params) [] []"
    and p: "parents ?c2 = current c # parents c"
    using fold_insert [OF assms(1) _ s1] by simp_all
  have nf: "map_of (fresh 0 params) name = None"
    using assms(2) fst_fresh [of 0 params] by (simp add: map_of_eq_None_iff)
  have e: "enterFunc (Some name) params c = insertIgnoringError name ?c2"
    by (simp add: enterFunc_def Let_def)
  have s3: "Symbols (current (insertIgnoringError name ?c2))
      = Table [(name, Symbol name (of_nat (length params)) None) # fresh 0 params]
          (length params + 1) [] []"
    and p3: "parents (insertIgnoringError name ?c2) = current c # parents c"
    using f p nf
    by (simp_all add: insertIgnoringError_def insertVariable_def InsertVariable_def Let_def
        setSymbols_def)
  have l: "lookup name (insertIgnoringError name ?c2)
      = Some (Resolution (Symbol name (of_nat (length params)) None) ScopeLocal 0,
              insertIgnoringError name ?c2)"
    using s3 p3 setSymbols_same [OF s3]
    by (simp add: lookup_def Lookup_def)
  show ?thesis
    unfolding e using l by (simp add: emitLoad_def)
qed

text \<open>
  The claim C1 as stated fails. \<open>Call\<close> writes the callee after the arguments that were
  passed (\<open>tmpArgs[argc] = obj\<close>), not after the parameters that were declared, and nothing
  compares the two numbers: called with one argument, a named function of two
  parameters finds itself in slot 1, and slot 2, which the compiler reserved for its name,
  holds nil. And \<open>tmpArgs\<close> has \<open>MaxArgs\<close> entries: with 255 arguments the write of the callee
  is out of range.
\<close>

theorem callee_slot_counterexample:
  "localValues (step exampleHost exampleNumbering oneArgumentVM) = [Integer 7, twoParams, GoNil]
   \<and> length (fnParams twoParams) = 2
   \<and> step exampleHost exampleNumbering manyArgumentsVM = Panicked IndexOutOfRange"
proof -
  have a: "localValues (step exampleHost exampleNumbering oneArgumentVM)
      = [Integer 7, twoParams, GoNil]"
    by (simp add: localValues_def oneArgumentVM_def twoParams_def vm_defs NewTable_def
        exampleNumbering_def Let_def)
  have b: "length (fnParams twoParams) = 2" by (simp add: twoParams_def)
  have d: "decode exampleNumbering (opNum exampleNumbering OpCall) = Some OpCall"
    by (simp add: decode_def switchCases_def exampleNumbering_def)
  have dr: "drop (unat (ucast (255 :: code) :: 8 word)) (stack manyArgumentsVM)
      = CompiledFunction ''h'' manyParams (replicate 255 GoNil) []
         (Scope ''h'' True
            (Table [(''h'', Symbol ''h'' 255 None) # fresh 0 manyParams] 256 [] [])
            [] [] [] [] []) [] # []"
    by (simp add: manyArgumentsVM_def manyParamsFn_def)
  have c: "step exampleHost exampleNumbering manyArgumentsVM = Panicked IndexOutOfRange"
    using step_Call [where vm = manyArgumentsVM and w = "opNum exampleNumbering OpCall"
        and N = exampleNumbering and a = 255 and H = exampleHost, OF _ _ d _ dr]
    by (simp add: manyArgumentsVM_def index_def MaxFrameDepth_def MaxArgs_def)
  from a b c show ?thesis by simp
qed

text \<open>
  Claim C1, as amended. A \<open>Call\<close> with fewer than 255 arguments of a named compiled
  function, below the frame limit, enters a new frame whose locals hold the arguments
  and, in the slot after them (slot \<open>argc\<close>), the callee; that is slot \<open>n\<close> when the call
  passes as many arguments as the function declares parameters. \<open>LoadFast\<close> pushes the
  local of its operand, and the compiler resolves the name of the function, in its body,
  to the local \<open>n\<close>: so the name loads the function itself. The program of scenario 6, in
  the layout that the VM reads, leaves 120.
\<close>

theorem callee_slot:
  "(codeAt vm (ip vm) [opNum N OpCall, a] \<and> decode N (opNum N OpCall) = Some OpCall
      \<and> stack vm = rev args @ CompiledFunction n ps ds ins fsc fv # rest
      \<and> length args = unat (ucast a :: 8 word) \<and> IsNamed fsc
      \<and> length args < MaxArgs \<and> framesIndex vm + 1 < MaxFrameDepth
      \<and> length args < unat (Size (Symbols fsc))
    \<longrightarrow> (\<exists>vm'. step H N vm = Next vm' \<and> framesIndex vm' = framesIndex vm + 1
          \<and> currentFrame vm' = framesIndex vm + 1 \<and> currentScope vm' = Some fsc \<and> ip vm' = 0
          \<and> stack vm' = rest
          \<and> length args < length (locals (frameAt vm' (currentFrame vm')))
          \<and> load (locals (frameAt vm' (currentFrame vm')) ! length args) vm'
                = CompiledFunction n ps ds ins fsc fv
          \<and> (length ps = length args
               \<longrightarrow> load (locals (frameAt vm' (currentFrame vm')) ! length ps) vm'
                     = CompiledFunction n ps ds ins fsc fv)
          \<and> (\<forall>i<length args. load (locals (frameAt vm' (currentFrame vm')) ! i) vm' = args ! i)))
   \<and> (codeAt vm2 (ip vm2) [opNum N OpLoadFast, lo, hi]
      \<and> decode N (opNum N OpLoadFast) = Some OpLoadFast
      \<and> unat (lo OR push_bit 8 hi) < length (locals (frameAt vm2 (currentFrame vm2)))
    \<longrightarrow> step H N vm2 =
          Next (vm2\<lparr>ip := ip vm2 + 3,
                    stack := load (locals (frameAt vm2 (currentFrame vm2))
                                     ! unat (lo OR push_bit 8 hi)) vm2 # stack vm2\<rparr>))
   \<and> (distinct params \<and> name \<notin> set params
    \<longrightarrow> compile N (AstIdent name) (enterFunc (Some name) params c)
          = emit0 N OpLoadFast [of_nat (length params)] (enterFunc (Some name) params c))
   \<and> observe (runScope exampleHost exampleNumbering (factVM exampleNumbering))
       = Some (Inr (None, [Integer 120]))"
proof (intro conjI impI)
  assume h: "codeAt vm (ip vm) [opNum N OpCall, a] \<and> decode N (opNum N OpCall) = Some OpCall
      \<and> stack vm = rev args @ CompiledFunction n ps ds ins fsc fv # rest
      \<and> length args = unat (ucast a :: 8 word) \<and> IsNamed fsc
      \<and> length args < MaxArgs \<and> framesIndex vm + 1 < MaxFrameDepth
      \<and> length args < unat (Size (Symbols fsc))"
  then obtain vm' where v: "step H N vm = Next vm'" "framesIndex vm' = framesIndex vm + 1"
      "currentFrame vm' = framesIndex vm + 1" "currentScope vm' = Some fsc" "ip vm' = 0"
      "stack vm' = rest"
      "length args < length (locals (frameAt vm' (currentFrame vm')))"
      "load (locals (frameAt vm' (currentFrame vm')) ! length args) vm'
            = CompiledFunction n ps ds ins fsc fv"
      "\<forall>i<length args. load (locals (frameAt vm' (currentFrame vm')) ! i) vm' = args ! i"
    using step_Call_slots [of vm N a args n ps ds ins fsc fv rest H] by blast
  show "\<exists>vm'. step H N vm = Next vm' \<and> framesIndex vm' = framesIndex vm + 1
          \<and> currentFrame vm' = framesIndex vm + 1 \<and> currentScope vm' = Some fsc \<and> ip vm' = 0
          \<and> stack vm' = rest
          \<and> length args < length (locals (frameAt vm' (currentFrame vm')))
          \<and> load (locals (frameAt vm' (currentFrame vm')) ! length args) vm'
                = CompiledFunction n ps ds ins fsc fv
          \<and> (length ps = length args
               \<longrightarrow> load (locals (frameAt vm' (currentFrame vm')) ! length ps) vm'
                     = CompiledFunction n ps ds ins fsc fv)
          \<and> (\<forall>i<length args. load (locals (frameAt vm' (currentFrame vm')) ! i) vm' = args ! i)"
    using v by (intro exI [of _ vm']) simp
next
  assume "codeAt vm2 (ip vm2) [opNum N OpLoadFast, lo, hi]
      \<and> decode N (opNum N OpLoadFast) = Some OpLoadFast
      \<and> unat (lo OR push_bit 8 hi) < length (locals (frameAt vm2 (currentFrame vm2)))"
  then show "step H N vm2 =
          Next (vm2\<lparr>ip := ip vm2 + 3,
                    stack := load (locals (frameAt vm2 (currentFrame vm2))
                                     ! unat (lo OR push_bit 8 hi)) vm2 # stack vm2\<rparr>)"
    using step_LoadFast [of vm2 N lo hi H] by blast
next
  assume "distinct params \<and> name \<notin> set params"
  then show "compile N (AstIdent name) (enterFunc (Some name) params c)
          = emit0 N OpLoadFast [of_nat (length params)] (enterFunc (Some name) params c)"
    using own_name_slot [of params name N c] by blast
next
  show "observe (runScope exampleHost exampleNumbering (factVM exampleNumbering))
       = Some (Inr (None, [Integer 120]))"
    by (rule fact_in_vm_layout)
qed

theorem callee_slot_witness:
  "(\<exists>vm'. step exampleHost exampleNumbering factCallVM = Next vm'
       \<and> load (locals (frameAt vm' (currentFrame vm')) ! 1) vm' = factFnVM exampleNumbering
       \<and> load (locals (frameAt vm' (currentFrame vm')) ! 0) vm' = Integer 5)
   \<and> step exampleHost exampleNumbering loadFastVM
       = Next (loadFastVM\<lparr>ip := 3, stack := [Integer 9]\<rparr>)
   \<and> compile exampleNumbering (AstIdent ''fact'')
        (enterFunc (Some ''fact'') [''n''] (NewCompiler [] ''main'' None))
       = emit0 exampleNumbering OpLoadFast [1]
           (enterFunc (Some ''fact'') [''n''] (NewCompiler [] ''main'' None))"
proof -
  have d1: "decode exampleNumbering (opNum exampleNumbering OpCall) = Some OpCall"
    by (simp add: decode_def switchCases_def exampleNumbering_def)
  have d2: "decode exampleNumbering (opNum exampleNumbering OpLoadFast) = Some OpLoadFast"
    by (simp add: decode_def switchCases_def exampleNumbering_def)
  have a: "\<exists>vm'. step exampleHost exampleNumbering factCallVM = Next vm'
       \<and> load (locals (frameAt vm' (currentFrame vm')) ! 1) vm' = factFnVM exampleNumbering
       \<and> load (locals (frameAt vm' (currentFrame vm')) ! 0) vm' = Integer 5"
    using d1 callee_slot [where vm = factCallVM and N = exampleNumbering and H = exampleHost
        and a = 1 and args = "[Integer 5]" and rest = "[]"
        and n = "''fact''" and ps = "[''n'']" and ds = "[GoNil]" and ins = "[]"
        and fsc = "fnScope (factFnVM exampleNumbering)" and fv = "[]"]
    by (simp add: factCallVM_def factFnVM_def codeAt_def MaxArgs_def MaxFrameDepth_def Size_def)
       blast
  have b: "step exampleHost exampleNumbering loadFastVM
       = Next (loadFastVM\<lparr>ip := 3, stack := [Integer 9]\<rparr>)"
    using d2 callee_slot [where ?vm2.0 = loadFastVM and N = exampleNumbering and H = exampleHost
        and lo = 1 and hi = 0]
    by (simp add: loadFastVM_def codeAt_def frameAt_def load_def)
  have c: "compile exampleNumbering (AstIdent ''fact'')
        (enterFunc (Some ''fact'') [''n''] (NewCompiler [] ''main'' None))
       = emit0 exampleNumbering OpLoadFast [1]
           (enterFunc (Some ''fact'') [''n''] (NewCompiler [] ''main'' None))"
    using callee_slot [where params = "[''n'']" and name = "''fact''" and N = exampleNumbering
        and c = "NewCompiler [] ''main'' None"]
    by simp
  from a b c show ?thesis by blast
qed

section \<open>Closures\<close>

text \<open>
  In the layout that the VM reads, the program of scenario 3 leaves 1, 2 and 3 on the
  stack: the cell made in the frame of \<open>mk\<close> is the slot that every call of \<open>inc\<close> reads and
  writes.
\<close>

lemma counter_in_vm_layout:
  "observe (runScope exampleHost exampleNumbering (counterVM exampleNumbering))
     = Some (Inr (None, [Integer 3, Integer 2, Integer 1]))"
  by code_simp

lemma popCells_length_fst: "fst (popCells n vm) = Some cells \<Longrightarrow> length cells = n"
proof (induction n arbitrary: vm cells)
  case 0
  then show ?case by simp
next
  case (Suc n)
  then show ?case
    by (auto simp add: split_beta split: object.splits option.splits)
qed

lemma popCells_length: "popCells n vm = (Some cells, vm') \<Longrightarrow> length cells = n"
  using popCells_length_fst [of n vm cells] by simp

lemma LoadClosure_free_vars:
  assumes "fetch2 vm = Inr (constIndex, vm1)" "fetch2 vm1 = Inr (freeCount, vm2)"
  shows "(popCells (unat freeCount) vm2 = (None, vm3)
            \<longrightarrow> exec H N sc OpLoadClosure vm = Return (Some ExpectedCell) vm3)
       \<and> (popCells (unat freeCount) vm2 = (Some free, vm3)
            \<and> index (Constants sc) (uint constIndex) = Some (CompiledFunction n ps ds ins fsc fv)
            \<longrightarrow> exec H N sc OpLoadClosure vm = Next (Push (CompiledFunction n ps ds ins fsc free) vm3)
                \<and> length free = unat freeCount)"
  using assms popCells_length [of "unat freeCount" vm2 free vm3]
  by (simp add: NewClosure_def)

lemma step_MakeCell:
  assumes c: "codeAt vm (ip vm) [opNum N OpMakeCell, lo, hi, b]"
    and d: "decode N (opNum N OpMakeCell) = Some OpMakeCell"
    and fb: "unat (ucast b :: 8 word) \<le> framesIndex vm"
    and i: "unat (lo OR push_bit 8 hi)
              < length (locals (frameAt vm (framesIndex vm - unat (ucast b :: 8 word))))"
  shows "step H N vm =
     Next (vm\<lparr>ip := ip vm + 4,
              stack := Cell (locals (frameAt vm (framesIndex vm - unat (ucast b :: 8 word)))
                               ! unat (lo OR push_bit 8 hi)) # stack vm\<rparr>)"
proof -
  from codeAt_index [OF c, of 0] codeAt_index [OF c, of 1] codeAt_index [OF c, of 2]
    codeAt_index [OF c, of 3]
  obtain sc where sc: "currentScope vm = Some sc"
    and i0: "index (Instructions sc) (ip vm) = Some (opNum N OpMakeCell)"
    and i1: "index (Instructions sc) (ip vm + 1) = Some lo"
    and i2: "index (Instructions sc) (ip vm + 2) = Some hi"
    and i3: "index (Instructions sc) (ip vm + 3) = Some b"
    by auto
  have f: "fetch2 (vm\<lparr>ip := ip vm + 1\<rparr>)
      = Inr (lo OR push_bit 8 hi, vm\<lparr>ip := ip vm + 3\<rparr>)"
    using fetch2_at [of "vm\<lparr>ip := ip vm + 1\<rparr>" sc lo hi] sc i1 i2
    by (simp add: add.commute)
  have g: "fetch (vm\<lparr>ip := ip vm + 3\<rparr>) = Inr (ucast b, vm\<lparr>ip := ip vm + 4\<rparr>)"
    using fetch_at [of "vm\<lparr>ip := ip vm + 3\<rparr>" sc b] sc i3 by simp
  have u: "uint (ucast b :: 8 word) = int (unat (ucast b :: 8 word))" by (rule uint_nat)
  have n: "nat (int (framesIndex vm) - uint (ucast b :: 8 word))
      = framesIndex vm - unat (ucast b :: 8 word)" using u by arith
  have nn: "\<not> int (framesIndex vm) - uint (ucast b :: 8 word) < 0" using fb u by arith
  show ?thesis
    using step_exec [OF sc i0 d, of H] f g index_unat [OF i] nn n
    by (simp add: Let_def Push_def)
qed

lemma step_StoreFree:
  assumes c: "codeAt vm (ip vm) [opNum N OpStoreFree, lo, hi]"
    and d: "decode N (opNum N OpStoreFree) = Some OpStoreFree"
    and f: "fn (frameAt vm (currentFrame vm)) = Some f"
    and i: "unat (lo OR push_bit 8 hi) < length (FreeVars f)"
    and s: "stack vm = v # rest"
  shows "step H N vm =
     Next (vm\<lparr>ip := ip vm + 3, stack := rest,
              heap := (heap vm)[FreeVars f ! unat (lo OR push_bit 8 hi) := v]\<rparr>)"
proof -
  from codeAt_index [OF c, of 0] codeAt_index [OF c, of 1] codeAt_index [OF c, of 2]
  obtain sc where sc: "currentScope vm = Some sc"
    and i0: "index (Instructions sc) (ip vm) = Some (opNum N OpStoreFree)"
    and i1: "index (Instructions sc) (ip vm + 1) = Some lo"
    and i2: "index (Instructions sc) (ip vm + 2) = Some hi"
    by auto
  have g: "fetch2 (vm\<lparr>ip := ip vm + 1\<rparr>)
      = Inr (lo OR push_bit 8 hi, vm\<lparr>ip := ip vm + 3\<rparr>)"
    using fetch2_at [of "vm\<lparr>ip := ip vm + 1\<rparr>" sc lo hi] sc i1 i2
    by (simp add: add.commute)
  show ?thesis
    using step_exec [OF sc i0 d, of H] f g s index_unat [OF i]
    by (simp add: Pop_def store_def)
qed

lemma step_LoadFree:
  assumes c: "codeAt vm (ip vm) [opNum N OpLoadFree, lo, hi]"
    and d: "decode N (opNum N OpLoadFree) = Some OpLoadFree"
    and f: "fn (frameAt vm (currentFrame vm)) = Some f"
    and i: "unat (lo OR push_bit 8 hi) < length (FreeVars f)"
  shows "step H N vm =
     Next (vm\<lparr>ip := ip vm + 3,
              stack := load (FreeVars f ! unat (lo OR push_bit 8 hi)) vm # stack vm\<rparr>)"
proof -
  from codeAt_index [OF c, of 0] codeAt_index [OF c, of 1] codeAt_index [OF c, of 2]
  obtain sc where sc: "currentScope vm = Some sc"
    and i0: "index (Instructions sc) (ip vm) = Some (opNum N OpLoadFree)"
    and i1: "index (Instructions sc) (ip vm + 1) = Some lo"
    and i2: "index (Instructions sc) (ip vm + 2) = Some hi"
    by auto
  have g: "fetch2 (vm\<lparr>ip := ip vm + 1\<rparr>)
      = Inr (lo OR push_bit 8 hi, vm\<lparr>ip := ip vm + 3\<rparr>)"
    using fetch2_at [of "vm\<lparr>ip := ip vm + 1\<rparr>" sc lo hi] sc i1 i2
    by (simp add: add.commute)
  show ?thesis
    using step_exec [OF sc i0 d, of H] f g index_unat [OF i]
    by (simp add: Push_def)
qed

lemma step_StoreFast:
  assumes c: "codeAt vm (ip vm) [opNum N OpStoreFast, b]"
    and d: "decode N (opNum N OpStoreFast) = Some OpStoreFast"
    and i: "unat (ucast b :: 8 word) < length (locals (frameAt vm (currentFrame vm)))"
    and s: "stack vm = v # rest"
  shows "step H N vm =
     Next (vm\<lparr>ip := ip vm + 2, stack := rest,
              heap := (heap vm)[locals (frameAt vm (currentFrame vm))
                                  ! unat (ucast b :: 8 word) := v]\<rparr>)"
proof -
  from codeAt_index [OF c, of 0] codeAt_index [OF c, of 1]
  obtain sc where sc: "currentScope vm = Some sc"
    and i0: "index (Instructions sc) (ip vm) = Some (opNum N OpStoreFast)"
    and i1: "index (Instructions sc) (ip vm + 1) = Some b"
    by auto
  have g: "fetch (vm\<lparr>ip := ip vm + 1\<rparr>) = Inr (ucast b, vm\<lparr>ip := ip vm + 2\<rparr>)"
    using fetch_at [of "vm\<lparr>ip := ip vm + 1\<rparr>" sc b] sc i1 by simp
  have fr: "frameAt (vm\<lparr>ip := ip vm + 2, stack := rest\<rparr>) (currentFrame vm)
      = frameAt vm (currentFrame vm)" by (simp add: frameAt_def)
  show ?thesis
    using step_exec [OF sc i0 d, of H] g s index_unat [OF i] fr
    by (simp add: Pop_def store_def)
qed

lemma popCells_cells:
  "stack vm = map Cell cells @ rest \<Longrightarrow>
     popCells (length cells) vm = (Some cells, vm\<lparr>stack := rest\<rparr>)"
proof (induction cells arbitrary: vm)
  case Nil
  then show ?case by simp
next
  case (Cons a cells)
  have "popCells (length cells) (vm\<lparr>stack := map Cell cells @ rest\<rparr>)
      = (Some cells, vm\<lparr>stack := rest\<rparr>)"
    using Cons.IH [of "vm\<lparr>stack := map Cell cells @ rest\<rparr>"] by simp
  then show ?case using Cons.prems by (simp add: Pop_def)
qed

lemma popCells_other:
  "stack vm = map Cell cells @ x # rest \<Longrightarrow> \<not> isCell x \<Longrightarrow> length cells < k \<Longrightarrow>
     popCells k vm = (None, vm\<lparr>stack := rest\<rparr>)"
proof (induction cells arbitrary: vm k)
  case Nil
  then obtain j where k: "k = Suc j" by (cases k) auto
  show ?case using Nil k by (simp add: Pop_def isCell_def split: object.splits)
next
  case (Cons a cells)
  then obtain j where k: "k = Suc j" by (cases k) auto
  have "popCells j (vm\<lparr>stack := map Cell cells @ x # rest\<rparr>) = (None, vm\<lparr>stack := rest\<rparr>)"
    using Cons.IH [of "vm\<lparr>stack := map Cell cells @ x # rest\<rparr>" j] Cons.prems k by simp
  then show ?case using Cons.prems k by (simp add: Pop_def)
qed

lemma step_LoadClosure:
  assumes c: "codeAt vm (ip vm) [opNum N OpLoadClosure, clo, chi, flo, fhi]"
    and d: "decode N (opNum N OpLoadClosure) = Some OpLoadClosure"
    and sc: "currentScope vm = Some sc"
  shows "(stack vm = map Cell cells @ rest \<and> length cells = unat (flo OR push_bit 8 fhi)
            \<and> unat (clo OR push_bit 8 chi) < length (Constants sc)
            \<and> Constants sc ! unat (clo OR push_bit 8 chi) = CompiledFunction n ps ds ins fsc fv
          \<longrightarrow> step H N vm =
                Next (vm\<lparr>ip := ip vm + 5,
                         stack := CompiledFunction n ps ds ins fsc cells # rest\<rparr>))
       \<and> (stack vm = map Cell cells @ x # rest \<and> \<not> isCell x
            \<and> length cells < unat (flo OR push_bit 8 fhi)
          \<longrightarrow> step H N vm = Return (Some ExpectedCell) (vm\<lparr>ip := ip vm + 5, stack := rest\<rparr>))"
proof -
  from codeAt_index [OF c, of 0] codeAt_index [OF c, of 1] codeAt_index [OF c, of 2]
    codeAt_index [OF c, of 3] codeAt_index [OF c, of 4] sc
  have i0: "index (Instructions sc) (ip vm) = Some (opNum N OpLoadClosure)"
    and i1: "index (Instructions sc) (ip vm + 1) = Some clo"
    and i2: "index (Instructions sc) (ip vm + 2) = Some chi"
    and i3: "index (Instructions sc) (ip vm + 3) = Some flo"
    and i4: "index (Instructions sc) (ip vm + 4) = Some fhi"
    by auto
  have g: "fetch2 (vm\<lparr>ip := ip vm + 1\<rparr>)
      = Inr (clo OR push_bit 8 chi, vm\<lparr>ip := ip vm + 3\<rparr>)"
    using fetch2_at [of "vm\<lparr>ip := ip vm + 1\<rparr>" sc clo chi] sc i1 i2
    by (simp add: add.commute)
  have h: "fetch2 (vm\<lparr>ip := ip vm + 3\<rparr>)
      = Inr (flo OR push_bit 8 fhi, vm\<lparr>ip := ip vm + 5\<rparr>)"
    using fetch2_at [of "vm\<lparr>ip := ip vm + 3\<rparr>" sc flo fhi] sc i3 i4
    by (simp add: add.commute)
  have e: "step H N vm = exec H N sc OpLoadClosure (vm\<lparr>ip := ip vm + 1\<rparr>)"
    using step_exec [OF sc i0 d, of H] .
  show ?thesis
  proof (intro conjI impI)
    assume a: "stack vm = map Cell cells @ rest \<and> length cells = unat (flo OR push_bit 8 fhi)
            \<and> unat (clo OR push_bit 8 chi) < length (Constants sc)
            \<and> Constants sc ! unat (clo OR push_bit 8 chi) = CompiledFunction n ps ds ins fsc fv"
    then have p: "popCells (unat (flo OR push_bit 8 fhi)) (vm\<lparr>ip := ip vm + 5\<rparr>)
        = (Some cells, vm\<lparr>ip := ip vm + 5, stack := rest\<rparr>)"
      using popCells_cells [of "vm\<lparr>ip := ip vm + 5\<rparr>" cells rest] by simp
    from a have ix: "index (Constants sc) (uint (clo OR push_bit 8 chi))
        = Some (CompiledFunction n ps ds ins fsc fv)"
      using index_unat [of "clo OR push_bit 8 chi" "Constants sc"] by simp
    show "step H N vm =
        Next (vm\<lparr>ip := ip vm + 5, stack := CompiledFunction n ps ds ins fsc cells # rest\<rparr>)"
      unfolding e using g h p ix by (simp add: NewClosure_def Push_def)
  next
    assume a: "stack vm = map Cell cells @ x # rest \<and> \<not> isCell x
            \<and> length cells < unat (flo OR push_bit 8 fhi)"
    then have p: "popCells (unat (flo OR push_bit 8 fhi)) (vm\<lparr>ip := ip vm + 5\<rparr>)
        = (None, vm\<lparr>ip := ip vm + 5, stack := rest\<rparr>)"
      using popCells_other [of "vm\<lparr>ip := ip vm + 5\<rparr>" cells x rest
          "unat (flo OR push_bit 8 fhi)"] by simp
    show "step H N vm = Return (Some ExpectedCell) (vm\<lparr>ip := ip vm + 5, stack := rest\<rparr>)"
      unfolding e using g h p by simp
  qed
qed

lemma step_LoadClosure_length:
  assumes c: "codeAt vm (ip vm) [opNum N OpLoadClosure, clo, chi, flo, fhi]"
    and d: "decode N (opNum N OpLoadClosure) = Some OpLoadClosure"
    and s: "step H N vm = Next vm'"
  shows "\<exists>n ps ds ins fsc free rest.
      stack vm' = CompiledFunction n ps ds ins fsc free # rest
      \<and> length free = unat (flo OR push_bit 8 fhi)"
proof -
  from codeAt_index [OF c, of 0] codeAt_index [OF c, of 1] codeAt_index [OF c, of 2]
    codeAt_index [OF c, of 3] codeAt_index [OF c, of 4]
  obtain sc where sc: "currentScope vm = Some sc"
    and i0: "index (Instructions sc) (ip vm) = Some (opNum N OpLoadClosure)"
    and i1: "index (Instructions sc) (ip vm + 1) = Some clo"
    and i2: "index (Instructions sc) (ip vm + 2) = Some chi"
    and i3: "index (Instructions sc) (ip vm + 3) = Some flo"
    and i4: "index (Instructions sc) (ip vm + 4) = Some fhi"
    by auto
  have g: "fetch2 (vm\<lparr>ip := ip vm + 1\<rparr>)
      = Inr (clo OR push_bit 8 chi, vm\<lparr>ip := ip vm + 3\<rparr>)"
    using fetch2_at [of "vm\<lparr>ip := ip vm + 1\<rparr>" sc clo chi] sc i1 i2
    by (simp add: add.commute)
  have h: "fetch2 (vm\<lparr>ip := ip vm + 3\<rparr>)
      = Inr (flo OR push_bit 8 fhi, vm\<lparr>ip := ip vm + 5\<rparr>)"
    using fetch2_at [of "vm\<lparr>ip := ip vm + 3\<rparr>" sc flo fhi] sc i3 i4
    by (simp add: add.commute)
  have e: "exec H N sc OpLoadClosure (vm\<lparr>ip := ip vm + 1\<rparr>) = Next vm'"
    using step_exec [OF sc i0 d, of H] s by simp
  obtain r vm3 where p: "popCells (unat (flo OR push_bit 8 fhi)) (vm\<lparr>ip := ip vm + 5\<rparr>) = (r, vm3)"
    by (cases "popCells (unat (flo OR push_bit 8 fhi)) (vm\<lparr>ip := ip vm + 5\<rparr>)") auto
  from e g h p obtain free where r: "r = Some free"
    by (cases r) auto
  have l: "length free = unat (flo OR push_bit 8 fhi)"
    using popCells_length_fst [of "unat (flo OR push_bit 8 fhi)" "vm\<lparr>ip := ip vm + 5\<rparr>" free] p r
    by simp
  from e g h p r l show ?thesis
    by (auto simp add: NewClosure_def Push_def split: option.splits object.splits)
qed

text \<open>
  Claim C2. \<open>MakeCell\<close> pushes a cell that holds the address of the slot of the local in
  the declaring frame, the slot that \<open>LoadFast\<close> and \<open>StoreFast\<close> of that frame read and
  write; \<open>StoreFree\<close> and \<open>LoadFree\<close> of a closure write and read the slot whose address its
  free variable holds; and a slot that was written holds the value for every later read.
  So the closure and the declaring frame work on one slot, and successive calls of the
  closure see each other's updates: the counter program of scenario 3, in the layout
  that the VM reads, leaves 1, 2 and 3, the 3 on top.
\<close>

theorem closure_cell_shared:
  "(codeAt vm (ip vm) [opNum N OpMakeCell, lo, hi, b]
      \<and> decode N (opNum N OpMakeCell) = Some OpMakeCell
      \<and> unat (ucast b :: 8 word) \<le> framesIndex vm
      \<and> unat (lo OR push_bit 8 hi)
           < length (locals (frameAt vm (framesIndex vm - unat (ucast b :: 8 word))))
    \<longrightarrow> step H N vm =
          Next (vm\<lparr>ip := ip vm + 4,
                   stack := Cell (locals (frameAt vm (framesIndex vm - unat (ucast b :: 8 word)))
                                    ! unat (lo OR push_bit 8 hi)) # stack vm\<rparr>))
   \<and> (codeAt vm (ip vm) [opNum N OpStoreFree, lo, hi]
      \<and> decode N (opNum N OpStoreFree) = Some OpStoreFree
      \<and> fn (frameAt vm (currentFrame vm)) = Some f
      \<and> unat (lo OR push_bit 8 hi) < length (FreeVars f) \<and> stack vm = v # rest
    \<longrightarrow> step H N vm =
          Next (vm\<lparr>ip := ip vm + 3, stack := rest,
                   heap := (heap vm)[FreeVars f ! unat (lo OR push_bit 8 hi) := v]\<rparr>))
   \<and> (codeAt vm (ip vm) [opNum N OpLoadFree, lo, hi]
      \<and> decode N (opNum N OpLoadFree) = Some OpLoadFree
      \<and> fn (frameAt vm (currentFrame vm)) = Some f
      \<and> unat (lo OR push_bit 8 hi) < length (FreeVars f)
    \<longrightarrow> step H N vm =
          Next (vm\<lparr>ip := ip vm + 3,
                   stack := load (FreeVars f ! unat (lo OR push_bit 8 hi)) vm # stack vm\<rparr>))
   \<and> (codeAt vm (ip vm) [opNum N OpStoreFast, b]
      \<and> decode N (opNum N OpStoreFast) = Some OpStoreFast
      \<and> unat (ucast b :: 8 word) < length (locals (frameAt vm (currentFrame vm)))
      \<and> stack vm = v # rest
    \<longrightarrow> step H N vm =
          Next (vm\<lparr>ip := ip vm + 2, stack := rest,
                   heap := (heap vm)[locals (frameAt vm (currentFrame vm))
                                       ! unat (ucast b :: 8 word) := v]\<rparr>))
   \<and> (codeAt vm (ip vm) [opNum N OpLoadFast, lo, hi]
      \<and> decode N (opNum N OpLoadFast) = Some OpLoadFast
      \<and> unat (lo OR push_bit 8 hi) < length (locals (frameAt vm (currentFrame vm)))
    \<longrightarrow> step H N vm =
          Next (vm\<lparr>ip := ip vm + 3,
                   stack := load (locals (frameAt vm (currentFrame vm))
                                    ! unat (lo OR push_bit 8 hi)) vm # stack vm\<rparr>))
   \<and> (a < length (heap vm) \<longrightarrow> load a (vm\<lparr>heap := (heap vm)[a := v]\<rparr>) = v)
   \<and> observe (runScope exampleHost exampleNumbering (counterVM exampleNumbering))
       = Some (Inr (None, [Integer 3, Integer 2, Integer 1]))"
proof (intro conjI impI)
  assume "codeAt vm (ip vm) [opNum N OpMakeCell, lo, hi, b]
      \<and> decode N (opNum N OpMakeCell) = Some OpMakeCell
      \<and> unat (ucast b :: 8 word) \<le> framesIndex vm
      \<and> unat (lo OR push_bit 8 hi)
           < length (locals (frameAt vm (framesIndex vm - unat (ucast b :: 8 word))))"
  then show "step H N vm =
          Next (vm\<lparr>ip := ip vm + 4,
                   stack := Cell (locals (frameAt vm (framesIndex vm - unat (ucast b :: 8 word)))
                                    ! unat (lo OR push_bit 8 hi)) # stack vm\<rparr>)"
    using step_MakeCell [of vm N lo hi b H] by blast
next
  assume "codeAt vm (ip vm) [opNum N OpStoreFree, lo, hi]
      \<and> decode N (opNum N OpStoreFree) = Some OpStoreFree
      \<and> fn (frameAt vm (currentFrame vm)) = Some f
      \<and> unat (lo OR push_bit 8 hi) < length (FreeVars f) \<and> stack vm = v # rest"
  then show "step H N vm =
          Next (vm\<lparr>ip := ip vm + 3, stack := rest,
                   heap := (heap vm)[FreeVars f ! unat (lo OR push_bit 8 hi) := v]\<rparr>)"
    using step_StoreFree [of vm N lo hi f v rest H] by blast
next
  assume "codeAt vm (ip vm) [opNum N OpLoadFree, lo, hi]
      \<and> decode N (opNum N OpLoadFree) = Some OpLoadFree
      \<and> fn (frameAt vm (currentFrame vm)) = Some f
      \<and> unat (lo OR push_bit 8 hi) < length (FreeVars f)"
  then show "step H N vm =
          Next (vm\<lparr>ip := ip vm + 3,
                   stack := load (FreeVars f ! unat (lo OR push_bit 8 hi)) vm # stack vm\<rparr>)"
    using step_LoadFree [of vm N lo hi f H] by blast
next
  assume "codeAt vm (ip vm) [opNum N OpStoreFast, b]
      \<and> decode N (opNum N OpStoreFast) = Some OpStoreFast
      \<and> unat (ucast b :: 8 word) < length (locals (frameAt vm (currentFrame vm)))
      \<and> stack vm = v # rest"
  then show "step H N vm =
          Next (vm\<lparr>ip := ip vm + 2, stack := rest,
                   heap := (heap vm)[locals (frameAt vm (currentFrame vm))
                                       ! unat (ucast b :: 8 word) := v]\<rparr>)"
    using step_StoreFast [of vm N b v rest H] by blast
next
  assume "codeAt vm (ip vm) [opNum N OpLoadFast, lo, hi]
      \<and> decode N (opNum N OpLoadFast) = Some OpLoadFast
      \<and> unat (lo OR push_bit 8 hi) < length (locals (frameAt vm (currentFrame vm)))"
  then show "step H N vm =
          Next (vm\<lparr>ip := ip vm + 3,
                   stack := load (locals (frameAt vm (currentFrame vm))
                                    ! unat (lo OR push_bit 8 hi)) vm # stack vm\<rparr>)"
    using step_LoadFast [of vm N lo hi H] by blast
next
  assume "a < length (heap vm)"
  then show "load a (vm\<lparr>heap := (heap vm)[a := v]\<rparr>) = v" by (simp add: load_def)
next
  show "observe (runScope exampleHost exampleNumbering (counterVM exampleNumbering))
       = Some (Inr (None, [Integer 3, Integer 2, Integer 1]))"
    by (rule counter_in_vm_layout)
qed

theorem closure_cell_shared_witness:
  "step exampleHost exampleNumbering
       (cellVM [opNum exampleNumbering OpMakeCell, 1, 0, 0] None [] [])
     = Next ((cellVM [opNum exampleNumbering OpMakeCell, 1, 0, 0] None [] [])
               \<lparr>ip := 4, stack := [Cell 1]\<rparr>)
   \<and> step exampleHost exampleNumbering
       (cellVM [opNum exampleNumbering OpStoreFree, 0, 0]
          (Some (NewClosure (incFnVM exampleNumbering) (fnScope (incFnVM exampleNumbering)) [1]))
          [Integer 8] [])
     = Next ((cellVM [opNum exampleNumbering OpStoreFree, 0, 0]
          (Some (NewClosure (incFnVM exampleNumbering) (fnScope (incFnVM exampleNumbering)) [1]))
          [Integer 8] [])\<lparr>ip := 3, stack := [], heap := [Integer 0, Integer 8]\<rparr>)
   \<and> step exampleHost exampleNumbering
       (cellVM [opNum exampleNumbering OpLoadFree, 0, 0]
          (Some (NewClosure (incFnVM exampleNumbering) (fnScope (incFnVM exampleNumbering)) [1]))
          [] [])
     = Next ((cellVM [opNum exampleNumbering OpLoadFree, 0, 0]
          (Some (NewClosure (incFnVM exampleNumbering) (fnScope (incFnVM exampleNumbering)) [1]))
          [] [])\<lparr>ip := 3, stack := [Integer 7]\<rparr>)
   \<and> step exampleHost exampleNumbering
       (cellVM [opNum exampleNumbering OpStoreFast, 1] None [Integer 8] [])
     = Next ((cellVM [opNum exampleNumbering OpStoreFast, 1] None [Integer 8] [])
               \<lparr>ip := 2, stack := [], heap := [Integer 0, Integer 8]\<rparr>)
   \<and> step exampleHost exampleNumbering
       (cellVM [opNum exampleNumbering OpLoadFast, 1, 0] None [] [])
     = Next ((cellVM [opNum exampleNumbering OpLoadFast, 1, 0] None [] [])
               \<lparr>ip := 3, stack := [Integer 7]\<rparr>)
   \<and> load 1 ((cellVM [] None [] [])\<lparr>heap := (heap (cellVM [] None [] []))[1 := Integer 8]\<rparr>)
     = Integer 8"
proof -
  let ?cl = "NewClosure (incFnVM exampleNumbering) (fnScope (incFnVM exampleNumbering)) [1]"
  have d: "decode exampleNumbering (opNum exampleNumbering OpMakeCell) = Some OpMakeCell"
    "decode exampleNumbering (opNum exampleNumbering OpStoreFree) = Some OpStoreFree"
    "decode exampleNumbering (opNum exampleNumbering OpLoadFree) = Some OpLoadFree"
    "decode exampleNumbering (opNum exampleNumbering OpStoreFast) = Some OpStoreFast"
    "decode exampleNumbering (opNum exampleNumbering OpLoadFast) = Some OpLoadFast"
    by (simp_all add: decode_def switchCases_def exampleNumbering_def)
  have 1: "step exampleHost exampleNumbering
       (cellVM [opNum exampleNumbering OpMakeCell, 1, 0, 0] None [] [])
     = Next ((cellVM [opNum exampleNumbering OpMakeCell, 1, 0, 0] None [] [])
               \<lparr>ip := 4, stack := [Cell 1]\<rparr>)"
    using d closure_cell_shared [where N = exampleNumbering and H = exampleHost
        and vm = "cellVM [opNum exampleNumbering OpMakeCell, 1, 0, 0] None [] []"
        and lo = 1 and hi = 0 and b = 0]
    by (simp add: cellVM_def codeAt_def frameAt_def)
  have 2: "step exampleHost exampleNumbering
       (cellVM [opNum exampleNumbering OpStoreFree, 0, 0] (Some ?cl) [Integer 8] [])
     = Next ((cellVM [opNum exampleNumbering OpStoreFree, 0, 0] (Some ?cl) [Integer 8] [])
               \<lparr>ip := 3, stack := [], heap := [Integer 0, Integer 8]\<rparr>)"
    using d closure_cell_shared [where N = exampleNumbering and H = exampleHost
        and vm = "cellVM [opNum exampleNumbering OpStoreFree, 0, 0] (Some ?cl) [Integer 8] []"
        and lo = 0 and hi = 0 and f = ?cl and v = "Integer 8" and rest = "[]"]
    by (simp add: cellVM_def codeAt_def frameAt_def NewClosure_def incFnVM_def)
  have 3: "step exampleHost exampleNumbering
       (cellVM [opNum exampleNumbering OpLoadFree, 0, 0] (Some ?cl) [] [])
     = Next ((cellVM [opNum exampleNumbering OpLoadFree, 0, 0] (Some ?cl) [] [])
               \<lparr>ip := 3, stack := [Integer 7]\<rparr>)"
    using d closure_cell_shared [where N = exampleNumbering and H = exampleHost
        and vm = "cellVM [opNum exampleNumbering OpLoadFree, 0, 0] (Some ?cl) [] []"
        and lo = 0 and hi = 0 and f = ?cl]
    by (simp add: cellVM_def codeAt_def frameAt_def NewClosure_def incFnVM_def load_def)
  have 4: "step exampleHost exampleNumbering
       (cellVM [opNum exampleNumbering OpStoreFast, 1] None [Integer 8] [])
     = Next ((cellVM [opNum exampleNumbering OpStoreFast, 1] None [Integer 8] [])
               \<lparr>ip := 2, stack := [], heap := [Integer 0, Integer 8]\<rparr>)"
    using d closure_cell_shared [where N = exampleNumbering and H = exampleHost
        and vm = "cellVM [opNum exampleNumbering OpStoreFast, 1] None [Integer 8] []"
        and b = 1 and v = "Integer 8" and rest = "[]"]
    by (simp add: cellVM_def codeAt_def frameAt_def)
  have 5: "step exampleHost exampleNumbering
       (cellVM [opNum exampleNumbering OpLoadFast, 1, 0] None [] [])
     = Next ((cellVM [opNum exampleNumbering OpLoadFast, 1, 0] None [] [])
               \<lparr>ip := 3, stack := [Integer 7]\<rparr>)"
    using d closure_cell_shared [where N = exampleNumbering and H = exampleHost
        and vm = "cellVM [opNum exampleNumbering OpLoadFast, 1, 0] None [] []"
        and lo = 1 and hi = 0]
    by (simp add: cellVM_def codeAt_def frameAt_def load_def)
  have 6: "load 1 ((cellVM [] None [] [])\<lparr>heap := (heap (cellVM [] None [] []))[1 := Integer 8]\<rparr>)
     = Integer 8"
    using closure_cell_shared [where vm = "cellVM [] None [] []" and a = 1 and v = "Integer 8"]
    by (simp add: cellVM_def)
  from 1 2 3 4 5 6 show ?thesis by simp
qed

lemma emitMakeCells_words:
  "\<exists>c'. emitMakeCells N rs c = Inr c'
      \<and> Instructions (current c') = Instructions (current c) @ concat (map (makeCellWords N) rs)
      \<and> Constants (current c') = Constants (current c)"
proof (induction rs arbitrary: c)
  case Nil
  then show ?case by simp
next
  case (Cons r rs)
  let ?c1 = "c\<lparr>current := setInstructions (Instructions (current c) @ makeCellWords N r) (current c)\<rparr>"
  have e: "emit0 N OpMakeCell [Index (resSymbol r), of_nat (Depth r - 1)] c = Inr ?c1"
    by (simp add: emit0_ok makeCellWords_def)
  from Cons.IH [of ?c1] obtain c' where c': "emitMakeCells N rs ?c1 = Inr c'"
      "Instructions (current c') = Instructions (current ?c1) @ concat (map (makeCellWords N) rs)"
      "Constants (current c') = Constants (current ?c1)"
    by blast
  show ?case
    using e c' by (simp add: setInstructions_def)
qed

lemma leaveFunc_closure:
  assumes "parents c = parent # ps" "Free (Symbols (current c)) \<noteq> []"
  shows "\<exists>c'. leaveFunc N None params defaults c = Inr c'
      \<and> Instructions (current c')
          = Instructions parent @ concat (map (makeCellWords N) (Free (Symbols (current c))))
              @ [opNum N OpLoadClosure, of_nat (length (Constants parent)),
                 of_nat (length (Free (Symbols (current c))))]
      \<and> Constants (current c')
          = Constants parent
              @ [CompiledFunction [] params defaults (Instructions (current c)) (current c) []]"
proof -
  let ?rs = "Free (Symbols (current c))"
  let ?c1 = "c\<lparr>current := setChildren (Children parent @ [current c]) parent, parents := ps\<rparr>"
  from emitMakeCells_words [of N ?rs ?c1] obtain c2 where c2: "emitMakeCells N ?rs ?c1 = Inr c2"
      "Instructions (current c2) = Instructions (current ?c1) @ concat (map (makeCellWords N) ?rs)"
      "Constants (current c2) = Constants (current ?c1)"
    by blast
  show ?thesis
    using assms c2
    by (simp add: leaveFunc_def Let_def constant'_def emit0_ok setConstants_def
        setInstructions_def setChildren_def)
qed

lemma popCells_2: "popCells 2 vm = popCells (Suc (Suc 0)) vm"
  by (simp add: numeral_2_eq_2)

lemma twoCells_run:
  "observe (runScope H exampleNumbering (twoCellsVM exampleNumbering))
     = Some (Inr (None, [NewClosure (incFnVM exampleNumbering)
                           (fnScope (incFnVM exampleNumbering)) [1, 0]]))"
  by (simp add: twoCellsVM_def incFnVM_def exampleNumbering_def vm_defs Let_def loop.simps
      popCells_2)

text \<open>
  Claim C8. \<open>compileFunc\<close> emits one \<open>MakeCell\<close> for each free symbol of the function, in
  their order, and then \<open>LoadClosure\<close> with the index of the function and the number of the
  free symbols. In the VM each \<open>MakeCell\<close> pushes exactly one cell, so that many cells are
  on the stack when \<open>LoadClosure\<close> executes; \<open>LoadClosure\<close> pops as many values as its
  second operand says, builds the closure with these cells (the last pushed first), and
  whenever it succeeds the free variables of the closure are as many as the operand; a
  popped value that is no cell makes it return the error \<open>expected cell\<close>. The code that
  captures two locals, in the layout that the VM reads, builds a closure of two cells.
\<close>

theorem closure_construction:
  "(\<exists>c'. emitMakeCells N rs c = Inr c'
      \<and> Instructions (current c') = Instructions (current c) @ concat (map (makeCellWords N) rs)
      \<and> Constants (current c') = Constants (current c))
   \<and> (parents c = parent # ps' \<and> Free (Symbols (current c)) \<noteq> []
    \<longrightarrow> (\<exists>c'. leaveFunc N None params defaults c = Inr c'
          \<and> Instructions (current c')
              = Instructions parent @ concat (map (makeCellWords N) (Free (Symbols (current c))))
                  @ [opNum N OpLoadClosure, of_nat (length (Constants parent)),
                     of_nat (length (Free (Symbols (current c))))]
          \<and> Constants (current c')
              = Constants parent
                  @ [CompiledFunction [] params defaults (Instructions (current c)) (current c) []]))
   \<and> (codeAt vm (ip vm) [opNum N OpMakeCell, lo, hi, b]
      \<and> decode N (opNum N OpMakeCell) = Some OpMakeCell
      \<and> unat (ucast b :: 8 word) \<le> framesIndex vm
      \<and> unat (lo OR push_bit 8 hi)
           < length (locals (frameAt vm (framesIndex vm - unat (ucast b :: 8 word))))
    \<longrightarrow> step H N vm =
          Next (vm\<lparr>ip := ip vm + 4,
                   stack := Cell (locals (frameAt vm (framesIndex vm - unat (ucast b :: 8 word)))
                                    ! unat (lo OR push_bit 8 hi)) # stack vm\<rparr>))
   \<and> (codeAt vm (ip vm) [opNum N OpLoadClosure, clo, chi, flo, fhi]
      \<and> decode N (opNum N OpLoadClosure) = Some OpLoadClosure
      \<and> currentScope vm = Some sc
      \<and> stack vm = map Cell cells @ rest \<and> length cells = unat (flo OR push_bit 8 fhi)
      \<and> unat (clo OR push_bit 8 chi) < length (Constants sc)
      \<and> Constants sc ! unat (clo OR push_bit 8 chi) = CompiledFunction n ps ds ins fsc fv
    \<longrightarrow> step H N vm =
          Next (vm\<lparr>ip := ip vm + 5, stack := CompiledFunction n ps ds ins fsc cells # rest\<rparr>))
   \<and> (codeAt vm (ip vm) [opNum N OpLoadClosure, clo, chi, flo, fhi]
      \<and> decode N (opNum N OpLoadClosure) = Some OpLoadClosure
      \<and> step H N vm = Next vm'
    \<longrightarrow> (\<exists>n ps ds ins fsc free rest.
          stack vm' = CompiledFunction n ps ds ins fsc free # rest
          \<and> length free = unat (flo OR push_bit 8 fhi)))
   \<and> (codeAt vm (ip vm) [opNum N OpLoadClosure, clo, chi, flo, fhi]
      \<and> decode N (opNum N OpLoadClosure) = Some OpLoadClosure
      \<and> stack vm = map Cell cells @ x # rest \<and> \<not> isCell x
      \<and> length cells < unat (flo OR push_bit 8 fhi)
    \<longrightarrow> step H N vm = Return (Some ExpectedCell) (vm\<lparr>ip := ip vm + 5, stack := rest\<rparr>))
   \<and> observe (runScope H exampleNumbering (twoCellsVM exampleNumbering))
       = Some (Inr (None, [NewClosure (incFnVM exampleNumbering)
                             (fnScope (incFnVM exampleNumbering)) [1, 0]]))"
proof (intro conjI impI)
  show "\<exists>c'. emitMakeCells N rs c = Inr c'
      \<and> Instructions (current c') = Instructions (current c) @ concat (map (makeCellWords N) rs)
      \<and> Constants (current c') = Constants (current c)"
    by (rule emitMakeCells_words)
next
  assume "parents c = parent # ps' \<and> Free (Symbols (current c)) \<noteq> []"
  then show "\<exists>c'. leaveFunc N None params defaults c = Inr c'
          \<and> Instructions (current c')
              = Instructions parent @ concat (map (makeCellWords N) (Free (Symbols (current c))))
                  @ [opNum N OpLoadClosure, of_nat (length (Constants parent)),
                     of_nat (length (Free (Symbols (current c))))]
          \<and> Constants (current c')
              = Constants parent
                  @ [CompiledFunction [] params defaults (Instructions (current c)) (current c) []]"
    using leaveFunc_closure [of c parent ps' N params defaults] by blast
next
  assume "codeAt vm (ip vm) [opNum N OpMakeCell, lo, hi, b]
      \<and> decode N (opNum N OpMakeCell) = Some OpMakeCell
      \<and> unat (ucast b :: 8 word) \<le> framesIndex vm
      \<and> unat (lo OR push_bit 8 hi)
           < length (locals (frameAt vm (framesIndex vm - unat (ucast b :: 8 word))))"
  then show "step H N vm =
          Next (vm\<lparr>ip := ip vm + 4,
                   stack := Cell (locals (frameAt vm (framesIndex vm - unat (ucast b :: 8 word)))
                                    ! unat (lo OR push_bit 8 hi)) # stack vm\<rparr>)"
    using step_MakeCell [of vm N lo hi b H] by blast
next
  assume "codeAt vm (ip vm) [opNum N OpLoadClosure, clo, chi, flo, fhi]
      \<and> decode N (opNum N OpLoadClosure) = Some OpLoadClosure
      \<and> currentScope vm = Some sc
      \<and> stack vm = map Cell cells @ rest \<and> length cells = unat (flo OR push_bit 8 fhi)
      \<and> unat (clo OR push_bit 8 chi) < length (Constants sc)
      \<and> Constants sc ! unat (clo OR push_bit 8 chi) = CompiledFunction n ps ds ins fsc fv"
  then show "step H N vm =
          Next (vm\<lparr>ip := ip vm + 5, stack := CompiledFunction n ps ds ins fsc cells # rest\<rparr>)"
    using step_LoadClosure [where vm = vm and N = N and clo = clo and chi = chi and flo = flo
        and fhi = fhi and sc = sc and cells = cells and H = H and rest = rest and n = n
        and ps = ps and ds = ds and ins = ins and fsc = fsc and fv = fv]
    by blast
next
  assume "codeAt vm (ip vm) [opNum N OpLoadClosure, clo, chi, flo, fhi]
      \<and> decode N (opNum N OpLoadClosure) = Some OpLoadClosure
      \<and> step H N vm = Next vm'"
  then show "\<exists>n ps ds ins fsc free rest.
          stack vm' = CompiledFunction n ps ds ins fsc free # rest
          \<and> length free = unat (flo OR push_bit 8 fhi)"
    using step_LoadClosure_length [of vm N clo chi flo fhi H vm'] by blast
next
  assume a: "codeAt vm (ip vm) [opNum N OpLoadClosure, clo, chi, flo, fhi]
      \<and> decode N (opNum N OpLoadClosure) = Some OpLoadClosure
      \<and> stack vm = map Cell cells @ x # rest \<and> \<not> isCell x
      \<and> length cells < unat (flo OR push_bit 8 fhi)"
  then obtain sc' where "currentScope vm = Some sc'"
    by (auto simp add: codeAt_def split: option.splits)
  with a show "step H N vm = Return (Some ExpectedCell) (vm\<lparr>ip := ip vm + 5, stack := rest\<rparr>)"
    using step_LoadClosure [where vm = vm and N = N and clo = clo and chi = chi and flo = flo
        and fhi = fhi and sc = sc' and cells = cells and H = H and x = x and rest = rest]
    by blast
next
  show "observe (runScope H exampleNumbering (twoCellsVM exampleNumbering))
       = Some (Inr (None, [NewClosure (incFnVM exampleNumbering)
                             (fnScope (incFnVM exampleNumbering)) [1, 0]]))"
    by (rule twoCells_run)
qed

theorem closure_construction_witness:
  "(\<exists>c'. leaveFunc exampleNumbering None [] [] closureCompiler = Inr c'
       \<and> Instructions (current c') = [11, 0, 0, 11, 1, 0, 10, 0, 2])
   \<and> step exampleHost exampleNumbering
       (cellVM [opNum exampleNumbering OpMakeCell, 1, 0, 0] None [] [])
     = Next ((cellVM [opNum exampleNumbering OpMakeCell, 1, 0, 0] None [] [])
               \<lparr>ip := 4, stack := [Cell 1]\<rparr>)
   \<and> step exampleHost exampleNumbering
       (cellVM [opNum exampleNumbering OpLoadClosure, 0, 0, 2, 0] None [Cell 1, Cell 0]
          [incFnVM exampleNumbering])
     = Next ((cellVM [opNum exampleNumbering OpLoadClosure, 0, 0, 2, 0] None [Cell 1, Cell 0]
                [incFnVM exampleNumbering])
               \<lparr>ip := 5,
                 stack := [NewClosure (incFnVM exampleNumbering)
                             (fnScope (incFnVM exampleNumbering)) [1, 0]]\<rparr>)
   \<and> step exampleHost exampleNumbering
       (cellVM [opNum exampleNumbering OpLoadClosure, 0, 0, 2, 0] None [Cell 1, Integer 3]
          [incFnVM exampleNumbering])
     = Return (Some ExpectedCell)
         ((cellVM [opNum exampleNumbering OpLoadClosure, 0, 0, 2, 0] None [Cell 1, Integer 3]
             [incFnVM exampleNumbering])\<lparr>ip := 5, stack := []\<rparr>)"
proof -
  have d: "decode exampleNumbering (opNum exampleNumbering OpMakeCell) = Some OpMakeCell"
    "decode exampleNumbering (opNum exampleNumbering OpLoadClosure) = Some OpLoadClosure"
    by (simp_all add: decode_def switchCases_def exampleNumbering_def)
  have 1: "\<exists>c'. leaveFunc exampleNumbering None [] [] closureCompiler = Inr c'
       \<and> Instructions (current c') = [11, 0, 0, 11, 1, 0, 10, 0, 2]"
    using closure_construction [where c = closureCompiler and N = exampleNumbering
        and parent = "Scope ''main'' False NewTable [] [] [] [] []" and ps' = "[]"
        and params = "[]" and defaults = "[]", THEN conjunct2, THEN conjunct1]
    by (simp add: closureCompiler_def Free_def makeCellWords_def exampleNumbering_def) blast
  have 2: "step exampleHost exampleNumbering
       (cellVM [opNum exampleNumbering OpMakeCell, 1, 0, 0] None [] [])
     = Next ((cellVM [opNum exampleNumbering OpMakeCell, 1, 0, 0] None [] [])
               \<lparr>ip := 4, stack := [Cell 1]\<rparr>)"
    using d closure_construction [where N = exampleNumbering and H = exampleHost
        and vm = "cellVM [opNum exampleNumbering OpMakeCell, 1, 0, 0] None [] []"
        and lo = 1 and hi = 0 and b = 0]
    by (simp add: cellVM_def codeAt_def frameAt_def)
  have 3: "step exampleHost exampleNumbering
       (cellVM [opNum exampleNumbering OpLoadClosure, 0, 0, 2, 0] None [Cell 1, Cell 0]
          [incFnVM exampleNumbering])
     = Next ((cellVM [opNum exampleNumbering OpLoadClosure, 0, 0, 2, 0] None [Cell 1, Cell 0]
                [incFnVM exampleNumbering])
               \<lparr>ip := 5,
                 stack := [NewClosure (incFnVM exampleNumbering)
                             (fnScope (incFnVM exampleNumbering)) [1, 0]]\<rparr>)"
    using d closure_construction [where N = exampleNumbering and H = exampleHost
        and vm = "cellVM [opNum exampleNumbering OpLoadClosure, 0, 0, 2, 0] None
                    [Cell 1, Cell 0] [incFnVM exampleNumbering]"
        and clo = 0 and chi = 0 and flo = 2 and fhi = 0
        and sc = "Scope ''main'' False NewTable [opNum exampleNumbering OpLoadClosure, 0, 0, 2, 0]
                    [incFnVM exampleNumbering] [] [] []"
        and cells = "[1, 0]" and rest = "[]"
        and n = "''inc''" and ps = "[]" and ds = "[]" and ins = "[]"
        and fsc = "fnScope (incFnVM exampleNumbering)" and fv = "[]"]
    by (simp add: cellVM_def codeAt_def incFnVM_def NewClosure_def)
  have 4: "step exampleHost exampleNumbering
       (cellVM [opNum exampleNumbering OpLoadClosure, 0, 0, 2, 0] None [Cell 1, Integer 3]
          [incFnVM exampleNumbering])
     = Return (Some ExpectedCell)
         ((cellVM [opNum exampleNumbering OpLoadClosure, 0, 0, 2, 0] None [Cell 1, Integer 3]
             [incFnVM exampleNumbering])\<lparr>ip := 5, stack := []\<rparr>)"
    using d closure_construction [where N = exampleNumbering and H = exampleHost
        and vm = "cellVM [opNum exampleNumbering OpLoadClosure, 0, 0, 2, 0] None
                    [Cell 1, Integer 3] [incFnVM exampleNumbering]"
        and clo = 0 and chi = 0 and flo = 2 and fhi = 0
        and cells = "[1]" and x = "Integer 3" and rest = "[]"]
    by (simp add: cellVM_def codeAt_def isCell_def)
  from 1 2 3 4 show ?thesis by blast
qed

section \<open>Loops\<close>

text \<open>
  Claim C5. The claim wants \<open>break\<close> to reach the \<open>Nop\<close> after the loop and \<open>continue\<close> to
  reach the start of the loop, also in a function body. \<open>compileSimpleFor\<close> takes the start
  position from \<open>c.Instructions()\<close>, the code of the main scope, not of the current one,
  while \<open>emit\<close> and \<open>calculateDelta\<close> work on the current scope: in the function \<open>f\<close> of
  \<open>var x = 1; func f() { for { continue } }\<close> the loop starts at position 0 of the code of
  \<open>f\<close>, the recorded start is 4 (the length of the main code so far), and the operands of
  the two backward jumps are \<open>0 - 4\<close> and \<open>2 - 4\<close> in 16 bits. On these words the first step
  of the VM, the \<open>continue\<close>, sets \<open>ip\<close> to \<open>-65532\<close>, not to the start of the loop, and the
  next read of an opcode is out of range; the same happens when the operands stand in two
  code words each, low byte first. In the main scope, where the two codes are one, the
  operands are the distances to the \<open>Nop\<close> and to the start.
\<close>

theorem loop_jumps_fail:
  "map_sum id (\<lambda>m. map codeOf (Constants m))
       (Compile exampleNumbering progContinue (NewCompiler [] ''main'' None))
     = Inr [[], Instructions (continueWords exampleNumbering)]
   \<and> Instructions (continueWords exampleNumbering) = [24, 65532, 24, 65534, 1, 18, 1]
   \<and> ipAfterStep H exampleNumbering (continueWords exampleNumbering) = Some (- 65532)
   \<and> observe (runScope H exampleNumbering (continueWords exampleNumbering))
       = Some (Inl IndexOutOfRange)
   \<and> ipAfterStep H exampleNumbering (continueBytes exampleNumbering) = Some (- 65532)
   \<and> observe (runScope H exampleNumbering (continueBytes exampleNumbering))
       = Some (Inl IndexOutOfRange)
   \<and> map_sum id Instructions (Compile exampleNumbering progBreak (NewCompiler [] ''main'' None))
     = Inr [23, 4, 24, 2, 1, 3, 0]"
  by (simp add: progContinue_def progBreak_def continueWords_def continueBytes_def
      ipAfterStep_def codeOf_def NewTable_def compiler_defs vm_defs loop.simps)

end
